theory Spec2Isabelle
  imports Complex_Main
begin

section \<open>The map engine of \<open>html_export.py\<close>: view state and projection\<close>

text \<open>
  The JavaScript engine that \<open>_generate_js\<close> emits keeps its view in the closure variables
  \<open>viewCenter\<close>, \<open>viewZoom\<close> and reads the canvas size and \<open>window.devicePixelRatio\<close> on every
  call.  The model passes them as one record.  JavaScript numbers are modelled as exact
  reals: rounding, infinities and NaN are outside the model.
\<close>

record view_state =
  viewCenterLat :: real
  viewCenterLng :: real
  viewZoom :: real
  canvas_width :: real
  canvas_height :: real
  devicePixelRatio :: real

record pixel =
  x_of :: real
  y_of :: real

record latlng =
  lat_of :: real
  lng_of :: real

definition TILE_SIZE :: real where
  "TILE_SIZE = 256"

definition getCenterPixel :: "view_state \<Rightarrow> pixel" where
  "getCenterPixel v =
     (let scale = 2 powr viewZoom v * TILE_SIZE;
          x = (viewCenterLng v + 180) / 360 * scale;
          latRad = viewCenterLat v * pi / 180;
          y = (1 - ln (tan latRad + 1 / cos latRad) / pi) / 2 * scale
      in \<lparr>x_of = x, y_of = y\<rparr>)"

definition latlngToPixel :: "view_state \<Rightarrow> real \<Rightarrow> real \<Rightarrow> pixel" where
  "latlngToPixel v lat lng =
     (let scale = 2 powr viewZoom v * TILE_SIZE;
          x = (lng + 180) / 360 * scale;
          latRad = lat * pi / 180;
          y = (1 - ln (tan latRad + 1 / cos latRad) / pi) / 2 * scale;
          centerPixel = getCenterPixel v;
          canvasWidth = canvas_width v / devicePixelRatio v;
          canvasHeight = canvas_height v / devicePixelRatio v
      in \<lparr>x_of = x - x_of centerPixel + canvasWidth / 2,
          y_of = y - y_of centerPixel + canvasHeight / 2\<rparr>)"

definition pixelToLatLng :: "view_state \<Rightarrow> real \<Rightarrow> real \<Rightarrow> latlng" where
  "pixelToLatLng v px py =
     (let centerPixel = getCenterPixel v;
          canvasWidth = canvas_width v / devicePixelRatio v;
          canvasHeight = canvas_height v / devicePixelRatio v;
          worldX = px + x_of centerPixel - canvasWidth / 2;
          worldY = py + y_of centerPixel - canvasHeight / 2;
          scale = 2 powr viewZoom v * TILE_SIZE;
          lng = worldX / scale * 360 - 180;
          n = pi - 2 * pi * worldY / scale;
          lat = 180 / pi * arctan (0.5 * (exp n - exp (- n)))
      in \<lparr>lat_of = lat, lng_of = lng\<rparr>)"

section \<open>ViewportController: gestures\<close>

text \<open>
  \<open>normalizeLng\<close> is two \<open>while\<close> loops in sequence; each is a recursive function whose
  termination is proved, so the model returns for every real argument.
\<close>

function normalizeLng_dec :: "real \<Rightarrow> real" where
  "normalizeLng_dec lng = (if lng > 180 then normalizeLng_dec (lng - 360) else lng)"
  by pat_completeness auto
termination
proof (relation "measure (\<lambda>lng. nat \<lceil>lng / 360\<rceil>)")
  show "wf (measure (\<lambda>lng. nat \<lceil>lng / 360\<rceil>))" by simp
next
  fix lng :: real
  assume "180 < lng"
  then have "0 < lng / 360" by simp
  then have pos: "0 < \<lceil>lng / 360\<rceil>" by simp
  have e: "(lng - 360) / 360 = lng / 360 - 1" by (simp add: diff_divide_distrib)
  have "\<lceil>(lng - 360) / 360\<rceil> = \<lceil>lng / 360\<rceil> - 1"
    unfolding e by (rule ceiling_diff_one)
  with pos have "nat \<lceil>(lng - 360) / 360\<rceil> < nat \<lceil>lng / 360\<rceil>" by linarith
  then show "(lng - 360, lng) \<in> measure (\<lambda>lng. nat \<lceil>lng / 360\<rceil>)"
    by (simp only: in_measure)
qed

declare normalizeLng_dec.simps [simp del]

function normalizeLng_inc :: "real \<Rightarrow> real" where
  "normalizeLng_inc lng = (if lng < - 180 then normalizeLng_inc (lng + 360) else lng)"
  by pat_completeness auto
termination
proof (relation "measure (\<lambda>lng. nat \<lceil>- lng / 360\<rceil>)")
  show "wf (measure (\<lambda>lng. nat \<lceil>- lng / 360\<rceil>))" by simp
next
  fix lng :: real
  assume "lng < - 180"
  then have "0 < - lng / 360" by simp
  then have pos: "0 < \<lceil>- lng / 360\<rceil>" by (simp only: zero_less_ceiling)
  have e: "- (lng + 360) / 360 = - lng / 360 - 1" by (simp add: add_divide_distrib)
  have "\<lceil>- (lng + 360) / 360\<rceil> = \<lceil>- lng / 360\<rceil> - 1"
    unfolding e by (rule ceiling_diff_one)
  with pos have "nat \<lceil>- (lng + 360) / 360\<rceil> < nat \<lceil>- lng / 360\<rceil>" by linarith
  then show "(lng + 360, lng) \<in> measure (\<lambda>lng. nat \<lceil>- lng / 360\<rceil>)"
    by (simp only: in_measure)
qed

declare normalizeLng_inc.simps [simp del]

definition normalizeLng :: "real \<Rightarrow> real" where
  "normalizeLng lng = normalizeLng_inc (normalizeLng_dec lng)"

text \<open>
  The two loops of \<open>onWheel\<close> that bring the target longitude within half a turn of the
  view centre \<open>c\<close>.
\<close>

function targetLng_dec :: "real \<Rightarrow> real \<Rightarrow> real" where
  "targetLng_dec c targetLng =
     (if targetLng - c > 180 then targetLng_dec c (targetLng - 360) else targetLng)"
  by pat_completeness auto
termination
proof (relation "measure (\<lambda>(c, t). nat \<lceil>(t - c) / 360\<rceil>)")
  show "wf (measure (\<lambda>(c, t). nat \<lceil>(t - c) / 360\<rceil>))" by simp
next
  fix c t :: real
  assume "180 < t - c"
  then have "0 < (t - c) / 360" by simp
  then have pos: "0 < \<lceil>(t - c) / 360\<rceil>" by (simp only: zero_less_ceiling)
  have e: "(t - 360 - c) / 360 = (t - c) / 360 - 1" by (simp add: diff_divide_distrib)
  have "\<lceil>(t - 360 - c) / 360\<rceil> = \<lceil>(t - c) / 360\<rceil> - 1"
    unfolding e by (rule ceiling_diff_one)
  with pos have "nat \<lceil>(t - 360 - c) / 360\<rceil> < nat \<lceil>(t - c) / 360\<rceil>" by linarith
  then show "((c, t - 360), (c, t)) \<in> measure (\<lambda>(c, t). nat \<lceil>(t - c) / 360\<rceil>)"
    by (simp only: in_measure prod.case)
qed

declare targetLng_dec.simps [simp del]

function targetLng_inc :: "real \<Rightarrow> real \<Rightarrow> real" where
  "targetLng_inc c targetLng =
     (if targetLng - c < - 180 then targetLng_inc c (targetLng + 360) else targetLng)"
  by pat_completeness auto
termination
proof (relation "measure (\<lambda>(c, t). nat \<lceil>(c - t) / 360\<rceil>)")
  show "wf (measure (\<lambda>(c, t). nat \<lceil>(c - t) / 360\<rceil>))" by simp
next
  fix c t :: real
  assume "t - c < - 180"
  then have "0 < (c - t) / 360" by simp
  then have pos: "0 < \<lceil>(c - t) / 360\<rceil>" by (simp only: zero_less_ceiling)
  have e: "(c - (t + 360)) / 360 = (c - t) / 360 - 1"
    by (simp add: diff_divide_distrib add_divide_distrib)
  have "\<lceil>(c - (t + 360)) / 360\<rceil> = \<lceil>(c - t) / 360\<rceil> - 1"
    unfolding e by (rule ceiling_diff_one)
  with pos have "nat \<lceil>(c - (t + 360)) / 360\<rceil> < nat \<lceil>(c - t) / 360\<rceil>" by linarith
  then show "((c, t + 360), (c, t)) \<in> measure (\<lambda>(c, t). nat \<lceil>(c - t) / 360\<rceil>)"
    by (simp only: in_measure prod.case)
qed

declare targetLng_inc.simps [simp del]

record mouse_event =
  clientX :: real
  clientY :: real

record wheel_event = mouse_event +
  deltaY :: real

record dom_rect =
  rect_left :: real
  rect_top :: real

text \<open>
  \<open>onWheel\<close>, in the three stages of its body: the target under the pointer with its
  longitude brought near the centre, the new centre computed at the new zoom before it is
  clamped, and the handler itself.
\<close>

definition onWheel_target :: "view_state \<Rightarrow> real \<Rightarrow> real \<Rightarrow> latlng" where
  "onWheel_target v mouseX mouseY =
     (let targetLatLng = pixelToLatLng v mouseX mouseY;
          targetLng = lng_of targetLatLng;
          targetLng = targetLng_dec (viewCenterLng v) targetLng;
          targetLng = targetLng_inc (viewCenterLng v) targetLng
      in targetLatLng\<lparr>lng_of := targetLng\<rparr>)"

definition onWheel_newCenter :: "view_state \<Rightarrow> latlng \<Rightarrow> real \<Rightarrow> real \<Rightarrow> latlng" where
  "onWheel_newCenter v targetLatLng mouseX mouseY =
     (let canvasWidth = canvas_width v / devicePixelRatio v;
          canvasHeight = canvas_height v / devicePixelRatio v;
          scale = 2 powr viewZoom v * TILE_SIZE;
          targetWorldX = (lng_of targetLatLng + 180) / 360 * scale;
          targetLatRad = lat_of targetLatLng * pi / 180;
          targetWorldY = (1 - ln (tan targetLatRad + 1 / cos targetLatRad) / pi) / 2 * scale;
          newCenterWorldX = targetWorldX - mouseX + canvasWidth / 2;
          newCenterWorldY = targetWorldY - mouseY + canvasHeight / 2;
          newCenterLng = newCenterWorldX / scale * 360 - 180;
          n = pi - 2 * pi * newCenterWorldY / scale;
          newCenterLat = 180 / pi * arctan (0.5 * (exp n - exp (- n)))
      in \<lparr>lat_of = newCenterLat, lng_of = newCenterLng\<rparr>)"

definition onWheel :: "view_state \<Rightarrow> dom_rect \<Rightarrow> wheel_event \<Rightarrow> view_state" where
  "onWheel v rect e =
     (let mouseX = clientX e - rect_left rect;
          mouseY = clientY e - rect_top rect;
          targetLatLng = onWheel_target v mouseX mouseY;
          delta = (if deltaY e > 0 then - 0.5 else 0.5);
          newZoom = max 1 (min 20 (viewZoom v + delta))
      in if newZoom = viewZoom v then v
         else
           (let v' = v\<lparr>viewZoom := newZoom\<rparr>;
                c = onWheel_newCenter v' targetLatLng mouseX mouseY;
                newCenterLat = max (- 85) (min 85 (lat_of c));
                newCenterLng = normalizeLng (lng_of c)
            in v'\<lparr>viewCenterLat := newCenterLat, viewCenterLng := newCenterLng\<rparr>))"

definition setZoom :: "view_state \<Rightarrow> real \<Rightarrow> view_state" where
  "setZoom v z = v\<lparr>viewZoom := max 1 (min 20 z)\<rparr>"

text \<open>
  The gesture variables of the closure.  \<open>null\<close> is \<open>None\<close>.  A handler that would read an
  index of \<open>null\<close> (a TypeError in JavaScript) returns \<open>None\<close>.  The tooltip and the redraw
  are effects on the page, not on this state, and are left out of the handlers.
\<close>

record engine_state =
  view :: view_state
  isDragging :: bool
  dragStart :: "pixel option"
  dragCenterStart :: "(real \<times> real) option"
  touchStartDist :: "real option"
  touchStartZoom :: "real option"

definition onMouseDown :: "engine_state \<Rightarrow> mouse_event \<Rightarrow> engine_state" where
  "onMouseDown s e =
     s\<lparr>isDragging := True,
       dragStart := Some \<lparr>x_of = clientX e, y_of = clientY e\<rparr>,
       dragCenterStart := Some (viewCenterLat (view s), viewCenterLng (view s))\<rparr>"

text \<open>
  The block that \<open>onMouseMove\<close> and \<open>onTouchMove\<close> share word for word: the pan step for a
  contact now at client position \<open>(cx, cy)\<close>.
\<close>

definition dragMove :: "engine_state \<Rightarrow> pixel \<Rightarrow> real \<Rightarrow> real \<Rightarrow> engine_state option" where
  "dragMove s start cx cy =
     (let dx = cx - x_of start;
          dy = cy - y_of start;
          v = view s;
          startLatLng = pixelToLatLng v (canvas_width v / 2 / devicePixelRatio v)
                                        (canvas_height v / 2 / devicePixelRatio v);
          endLatLng = pixelToLatLng v (canvas_width v / 2 / devicePixelRatio v - dx)
                                      (canvas_height v / 2 / devicePixelRatio v - dy)
      in case dragCenterStart s of
           None \<Rightarrow> None
         | Some (lat0, lng0) \<Rightarrow>
             Some (s\<lparr>view := v\<lparr>viewCenterLat := lat0 - (lat_of endLatLng - lat_of startLatLng),
                                 viewCenterLng := lng0 - (lng_of endLatLng - lng_of
                                     startLatLng)\<rparr>\<rparr>))"

definition onMouseMove :: "engine_state \<Rightarrow> mouse_event \<Rightarrow> engine_state option" where
  "onMouseMove s e =
     (case dragStart s of
        Some start \<Rightarrow> if isDragging s then dragMove s start (clientX e) (clientY e) else Some s
      | None \<Rightarrow> Some s)"

definition onMouseUp :: "engine_state \<Rightarrow> engine_state" where
  "onMouseUp s = s\<lparr>isDragging := False, dragStart := None, dragCenterStart := None\<rparr>"

definition onMouseLeave :: "engine_state \<Rightarrow> engine_state" where
  "onMouseLeave s = s\<lparr>isDragging := False\<rparr>"

definition getTouchDistance :: "mouse_event \<Rightarrow> mouse_event \<Rightarrow> real" where
  "getTouchDistance t0 t1 =
     (let dx = clientX t0 - clientX t1;
          dy = clientY t0 - clientY t1
      in sqrt (dx * dx + dy * dy))"

definition onTouchStart :: "engine_state \<Rightarrow> mouse_event list \<Rightarrow> engine_state" where
  "onTouchStart s touches =
     (case touches of
        [t0] \<Rightarrow> s\<lparr>isDragging := True,
                  dragStart := Some \<lparr>x_of = clientX t0, y_of = clientY t0\<rparr>,
                  dragCenterStart := Some (viewCenterLat (view s), viewCenterLng (view s))\<rparr>
      | [t0, t1] \<Rightarrow> s\<lparr>isDragging := False,
                      touchStartDist := Some (getTouchDistance t0 t1),
                      touchStartZoom := Some (viewZoom (view s))\<rparr>
      | _ \<Rightarrow> s)"

definition onTouchMove :: "engine_state \<Rightarrow> mouse_event list \<Rightarrow> engine_state option" where
  "onTouchMove s touches =
     (case (touches, dragStart s) of
        ([t0], Some start) \<Rightarrow>
          if isDragging s then dragMove s start (clientX t0) (clientY t0) else Some s
      | ([t0, t1], _) \<Rightarrow>
          (case touchStartDist s of
             None \<Rightarrow> Some s
           | Some d \<Rightarrow>
               if d = 0 then Some s
               else
                 (let dist = getTouchDistance t0 t1;
                      scale = dist / d;
                      z0 = (case touchStartZoom s of None \<Rightarrow> 0 | Some z \<Rightarrow> z)
                  in Some (s\<lparr>view := setZoom (view s) (z0 + log 2 scale)\<rparr>)))
      | _ \<Rightarrow> Some s)"

definition onTouchEnd :: "engine_state \<Rightarrow> engine_state" where
  "onTouchEnd s = s\<lparr>isDragging := False, dragStart := None, touchStartDist := None\<rparr>"

section \<open>HitTester\<close>

text \<open>
  The feature data that the engine reads from \<open>mapData\<close>.  A coordinate \<open>[lat, lng]\<close> is a
  pair.  Of a feature's style only the fields that the hit test reads are kept, and the
  properties, which only the tooltip text reads, are left out.
\<close>

record point_style =
  radius :: real

record line_style =
  stroke_width :: real

record point =
  p_lat :: real
  p_lng :: real
  p_style :: point_style

record line =
  coords :: "(real \<times> real) list"
  l_style :: line_style

record polygon =
  rings :: "(real \<times> real) list list"

record map_data =
  points :: "point list"
  lines :: "line list"
  polygons :: "polygon list"

datatype found_type = FoundPoint | FoundLine | FoundPolygon

text \<open>
  The three loops of \<open>updateTooltip\<close> have one shape: \<open>i\<close> runs from \<open>length - 1\<close> down to
  \<open>0\<close> and the loop breaks at the first index whose feature is hit.  \<open>scanDown hit n\<close> is
  that loop with \<open>n\<close> indices left to visit.
\<close>

fun scanDown :: "(nat \<Rightarrow> bool) \<Rightarrow> nat \<Rightarrow> nat option" where
  "scanDown hit 0 = None"
| "scanDown hit (Suc i) = (if hit i then Some i else scanDown hit i)"

definition pointHit :: "view_state \<Rightarrow> real \<Rightarrow> real \<Rightarrow> point \<Rightarrow> bool" where
  "pointHit v x y point =
     (let pos = latlngToPixel v (p_lat point) (p_lng point);
          dist = sqrt ((x - x_of pos)\<^sup>2 + (y - y_of pos)\<^sup>2)
      in dist \<le> radius (p_style point) + 3)"

definition pointToSegmentDistance :: "real \<Rightarrow> real \<Rightarrow> real \<Rightarrow> real \<Rightarrow> real \<Rightarrow> real \<Rightarrow> real" where
  "pointToSegmentDistance px py x1 y1 x2 y2 =
     (let dx = x2 - x1;
          dy = y2 - y1;
          len2 = dx * dx + dy * dy
      in if len2 = 0 then sqrt ((px - x1)\<^sup>2 + (py - y1)\<^sup>2)
         else
           (let t = ((px - x1) * dx + (py - y1) * dy) / len2;
                t = max 0 (min 1 t);
                nearX = x1 + t * dx;
                nearY = y1 + t * dy
            in sqrt ((px - nearX)\<^sup>2 + (py - nearY)\<^sup>2)))"

fun isPointNearLine_loop :: "view_state \<Rightarrow> real \<Rightarrow> real \<Rightarrow> real \<Rightarrow> (real \<times> real) list \<Rightarrow> bool" where
  "isPointNearLine_loop v px py tolerance (c1 # c2 # cs) =
     (let p1 = latlngToPixel v (fst c1) (snd c1);
          p2 = latlngToPixel v (fst c2) (snd c2);
          dist = pointToSegmentDistance px py (x_of p1) (y_of p1) (x_of p2) (y_of p2)
      in if dist \<le> tolerance then True
         else isPointNearLine_loop v px py tolerance (c2 # cs))"
| "isPointNearLine_loop v px py tolerance cs = False"

definition isPointNearLine :: "view_state \<Rightarrow> real \<Rightarrow> real \<Rightarrow> line \<Rightarrow> bool" where
  "isPointNearLine v px py line =
     (let tolerance = stroke_width (l_style line) / 2 + 5
      in isPointNearLine_loop v px py tolerance (coords line))"

text \<open>
  \<open>pointInRing\<close>: the loop \<open>for (i = 0, j = ring.length - 1; i < ring.length; j = i++)\<close>.
  On the empty ring the start value of \<open>j\<close> is never read.
\<close>

function pointInRing_loop :: "real \<Rightarrow> real \<Rightarrow> pixel list \<Rightarrow> nat \<Rightarrow> nat \<Rightarrow> bool \<Rightarrow> bool" where
  "pointInRing_loop px py ring i j inside =
     (if i < length ring then
        (let xi = x_of (ring ! i); yi = y_of (ring ! i);
             xj = x_of (ring ! j); yj = y_of (ring ! j)
         in pointInRing_loop px py ring (Suc i) i
              (if ((yi > py) \<noteq> (yj > py)) \<and> (px < (xj - xi) * (py - yi) / (yj - yi) + xi)
               then \<not> inside else inside))
      else inside)"
  by pat_completeness auto
termination
  by (relation "measure (\<lambda>(px, py, ring, i, j, inside). length ring - i)") auto

declare pointInRing_loop.simps [simp del]

definition pointInRing :: "real \<Rightarrow> real \<Rightarrow> pixel list \<Rightarrow> bool" where
  "pointInRing px py ring = pointInRing_loop px py ring 0 (length ring - 1) False"

fun isPointInPolygon_holes :: "real \<Rightarrow> real \<Rightarrow> pixel list list \<Rightarrow> bool" where
  "isPointInPolygon_holes px py [] = True"
| "isPointInPolygon_holes px py (ring # pixelRings) =
     (if pointInRing px py ring then False else isPointInPolygon_holes px py pixelRings)"

definition isPointInPolygon :: "view_state \<Rightarrow> real \<Rightarrow> real \<Rightarrow> polygon \<Rightarrow> bool" where
  "isPointInPolygon v px py polygon =
     (if length (rings polygon) = 0 then False
      else
        (let pixelRings = map (\<lambda>ring. map (\<lambda>coord. latlngToPixel v (fst coord) (snd coord)) ring)
                              (rings polygon)
         in if \<not> pointInRing px py (pixelRings ! 0) then False
            else isPointInPolygon_holes px py (drop 1 pixelRings)))"

text \<open>
  \<open>updateTooltip\<close> up to the choice of \<open>found\<close> and \<open>foundType\<close>; the feature found is named
  by its index in its list.  What the tooltip then shows is outside the model.
\<close>

definition updateTooltip :: "view_state \<Rightarrow> map_data \<Rightarrow> real \<Rightarrow> real \<Rightarrow> (found_type \<times> nat) option" where
  "updateTooltip v mapData x y =
     (case scanDown (\<lambda>i. pointHit v x y (points mapData ! i)) (length (points mapData)) of
        Some i \<Rightarrow> Some (FoundPoint, i)
      | None \<Rightarrow>
          (case scanDown (\<lambda>i. isPointNearLine v x y (lines mapData ! i)) (length (lines mapData)) of
             Some i \<Rightarrow> Some (FoundLine, i)
           | None \<Rightarrow>
               (case scanDown (\<lambda>i. isPointInPolygon v x y (polygons mapData ! i))
                       (length (polygons mapData)) of
                  Some i \<Rightarrow> Some (FoundPolygon, i)
                | None \<Rightarrow> None)))"

text \<open>
  The condition under which one pass of the loop of \<open>pointInRing\<close> flips \<open>inside\<close>, for the
  edge from the vertex \<open>a = ring[i]\<close> to the vertex \<open>b = ring[j]\<close>: the horizontal ray from
  the query to the right crosses the edge.  It is named here to state the parity of the
  crossings.
\<close>

definition rayCrosses :: "real \<Rightarrow> real \<Rightarrow> pixel \<Rightarrow> pixel \<Rightarrow> bool" where
  "rayCrosses px py a b \<longleftrightarrow>
     ((y_of a > py) \<noteq> (y_of b > py))
     \<and> (px < (x_of b - x_of a) * (py - y_of a) / (y_of b - y_of a) + x_of a)"

section \<open>HtmlExport: ingestion\<close>

text \<open>
  The Python values that reach the \<open>add_*\<close> methods.  A dictionary is an association list
  with string keys, read with \<open>map_of\<close>; its keys are taken to be distinct, as those of a
  Python \<open>dict\<close> are.  Python floats are exact reals, and integers are unbounded.
\<close>

datatype pyval =
    PyNone
  | PyBool bool
  | PyInt int
  | PyFloat real
  | PyStr string
  | PyList "pyval list"
  | PyTuple "pyval list"
  | PyDict "(string \<times> pyval) list"

type_synonym pydict = "(string \<times> pyval) list"

datatype py_error = TypeError | ValueError | IndexError | OverflowError

text \<open>Python's truth value of an object, as \<open>or\<close> and \<open>not\<close> test it.\<close>

fun truthy :: "pyval \<Rightarrow> bool" where
  "truthy PyNone = False"
| "truthy (PyBool b) = b"
| "truthy (PyInt i) = (i \<noteq> 0)"
| "truthy (PyFloat r) = (r \<noteq> 0)"
| "truthy (PyStr s) = (s \<noteq> [])"
| "truthy (PyList xs) = (xs \<noteq> [])"
| "truthy (PyTuple xs) = (xs \<noteq> [])"
| "truthy (PyDict d) = (d \<noteq> [])"

definition py_or :: "pyval \<Rightarrow> pyval \<Rightarrow> pyval" where
  "py_or a b = (if truthy a then a else b)"

definition dict_get :: "pydict \<Rightarrow> string \<Rightarrow> pyval" where
  "dict_get d key = (case map_of d key of None \<Rightarrow> PyNone | Some v \<Rightarrow> v)"

text \<open>
  The built-in \<open>float\<close>.  How Python reads a string as a float is not part of this
  repository: it is the parameter \<open>str_float\<close>, \<open>None\<close> where \<open>float\<close> raises ValueError.
  On an integer \<open>float\<close> raises OverflowError when the integer rounds beyond the largest
  double, that is from \<open>2\<^sup>1\<^sup>0\<^sup>2\<^sup>4 - 2\<^sup>9\<^sup>7\<^sup>0\<close> on in absolute value.
\<close>

definition float_overflows :: "int \<Rightarrow> bool" where
  "float_overflows i \<longleftrightarrow> 2 ^ 1024 - 2 ^ 970 \<le> \<bar>i\<bar>"

fun py_float :: "(string \<Rightarrow> real option) \<Rightarrow> pyval \<Rightarrow> py_error + real" where
  "py_float str_float (PyInt i) = (if float_overflows i then Inl OverflowError else Inr (of_int i))"
| "py_float str_float (PyFloat r) = Inr r"
| "py_float str_float (PyBool b) = Inr (if b then 1 else 0)"
| "py_float str_float (PyStr s) =
     (case str_float s of None \<Rightarrow> Inl ValueError | Some r \<Rightarrow> Inr r)"
| "py_float str_float v = Inl TypeError"

record stored_point =
  sp_lat :: real
  sp_lng :: real
  sp_properties :: pydict
  sp_style :: pydict

record stored_line =
  sl_coords :: "(real \<times> real) list"
  sl_properties :: pydict
  sl_style :: pydict

record stored_polygon =
  sg_rings :: "(real \<times> real) list list"
  sg_properties :: pydict
  sg_style :: pydict

record bounds =
  min_lat :: real
  max_lat :: real
  min_lng :: real
  max_lng :: real

text \<open>
  The fields of an \<open>HtmlExport\<close> instance that the data methods assign: \<open>_points\<close>,
  \<open>_lines\<close>, \<open>_polygons\<close> and \<open>_bounds\<close>.  \<open>_options\<close> is set once by the constructor.
\<close>

record html_export =
  self_points :: "stored_point list"
  self_lines :: "stored_line list"
  self_polygons :: "stored_polygon list"
  self_bounds :: "bounds option"

text \<open>The messages that the data methods print, each with the feature it names.\<close>

datatype diagnostic =
    PointMissingLatLng pydict
  | LineMissingCoordinates pydict
  | PolygonMissingCoordinates pydict
  | PolygonNoValidRings pydict
  | PolygonNeeds3Coordinates pydict

text \<open>
  What a call of a data method leaves behind: the instance as mutated so far, the lines
  printed, and the exception that ended the call, if one did.
\<close>

record run =
  exporter :: html_export
  printed :: "diagnostic list"
  raised :: "py_error option"

definition update_bounds :: "html_export \<Rightarrow> real \<Rightarrow> real \<Rightarrow> html_export" where
  "update_bounds self lat lng =
     (case self_bounds self of
        None \<Rightarrow>
          self\<lparr>self_bounds := Some \<lparr>min_lat = lat, max_lat = lat, min_lng = lng, max_lng = lng\<rparr>\<rparr>
      | Some b \<Rightarrow>
          self\<lparr>self_bounds := Some \<lparr>min_lat = min (min_lat b) lat, max_lat = max (max_lat b) lat,
                                      min_lng = min (min_lng b) lng, max_lng = max (max_lng b)
                                          lng\<rparr>\<rparr>)"

definition clear :: "html_export \<Rightarrow> html_export" where
  "clear self = self\<lparr>self_points := [], self_lines := [], self_polygons := [], self_bounds := None\<rparr>"

text \<open>
  The body of a \<open>for feature in features\<close> loop is a step on the instance that returns the
  lines it printed, or raises.  \<open>for_each\<close> is the loop: an exception ends it and leaves the
  instance as the earlier features made it.
\<close>

fun for_each :: "(html_export \<Rightarrow> 'a \<Rightarrow> py_error + html_export \<times> diagnostic list)
                   \<Rightarrow> run \<Rightarrow> 'a list \<Rightarrow> run" where
  "for_each step r [] = r"
| "for_each step r (x # xs) =
     (case step (exporter r) x of
        Inl e \<Rightarrow> r\<lparr>raised := Some e\<rparr>
      | Inr (self, msgs) \<Rightarrow> for_each step (r\<lparr>exporter := self, printed := printed r @ msgs\<rparr>) xs)"

text \<open>
  \<open>add_points\<close>.  \<open>lookup_first keys point\<close> is the loop
  \<open>for key in keys: if key in point and point[key] is not None: ...; break\<close>, with \<open>None\<close>
  when no key is found.  \<open>style\<close> is the dictionary that the method builds from its keyword
  arguments before the loop.
\<close>

fun lookup_first :: "string list \<Rightarrow> pydict \<Rightarrow> pyval" where
  "lookup_first [] point = PyNone"
| "lookup_first (key # keys) point =
     (case map_of point key of
        None \<Rightarrow> lookup_first keys point
      | Some v \<Rightarrow> if v \<noteq> PyNone then v else lookup_first keys point)"

definition add_points_step ::
  "(string \<Rightarrow> real option) \<Rightarrow> pydict \<Rightarrow> html_export \<Rightarrow> pydict
     \<Rightarrow> py_error + html_export \<times> diagnostic list" where
  "add_points_step str_float style self point =
     (let lat = lookup_first [''lat'', ''latitude'', ''y''] point;
          lng = lookup_first [''lng'', ''longitude'', ''lon'', ''x''] point
      in if lat = PyNone \<or> lng = PyNone then Inr (self, [PointMissingLatLng point])
         else
           (let properties = filter (\<lambda>(k, v). k \<notin> set [''lat'', ''latitude'', ''lng'',
                                        ''longitude'', ''lon'', ''x'', ''y'']) point
            in case py_float str_float lat of
                 Inl e \<Rightarrow> Inl e
               | Inr flat \<Rightarrow>
                   (case py_float str_float lng of
                      Inl e \<Rightarrow> Inl e
                    | Inr flng \<Rightarrow>
                        Inr (update_bounds
                               (self\<lparr>self_points := self_points self @
                                   [\<lparr>sp_lat = flat, sp_lng = flng,
                                     sp_properties = properties, sp_style = style\<rparr>]\<rparr>)
                               flat flng, []))))"

definition add_points ::
  "(string \<Rightarrow> real option) \<Rightarrow> pydict \<Rightarrow> html_export \<Rightarrow> pydict list \<Rightarrow> run" where
  "add_points str_float style self point_list =
     for_each (add_points_step str_float style)
       \<lparr>exporter = self, printed = [], raised = None\<rparr> point_list"

text \<open>\<open>_normalize_coords\<close>: one coordinate, then the loop over the list.\<close>

fun index_float :: "(string \<Rightarrow> real option) \<Rightarrow> pyval list \<Rightarrow> nat \<Rightarrow> py_error + real" where
  "index_float str_float coord i =
     (if i < length coord then py_float str_float (coord ! i) else Inl IndexError)"

fun normalize_coord :: "(string \<Rightarrow> real option) \<Rightarrow> pyval \<Rightarrow> py_error + real \<times> real" where
  "normalize_coord str_float (PyDict coord) =
     (let lat = py_or (py_or (dict_get coord ''lat'') (dict_get coord ''latitude''))
                      (dict_get coord ''y'');
          lng = py_or (py_or (dict_get coord ''lng'') (dict_get coord ''longitude''))
                      (dict_get coord ''x'')
      in if lat \<noteq> PyNone \<and> lng \<noteq> PyNone then
           (case py_float str_float lat of
              Inl e \<Rightarrow> Inl e
            | Inr flat \<Rightarrow>
                (case py_float str_float lng of Inl e \<Rightarrow> Inl e | Inr flng \<Rightarrow> Inr (flat, flng)))
         else Inr (0, 0))"
| "normalize_coord str_float (PyList coord) =
     (case index_float str_float coord 0 of
        Inl e \<Rightarrow> Inl e
      | Inr c0 \<Rightarrow>
          (case index_float str_float coord 1 of Inl e \<Rightarrow> Inl e | Inr c1 \<Rightarrow> Inr (c0, c1)))"
| "normalize_coord str_float (PyTuple coord) =
     (case index_float str_float coord 0 of
        Inl e \<Rightarrow> Inl e
      | Inr c0 \<Rightarrow>
          (case index_float str_float coord 1 of Inl e \<Rightarrow> Inl e | Inr c1 \<Rightarrow> Inr (c0, c1)))"
| "normalize_coord str_float coord = Inr (0, 0)"

fun normalize_coords :: "(string \<Rightarrow> real option) \<Rightarrow> pyval list \<Rightarrow> py_error + (real \<times> real) list" where
  "normalize_coords str_float [] = Inr []"
| "normalize_coords str_float (coord # coords') =
     (case normalize_coord str_float coord of
        Inl e \<Rightarrow> Inl e
      | Inr c \<Rightarrow>
          (case normalize_coords str_float coords' of
             Inl e \<Rightarrow> Inl e
           | Inr result \<Rightarrow> Inr (c # result)))"

text \<open>\<open>add_lines\<close>.  \<open>line_coords\<close> is the first statement of the loop body.\<close>

definition line_coords :: "pydict \<Rightarrow> pyval" where
  "line_coords line =
     py_or (py_or (py_or (dict_get line ''coords'') (dict_get line ''coordinates''))
                  (dict_get line ''path''))
           (dict_get line ''latlngs'')"

definition update_bounds_all :: "html_export \<Rightarrow> (real \<times> real) list \<Rightarrow> html_export" where
  "update_bounds_all self cs = foldl (\<lambda>s coord. update_bounds s (fst coord) (snd coord)) self cs"

definition add_lines_step ::
  "(string \<Rightarrow> real option) \<Rightarrow> pydict \<Rightarrow> html_export \<Rightarrow> pydict
     \<Rightarrow> py_error + html_export \<times> diagnostic list" where
  "add_lines_step str_float style self line =
     (case line_coords line of
        PyList coords' \<Rightarrow>
          if coords' = [] \<or> length coords' < 2 then Inr (self, [LineMissingCoordinates line])
          else
            (case normalize_coords str_float coords' of
               Inl e \<Rightarrow> Inl e
             | Inr normalized_coords \<Rightarrow>
                 (let properties = filter (\<lambda>(k, v). k \<notin> set [''coords'', ''coordinates'',
                                              ''path'', ''latlngs'']) line
                  in Inr (update_bounds_all
                            (self\<lparr>self_lines := self_lines self @
                                [\<lparr>sl_coords = normalized_coords,
                                  sl_properties = properties, sl_style = style\<rparr>]\<rparr>)
                            normalized_coords, [])))
      | _ \<Rightarrow> Inr (self, [LineMissingCoordinates line]))"

definition add_lines ::
  "(string \<Rightarrow> real option) \<Rightarrow> pydict \<Rightarrow> html_export \<Rightarrow> pydict list \<Rightarrow> run" where
  "add_lines str_float style self line_list =
     for_each (add_lines_step str_float style)
       \<lparr>exporter = self, printed = [], raised = None\<rparr> line_list"

text \<open>\<open>add_polygons\<close>.\<close>

definition polygon_coords :: "pydict \<Rightarrow> pyval" where
  "polygon_coords polygon =
     py_or (py_or (py_or (dict_get polygon ''coords'') (dict_get polygon ''coordinates''))
                  (dict_get polygon ''ring''))
           (dict_get polygon ''latlngs'')"

fun is_multi_ring :: "pyval list \<Rightarrow> bool" where
  "is_multi_ring (PyList (PyList c00 # c0) # coords') = True"
| "is_multi_ring coords' = False"

fun is_valid_ring :: "pyval \<Rightarrow> bool" where
  "is_valid_ring (PyList ring) = (length ring \<ge> 3)"
| "is_valid_ring ring = False"

text \<open>
  \<open>normalize_rings\<close> is the comprehension \<open>[self._normalize_coords(ring) for ring in
  valid_rings]\<close>.  Every element of \<open>valid_rings\<close> is a list, so its last equation is never
  reached.
\<close>

fun normalize_rings :: "(string \<Rightarrow> real option) \<Rightarrow> pyval list \<Rightarrow> py_error + (real \<times> real) list list"
    where
  "normalize_rings str_float [] = Inr []"
| "normalize_rings str_float (PyList ring # valid_rings) =
     (case normalize_coords str_float ring of
        Inl e \<Rightarrow> Inl e
      | Inr r \<Rightarrow>
          (case normalize_rings str_float valid_rings of
             Inl e \<Rightarrow> Inl e
           | Inr rs \<Rightarrow> Inr (r # rs)))"
| "normalize_rings str_float (ring # valid_rings) = Inl TypeError"

definition store_polygon :: "pydict \<Rightarrow> html_export \<Rightarrow> pydict \<Rightarrow> (real \<times> real) list list \<Rightarrow> html_export"
    where
  "store_polygon style self polygon rings' =
     (let properties = filter (\<lambda>(k, v). k \<notin> set [''coords'', ''coordinates'',
                                  ''ring'', ''latlngs'']) polygon
      in foldl update_bounds_all
           (self\<lparr>self_polygons := self_polygons self @
               [\<lparr>sg_rings = rings', sg_properties = properties, sg_style = style\<rparr>]\<rparr>)
           rings')"

definition add_polygons_step ::
  "(string \<Rightarrow> real option) \<Rightarrow> pydict \<Rightarrow> html_export \<Rightarrow> pydict
     \<Rightarrow> py_error + html_export \<times> diagnostic list" where
  "add_polygons_step str_float style self polygon =
     (case polygon_coords polygon of
        PyList coords' \<Rightarrow>
          if coords' = [] \<or> length coords' = 0 then Inr (self, [PolygonMissingCoordinates polygon])
          else if is_multi_ring coords' then
            (let valid_rings = filter is_valid_ring coords'
             in if valid_rings = [] then Inr (self, [PolygonNoValidRings polygon])
                else
                  (case normalize_rings str_float valid_rings of
                     Inl e \<Rightarrow> Inl e
                   | Inr rings' \<Rightarrow> Inr (store_polygon style self polygon rings', [])))
          else if length coords' < 3 then Inr (self, [PolygonNeeds3Coordinates polygon])
          else
            (case normalize_coords str_float coords' of
               Inl e \<Rightarrow> Inl e
             | Inr ring \<Rightarrow> Inr (store_polygon style self polygon [ring], []))
      | _ \<Rightarrow> Inr (self, [PolygonMissingCoordinates polygon]))"

definition add_polygons ::
  "(string \<Rightarrow> real option) \<Rightarrow> pydict \<Rightarrow> html_export \<Rightarrow> pydict list \<Rightarrow> run" where
  "add_polygons str_float style self polygon_list =
     for_each (add_polygons_step str_float style)
       \<lparr>exporter = self, printed = [], raised = None\<rparr> polygon_list"

text \<open>
  The order in which one set of bounds is at least as wide as another.
\<close>

definition widened :: "bounds \<Rightarrow> bounds \<Rightarrow> bool" where
  "widened b b' \<longleftrightarrow>
     min_lat b' \<le> min_lat b \<and> max_lat b \<le> max_lat b'
     \<and> min_lng b' \<le> min_lng b \<and> max_lng b \<le> max_lng b'"

definition bounds_cover :: "bounds \<Rightarrow> html_export \<Rightarrow> bool" where
  "bounds_cover b self \<longleftrightarrow> (\<exists>b'. self_bounds self = Some b' \<and> widened b b')"

text \<open>
  The three kinds of feature that the claim about skipping names, in the claim's words.  A
  sequence is a list or a tuple, and \<open>entries\<close> are what it holds; a value that is no
  sequence holds nothing.  A point is unresolvable when none of the latitude keys or none
  of the longitude keys holds a value.  A line has as many coordinates as its coordinate
  value has entries.  A polygon's coordinate value is a sequence of rings when its first
  entry is a sequence that starts with a sequence, and a single ring otherwise.
\<close>

fun entries :: "pyval \<Rightarrow> pyval list" where
  "entries (PyList xs) = xs"
| "entries (PyTuple xs) = xs"
| "entries v = []"

fun is_sequence :: "pyval \<Rightarrow> bool" where
  "is_sequence (PyList xs) = True"
| "is_sequence (PyTuple xs) = True"
| "is_sequence v = False"

definition point_unresolvable :: "pydict \<Rightarrow> bool" where
  "point_unresolvable point \<longleftrightarrow>
     (\<forall>key \<in> set [''lat'', ''latitude'', ''y''].
         map_of point key = None \<or> map_of point key = Some PyNone)
     \<or> (\<forall>key \<in> set [''lng'', ''longitude'', ''lon'', ''x''].
         map_of point key = None \<or> map_of point key = Some PyNone)"

definition line_fewer_than_two :: "pydict \<Rightarrow> bool" where
  "line_fewer_than_two line \<longleftrightarrow> length (entries (line_coords line)) < 2"

definition ring_sequence :: "pyval \<Rightarrow> bool" where
  "ring_sequence v \<longleftrightarrow>
     (case entries v of
        [] \<Rightarrow> False
      | c0 # cs \<Rightarrow> (case entries c0 of [] \<Rightarrow> False | c00 # c0s \<Rightarrow> is_sequence c00))"

definition polygon_rings :: "pydict \<Rightarrow> pyval list" where
  "polygon_rings polygon =
     (if ring_sequence (polygon_coords polygon) then entries (polygon_coords polygon)
      else [polygon_coords polygon])"

definition polygon_without_ring :: "pydict \<Rightarrow> bool" where
  "polygon_without_ring polygon \<longleftrightarrow>
     (\<forall>ring \<in> set (polygon_rings polygon). length (entries ring) < 3)"

text \<open>
  The features that the loops of \<open>add_lines\<close> and \<open>add_polygons\<close> skip, by the tests that
  the code makes: the coordinate value is not a list, or is a list that fails the length
  tests; and the line that \<open>add_polygons\<close> prints for a polygon that it skips.
\<close>

definition line_skipped :: "pydict \<Rightarrow> bool" where
  "line_skipped line \<longleftrightarrow>
     (case line_coords line of PyList coords' \<Rightarrow> length coords' < 2 | _ \<Rightarrow> True)"

definition polygon_skipped :: "pydict \<Rightarrow> bool" where
  "polygon_skipped polygon \<longleftrightarrow>
     (case polygon_coords polygon of
        PyList coords' \<Rightarrow>
          if is_multi_ring coords' then filter is_valid_ring coords' = []
          else length coords' < 3
      | _ \<Rightarrow> True)"

definition polygon_diagnostic :: "pydict \<Rightarrow> diagnostic" where
  "polygon_diagnostic polygon =
     (case polygon_coords polygon of
        PyList coords' \<Rightarrow>
          if coords' = [] then PolygonMissingCoordinates polygon
          else if is_multi_ring coords' then PolygonNoValidRings polygon
          else PolygonNeeds3Coordinates polygon
      | _ \<Rightarrow> PolygonMissingCoordinates polygon)"

text \<open>
  The dictionary that each loop body builds for a feature that it does not skip, or the
  exception that \<open>float\<close> raises while it is built; and the two statements that follow:
  the \<open>append\<close> and the calls of \<open>_update_bounds\<close>.  The coordinate value of a line or
  polygon that is not skipped is a list, and \<open>entries\<close> are its elements.
\<close>

definition point_record :: "(string \<Rightarrow> real option) \<Rightarrow> pydict \<Rightarrow> pydict \<Rightarrow> py_error + stored_point"
    where
  "point_record str_float style point =
     (case py_float str_float (lookup_first [''lat'', ''latitude'', ''y''] point) of
        Inl e \<Rightarrow> Inl e
      | Inr flat \<Rightarrow>
          (case py_float str_float (lookup_first [''lng'', ''longitude'', ''lon'', ''x''] point) of
             Inl e \<Rightarrow> Inl e
           | Inr flng \<Rightarrow>
               Inr \<lparr>sp_lat = flat, sp_lng = flng,
                    sp_properties = filter (\<lambda>(k, v). k \<notin> set [''lat'', ''latitude'', ''lng'',
                                               ''longitude'', ''lon'', ''x'', ''y'']) point,
                    sp_style = style\<rparr>))"

definition append_point :: "html_export \<Rightarrow> stored_point \<Rightarrow> html_export" where
  "append_point self q =
     update_bounds (self\<lparr>self_points := self_points self @ [q]\<rparr>) (sp_lat q) (sp_lng q)"

definition line_record :: "(string \<Rightarrow> real option) \<Rightarrow> pydict \<Rightarrow> pydict \<Rightarrow> py_error + stored_line" where
  "line_record str_float style line =
     (case normalize_coords str_float (entries (line_coords line)) of
        Inl e \<Rightarrow> Inl e
      | Inr normalized_coords \<Rightarrow>
          Inr \<lparr>sl_coords = normalized_coords,
               sl_properties = filter (\<lambda>(k, v). k \<notin> set [''coords'', ''coordinates'',
                                          ''path'', ''latlngs'']) line,
               sl_style = style\<rparr>)"

definition append_line :: "html_export \<Rightarrow> stored_line \<Rightarrow> html_export" where
  "append_line self q =
     update_bounds_all (self\<lparr>self_lines := self_lines self @ [q]\<rparr>) (sl_coords q)"

definition polygon_record :: "(string \<Rightarrow> real option) \<Rightarrow> pydict \<Rightarrow> pydict \<Rightarrow> py_error + stored_polygon"
    where
  "polygon_record str_float style polygon =
     (let coords' = entries (polygon_coords polygon)
      in case (if is_multi_ring coords'
               then normalize_rings str_float (filter is_valid_ring coords')
               else (case normalize_coords str_float coords' of
                       Inl e \<Rightarrow> Inl e
                     | Inr ring \<Rightarrow> Inr [ring])) of
           Inl e \<Rightarrow> Inl e
         | Inr rings' \<Rightarrow>
             Inr \<lparr>sg_rings = rings',
                  sg_properties = filter (\<lambda>(k, v). k \<notin> set [''coords'', ''coordinates'',
                                             ''ring'', ''latlngs'']) polygon,
                  sg_style = style\<rparr>)"

definition append_polygon :: "html_export \<Rightarrow> stored_polygon \<Rightarrow> html_export" where
  "append_polygon self q =
     foldl update_bounds_all (self\<lparr>self_polygons := self_polygons self @ [q]\<rparr>) (sg_rings q)"

section \<open>Theorems\<close>

subsection \<open>Mercator algebra\<close>

lemma scale_pos: "0 < 2 powr z * TILE_SIZE"
  by (simp add: TILE_SIZE_def)

lemma tan_sec_pos:
  assumes "- (pi / 2) < r" "r < pi / 2"
  shows "0 < tan r + 1 / cos r"
proof -
  have c: "0 < cos r" using assms by (simp add: cos_gt_zero_pi)
  have s: "- 1 < sin r"
  proof -
    have "sin r \<noteq> - 1"
    proof
      assume "sin r = - 1"
      then have "cos r = 0" using sin_cos_squared_add [of r] by simp
      then show False using c by simp
    qed
    moreover have "- 1 \<le> sin r" by simp
    ultimately show ?thesis by linarith
  qed
  have "tan r + 1 / cos r = (sin r + 1) / cos r"
    by (simp add: tan_def add_divide_distrib)
  then show ?thesis using c s by simp
qed

lemma sinh_ln_tan_sec:
  assumes "- (pi / 2) < r" "r < pi / 2"
  shows "0.5 * (exp (ln (tan r + 1 / cos r)) - exp (- ln (tan r + 1 / cos r))) = tan r"
proof -
  have c: "0 < cos r" using assms by (simp add: cos_gt_zero_pi)
  have p: "0 < tan r + 1 / cos r" using assms by (rule tan_sec_pos)
  have inv: "(tan r + 1 / cos r) * (1 / cos r - tan r) = 1"
  proof -
    have "(tan r + 1 / cos r) * (1 / cos r - tan r) = (1 - (sin r)\<^sup>2) / (cos r)\<^sup>2"
      using c by (simp add: tan_def field_simps power2_eq_square)
    also have "\<dots> = 1"
      using c sin_cos_squared_add [of r] by (simp add: field_simps)
    finally show ?thesis .
  qed
  have "exp (- ln (tan r + 1 / cos r)) = 1 / (tan r + 1 / cos r)"
    using p by (simp add: exp_minus inverse_eq_divide)
  also have "\<dots> = 1 / cos r - tan r"
  proof -
    have "1 / cos r - tan r = ((tan r + 1 / cos r) * (1 / cos r - tan r)) / (tan r + 1 / cos r)"
      using p by simp
    then show ?thesis using inv by simp
  qed
  finally have "exp (- ln (tan r + 1 / cos r)) = 1 / cos r - tan r" .
  then show ?thesis using p by simp
qed

lemma mercator_inverse:
  assumes "- 90 < lat" "lat < 90"
  shows "180 / pi * arctan (0.5 * (exp (ln (tan (lat * pi / 180) + 1 / cos (lat * pi / 180)))
           - exp (- ln (tan (lat * pi / 180) + 1 / cos (lat * pi / 180))))) = lat"
proof -
  let ?r = "lat * pi / 180"
  have lo: "- (pi / 2) < ?r"
  proof -
    have "(- 90) * pi < lat * pi" using assms(1) pi_gt_zero by (rule mult_strict_right_mono)
    then show ?thesis by simp
  qed
  have hi: "?r < pi / 2"
  proof -
    have "lat * pi < 90 * pi" using assms(2) pi_gt_zero by (rule mult_strict_right_mono)
    then show ?thesis by simp
  qed
  have a: "arctan (tan ?r) = ?r" using lo hi by (rule arctan_tan)
  have "180 / pi * arctan (0.5 * (exp (ln (tan ?r + 1 / cos ?r)) - exp (- ln (tan ?r + 1 / cos
      ?r))))
        = 180 / pi * arctan (tan ?r)"
    by (simp only: sinh_ln_tan_sec [OF lo hi])
  also have "\<dots> = 180 / pi * ?r" by (simp only: a)
  also have "\<dots> = lat" by simp
  finally show ?thesis .
qed

lemma merc_n_inverse:
  assumes "0 < (s::real)"
  shows "pi - 2 * pi * ((1 - L / pi) / 2 * s) / s = L"
proof -
  have "2 * pi * ((1 - L / pi) / 2 * s) / s = pi * (1 - L / pi)"
    using assms by simp
  also have "\<dots> = pi - L" by (simp add: right_diff_distrib)
  finally show ?thesis by simp
qed

lemma lng_inverse:
  assumes "0 < (s::real)"
  shows "(lng + 180) / 360 * s / s * 360 - 180 = lng"
  using assms by (simp add: add_divide_distrib)

subsection \<open>Longitude normalisation\<close>

lemma normalizeLng_dec_le: "normalizeLng_dec lng \<le> 180"
proof (induction lng rule: normalizeLng_dec.induct)
  case (1 lng)
  show ?case
  proof (cases "lng > 180")
    case True
    then show ?thesis using 1 by (simp add: normalizeLng_dec.simps [of lng])
  next
    case False
    then show ?thesis by (simp add: normalizeLng_dec.simps [of lng])
  qed
qed

lemma normalizeLng_dec_id: "lng \<le> 180 \<Longrightarrow> normalizeLng_dec lng = lng"
  by (simp add: normalizeLng_dec.simps [of lng])

lemma normalizeLng_dec_step: "180 < lng \<Longrightarrow> normalizeLng_dec lng = normalizeLng_dec (lng - 360)"
  by (simp add: normalizeLng_dec.simps [of lng])

lemma normalizeLng_inc_ge: "- 180 \<le> normalizeLng_inc lng"
proof (induction lng rule: normalizeLng_inc.induct)
  case (1 lng)
  show ?case
  proof (cases "lng < - 180")
    case True
    then show ?thesis using 1 by (simp add: normalizeLng_inc.simps [of lng])
  next
    case False
    then show ?thesis by (simp add: normalizeLng_inc.simps [of lng])
  qed
qed

lemma normalizeLng_inc_le: "lng \<le> 180 \<Longrightarrow> normalizeLng_inc lng \<le> 180"
proof (induction lng rule: normalizeLng_inc.induct)
  case (1 lng)
  show ?case
  proof (cases "lng < - 180")
    case True
    then have "lng + 360 \<le> 180" by simp
    with True 1 show ?thesis by (simp add: normalizeLng_inc.simps [of lng])
  next
    case False
    then show ?thesis using 1 by (simp add: normalizeLng_inc.simps [of lng])
  qed
qed

lemma normalizeLng_inc_id: "- 180 \<le> lng \<Longrightarrow> normalizeLng_inc lng = lng"
  by (simp add: normalizeLng_inc.simps [of lng])

lemma normalizeLng_range: "- 180 \<le> normalizeLng lng \<and> normalizeLng lng \<le> 180"
  unfolding normalizeLng_def
  using normalizeLng_inc_ge normalizeLng_inc_le [OF normalizeLng_dec_le] by blast


lemma normalizeLng_wrap_once:
  assumes "180 < lng" and "lng \<le> 540"
  shows "normalizeLng lng = lng - 360"
proof -
  have "normalizeLng_dec lng = normalizeLng_dec (lng - 360)"
    using assms(1) by (rule normalizeLng_dec_step)
  also have "\<dots> = lng - 360" using assms(2) by (simp add: normalizeLng_dec_id)
  finally show ?thesis
    unfolding normalizeLng_def using assms(1) by (simp add: normalizeLng_inc_id)
qed

subsection \<open>Wheel zoom\<close>

lemma onWheel_zoom:
  "viewZoom (onWheel v rect e) = max 1 (min 20 (viewZoom v + (if deltaY e > 0 then - 0.5 else
      0.5)))"
  unfolding onWheel_def Let_def by simp

lemma onWheel_unchanged:
  assumes "viewZoom (onWheel v rect e) = viewZoom v"
  shows "onWheel v rect e = v"
proof -
  have "max 1 (min 20 (viewZoom v + (if deltaY e > 0 then - 0.5 else 0.5))) = viewZoom v"
    using assms unfolding onWheel_zoom .
  then show ?thesis unfolding onWheel_def Let_def by (simp only: simp_thms if_True)
qed

lemma onWheel_changed:
  assumes "viewZoom (onWheel v rect e) \<noteq> viewZoom v"
  shows "onWheel v rect e =
           v\<lparr>viewZoom := viewZoom (onWheel v rect e),
             viewCenterLat := max (- 85) (min 85 (lat_of (onWheel_newCenter (v\<lparr>viewZoom := viewZoom
                 (onWheel v rect e)\<rparr>)
              (onWheel_target v (clientX e - rect_left rect) (clientY e - rect_top rect))
              (clientX e - rect_left rect) (clientY e - rect_top rect)))),
             viewCenterLng := normalizeLng (lng_of (onWheel_newCenter (v\<lparr>viewZoom := viewZoom
                 (onWheel v rect e)\<rparr>)
              (onWheel_target v (clientX e - rect_left rect) (clientY e - rect_top rect))
              (clientX e - rect_left rect) (clientY e - rect_top rect)))\<rparr>"
proof -
  have ne: "max 1 (min 20 (viewZoom v + (if deltaY e > 0 then - 0.5 else 0.5))) \<noteq> viewZoom v"
    using assms unfolding onWheel_zoom .
  show ?thesis
    unfolding onWheel_zoom
    unfolding onWheel_def Let_def
    using ne by (simp only: if_False)
qed

text \<open>
  The wheel path normalises: after a wheel event that changes the zoom the centre's
  longitude lies in \<open>[-180, 180]\<close>.
\<close>

lemma onWheel_center_lng_range:
  "(viewZoom (onWheel v rect e) \<noteq> viewZoom v \<longrightarrow>
      - 180 \<le> viewCenterLng (onWheel v rect e) \<and> viewCenterLng (onWheel v rect e) \<le> 180)
   \<and> (viewZoom (onWheel v rect e) = viewZoom v \<longrightarrow> onWheel v rect e = v)"
proof (intro conjI impI)
  assume a: "viewZoom (onWheel v rect e) \<noteq> viewZoom v"
  show "- 180 \<le> viewCenterLng (onWheel v rect e)"
    by (subst onWheel_changed [OF a]) (simp add: normalizeLng_range)
  show "viewCenterLng (onWheel v rect e) \<le> 180"
    by (subst onWheel_changed [OF a]) (simp add: normalizeLng_range)
next
  assume "viewZoom (onWheel v rect e) = viewZoom v"
  then show "onWheel v rect e = v" by (rule onWheel_unchanged)
qed

lemma scale_neq0: "2 powr z * TILE_SIZE \<noteq> 0"
  by (simp add: TILE_SIZE_def)



lemma lng_of_world:
  fixes s :: real
  assumes "s \<noteq> 0"
  shows "(px + (c + 180) / 360 * s - w) / s * 360 - 180 = c + (px - w) * 360 / s"
  using assms by (simp add: field_simps)



lemma latlngToPixel_x:
  "x_of (latlngToPixel v lat lng) =
     (lng - viewCenterLng v) / 360 * (2 powr viewZoom v * TILE_SIZE)
       + canvas_width v / devicePixelRatio v / 2"
  by (simp add: latlngToPixel_def getCenterPixel_def Let_def algebra_simps diff_divide_distrib
      add_divide_distrib)

lemma pixelToLatLng_lng:
  "lng_of (pixelToLatLng v px py) =
     viewCenterLng v + (px - canvas_width v / devicePixelRatio v / 2) * 360 / (2 powr viewZoom v *
         TILE_SIZE)"
proof -
  let ?s = "2 powr viewZoom v * TILE_SIZE"
  have s: "?s \<noteq> 0" by (rule scale_neq0)
  have "lng_of (pixelToLatLng v px py) =
          (px + (viewCenterLng v + 180) / 360 * ?s - canvas_width v / devicePixelRatio v / 2) / ?s *
              360 - 180"
    by (simp add: pixelToLatLng_def getCenterPixel_def Let_def)
  also have "\<dots> = viewCenterLng v + (px - canvas_width v / devicePixelRatio v / 2) * 360 / ?s"
    using s by (rule lng_of_world)
  finally show ?thesis .
qed








subsection \<open>Projection facts used at concrete views\<close>

lemma pixelToLatLng_lat_indep:
  "lat_of (pixelToLatLng v px py) = lat_of (pixelToLatLng v px' py)"
  by (simp add: pixelToLatLng_def Let_def)

lemma latlngToPixel_center:
  "latlngToPixel v (viewCenterLat v) (viewCenterLng v)
     = \<lparr>x_of = canvas_width v / devicePixelRatio v / 2, y_of = canvas_height v / devicePixelRatio v
         / 2\<rparr>"
  by (simp add: latlngToPixel_def getCenterPixel_def Let_def)

lemma latlngToPixel_y_center_lat:
  "y_of (latlngToPixel v (viewCenterLat v) lng) = canvas_height v / devicePixelRatio v / 2"
  by (simp add: latlngToPixel_def getCenterPixel_def Let_def)

lemma pixelToLatLng_latlngToPixel:
  assumes "- 90 < lat" and "lat < 90"
  shows "pixelToLatLng v (x_of (latlngToPixel v lat lng)) (y_of (latlngToPixel v lat lng))
           = \<lparr>lat_of = lat, lng_of = lng\<rparr>"
proof -
  let ?s = "2 powr viewZoom v * TILE_SIZE"
  let ?L = "ln (tan (lat * pi / 180) + 1 / cos (lat * pi / 180))"
  have s: "0 < ?s" by (rule scale_pos)
  have wx: "x_of (latlngToPixel v lat lng) + x_of (getCenterPixel v)
              - canvas_width v / devicePixelRatio v / 2 = (lng + 180) / 360 * ?s"
    by (simp add: latlngToPixel_def Let_def)
  have wy: "y_of (latlngToPixel v lat lng) + y_of (getCenterPixel v)
              - canvas_height v / devicePixelRatio v / 2 = (1 - ?L / pi) / 2 * ?s"
    by (simp add: latlngToPixel_def Let_def)
  have "pixelToLatLng v (x_of (latlngToPixel v lat lng)) (y_of (latlngToPixel v lat lng))
          = \<lparr>lat_of = 180 / pi * arctan (0.5 * (exp (pi - 2 * pi * ((1 - ?L / pi) / 2 * ?s) / ?s)
                          - exp (- (pi - 2 * pi * ((1 - ?L / pi) / 2 * ?s) / ?s)))),
             lng_of = (lng + 180) / 360 * ?s / ?s * 360 - 180\<rparr>"
    unfolding pixelToLatLng_def Let_def wx wy ..
  also have "\<dots> = \<lparr>lat_of = lat, lng_of = lng\<rparr>"
    unfolding merc_n_inverse [OF s] lng_inverse [OF s] mercator_inverse [OF assms] ..
  finally show ?thesis .
qed

lemma pixelToLatLng_center:
  assumes "- 90 < viewCenterLat v" and "viewCenterLat v < 90"
  shows "pixelToLatLng v (canvas_width v / devicePixelRatio v / 2) (canvas_height v /
      devicePixelRatio v / 2)
           = \<lparr>lat_of = viewCenterLat v, lng_of = viewCenterLng v\<rparr>"
  using pixelToLatLng_latlngToPixel [OF assms, of v "viewCenterLng v"]
  by (simp add: latlngToPixel_center)


lemma dragMove_lng:
  assumes "dragCenterStart s = Some (lat0, lng0)"
  shows "map_option (\<lambda>s'. viewCenterLng (view s')) (dragMove s start cx cy)
           = Some (lng0 + (cx - x_of start) * 360 / (2 powr viewZoom (view s) * TILE_SIZE))"
proof -
  let ?v = "view s"
  let ?w = "canvas_width ?v / 2 / devicePixelRatio ?v"
  have "lng_of (pixelToLatLng ?v (?w - (cx - x_of start)) py') - lng_of (pixelToLatLng ?v ?w py)
          = - ((cx - x_of start) * 360 / (2 powr viewZoom ?v * TILE_SIZE))" for py py'
    by (simp add: pixelToLatLng_lng diff_divide_distrib algebra_simps)
  then show ?thesis using assms by (simp add: dragMove_def Let_def)
qed























text \<open>
  Claim C4 (longitude invariant) at a concrete pan.  The view is centred on longitude 170
  at zoom 1 on a 512 by 512 canvas.  A drag of 128 pixels to the right, by mouse or by one
  finger, leaves the centre on longitude 260: the pan step assigns the centre without the
  call of \<open>normalizeLng\<close> that \<open>onWheel\<close> makes.
\<close>

theorem pan_leaves_longitude_unnormalized:
  "map_option (\<lambda>s. viewCenterLng (view s)) (onMouseMove (onMouseDown \<lparr>view = \<lparr>viewCenterLat = 0,
      viewCenterLng = 170, viewZoom = 1, canvas_width = 512, canvas_height = 512, devicePixelRatio =
          1\<rparr>, isDragging = False, dragStart = None, dragCenterStart = None, touchStartDist = None,
              touchStartZoom = None\<rparr> \<lparr>clientX = 256, clientY = 256\<rparr>) \<lparr>clientX = 384, clientY = 256\<rparr>)
                  = Some 260
   \<and> map_option (\<lambda>s. viewCenterLng (view s)) (onTouchMove (onTouchStart \<lparr>view = \<lparr>viewCenterLat = 0,
       viewCenterLng = 170, viewZoom = 1, canvas_width = 512, canvas_height = 512, devicePixelRatio
           = 1\<rparr>, isDragging = False, dragStart = None, dragCenterStart = None, touchStartDist =
               None, touchStartZoom = None\<rparr> [\<lparr>clientX = 256, clientY = 256\<rparr>]) [\<lparr>clientX = 384,
                   clientY = 256\<rparr>]) = Some 260
   \<and> normalizeLng 260 = - 100"
proof -
  have m: "map_option (\<lambda>s. viewCenterLng (view s)) (onMouseMove (onMouseDown \<lparr>view = \<lparr>viewCenterLat
      = 0, viewCenterLng = 170, viewZoom = 1, canvas_width = 512, canvas_height = 512,
          devicePixelRatio = 1\<rparr>, isDragging = False, dragStart = None, dragCenterStart = None,
              touchStartDist = None, touchStartZoom = None\<rparr> \<lparr>clientX = 256, clientY = 256\<rparr>) \<lparr>clientX
                  = 384, clientY = 256\<rparr>) = Some 260"
    using dragMove_lng [of "onMouseDown \<lparr>view = \<lparr>viewCenterLat = 0, viewCenterLng = 170, viewZoom =
        1, canvas_width = 512, canvas_height = 512, devicePixelRatio = 1\<rparr>, isDragging = False,
            dragStart = None, dragCenterStart = None, touchStartDist = None, touchStartZoom = None\<rparr>
                \<lparr>clientX = 256, clientY = 256\<rparr>" 0 170 "\<lparr>x_of = 256, y_of = 256\<rparr>" 384 256]
    by (simp add: onMouseMove_def onMouseDown_def TILE_SIZE_def)
  have t: "map_option (\<lambda>s. viewCenterLng (view s)) (onTouchMove (onTouchStart \<lparr>view = \<lparr>viewCenterLat
      = 0, viewCenterLng = 170, viewZoom = 1, canvas_width = 512, canvas_height = 512,
          devicePixelRatio = 1\<rparr>, isDragging = False, dragStart = None, dragCenterStart = None,
              touchStartDist = None, touchStartZoom = None\<rparr> [\<lparr>clientX = 256, clientY = 256\<rparr>])
                  [\<lparr>clientX = 384, clientY = 256\<rparr>]) = Some 260"
    using dragMove_lng [of "onTouchStart \<lparr>view = \<lparr>viewCenterLat = 0, viewCenterLng = 170, viewZoom =
        1, canvas_width = 512, canvas_height = 512, devicePixelRatio = 1\<rparr>, isDragging = False,
            dragStart = None, dragCenterStart = None, touchStartDist = None, touchStartZoom = None\<rparr>
                [\<lparr>clientX = 256, clientY = 256\<rparr>]" 0 170 "\<lparr>x_of = 256, y_of = 256\<rparr>" 384 256]
    by (simp add: onTouchMove_def onTouchStart_def TILE_SIZE_def)
  have n: "normalizeLng 260 = - 100"
    using normalizeLng_wrap_once [of 260] by simp
  show ?thesis using m t n by blast
qed


text \<open>
  Claim C3 (drag pan) at a concrete drag.  The view is centred on \<open>(0, 0)\<close> at zoom 1 on a
  512 by 512 canvas; the contact goes down on the canvas centre, over the geographic point
  \<open>(0, 0)\<close>, and moves 128 pixels to the right, to \<open>x = 384\<close>.  The new centre is \<open>(0, 90)\<close>,
  and the point \<open>(0, 0)\<close> is now drawn at \<open>x = 128\<close>: it moved left while the cursor moved
  right.
\<close>

theorem drag_inverts_at_failing_input:
  "pixelToLatLng (view \<lparr>view = \<lparr>viewCenterLat = 0, viewCenterLng = 0, viewZoom = 1, canvas_width =
      512, canvas_height = 512, devicePixelRatio = 1\<rparr>, isDragging = False, dragStart = None,
          dragCenterStart = None, touchStartDist = None, touchStartZoom = None\<rparr>) 256 256 = \<lparr>lat_of =
              0, lng_of = 0\<rparr>
   \<and> map_option (\<lambda>s. (viewCenterLat (view s), viewCenterLng (view s), latlngToPixel (view s) 0 0))
        (onMouseMove (onMouseDown \<lparr>view = \<lparr>viewCenterLat = 0, viewCenterLng = 0, viewZoom = 1,
            canvas_width = 512, canvas_height = 512, devicePixelRatio = 1\<rparr>, isDragging = False,
                dragStart = None, dragCenterStart = None, touchStartDist = None, touchStartZoom =
                    None\<rparr> \<lparr>clientX = 256, clientY = 256\<rparr>) \<lparr>clientX = 384, clientY = 256\<rparr>)
       = Some (0, 90, \<lparr>x_of = 128, y_of = 256\<rparr>)"
proof -
  let ?v = "\<lparr>viewCenterLat = 0, viewCenterLng = 0, viewZoom = 1, canvas_width = 512, canvas_height =
      512, devicePixelRatio = 1\<rparr>"
  have p: "pixelToLatLng ?v 256 256 = \<lparr>lat_of = 0, lng_of = 0\<rparr>"
    using pixelToLatLng_center [of ?v] by simp
  have q: "lat_of (pixelToLatLng ?v 128 256) = 0"
    using pixelToLatLng_lat_indep [of ?v 128 256 256] by (simp add: p)
  have ql: "lng_of (pixelToLatLng ?v 128 256) = - 90"
    by (simp add: pixelToLatLng_lng TILE_SIZE_def)
  have m: "onMouseMove (onMouseDown \<lparr>view = \<lparr>viewCenterLat = 0, viewCenterLng = 0, viewZoom = 1,
      canvas_width = 512, canvas_height = 512, devicePixelRatio = 1\<rparr>, isDragging = False, dragStart
          = None, dragCenterStart = None, touchStartDist = None, touchStartZoom = None\<rparr> \<lparr>clientX =
              256, clientY = 256\<rparr>) \<lparr>clientX = 384, clientY = 256\<rparr>
             = Some ((onMouseDown \<lparr>view = \<lparr>viewCenterLat = 0, viewCenterLng = 0, viewZoom = 1,
                 canvas_width = 512, canvas_height = 512, devicePixelRatio = 1\<rparr>, isDragging = False,
                     dragStart = None, dragCenterStart = None, touchStartDist = None, touchStartZoom
                         = None\<rparr> \<lparr>clientX = 256, clientY = 256\<rparr>)\<lparr>view := ?v\<lparr>viewCenterLat := 0,
                             viewCenterLng := 90\<rparr>\<rparr>)"
    by (simp add: onMouseMove_def onMouseDown_def dragMove_def Let_def p q ql)
  have x: "x_of (latlngToPixel (?v\<lparr>viewCenterLat := 0, viewCenterLng := 90\<rparr>) 0 0) = 128"
    by (simp add: latlngToPixel_x TILE_SIZE_def)
  have y: "y_of (latlngToPixel (?v\<lparr>viewCenterLat := 0, viewCenterLng := 90\<rparr>) 0 0) = 256"
    using latlngToPixel_y_center_lat [of "?v\<lparr>viewCenterLat := 0, viewCenterLng := 90\<rparr>" 0] by simp
  have "latlngToPixel (?v\<lparr>viewCenterLat := 0, viewCenterLng := 90\<rparr>) 0 0 = \<lparr>x_of = 128, y_of = 256\<rparr>"
    using x y by (cases "latlngToPixel (?v\<lparr>viewCenterLat := 0, viewCenterLng := 90\<rparr>) 0 0") simp
  then show ?thesis by (simp add: m p)
qed

subsection \<open>Projection round trip\<close>

text \<open>
  Claim C1 (projection round trip).  For every latitude in \<open>(-85, 85)\<close>, longitude in
  \<open>(-180, 180)\<close> and view zoom in \<open>[1, 20]\<close>, \<open>pixelToLatLng\<close> applied to the pixel that
  \<open>latlngToPixel\<close> returns under the same view gives back the latitude and longitude; in
  exact arithmetic the two are equal, so they agree within \<open>10\<^sup>-\<^sup>6\<close>.
\<close>

theorem projection_round_trip:
  assumes "- 85 < lat" and "lat < 85" and "- 180 < lng" and "lng < 180"
    and "1 \<le> viewZoom v" and "viewZoom v \<le> 20"
  shows "pixelToLatLng v (x_of (latlngToPixel v lat lng)) (y_of (latlngToPixel v lat lng))
           = \<lparr>lat_of = lat, lng_of = lng\<rparr>
         \<and> \<bar>lat_of (pixelToLatLng v (x_of (latlngToPixel v lat lng)) (y_of (latlngToPixel v lat
             lng))) - lat\<bar> \<le> 1 / 10 ^ 6
         \<and> \<bar>lng_of (pixelToLatLng v (x_of (latlngToPixel v lat lng)) (y_of (latlngToPixel v lat
             lng))) - lng\<bar> \<le> 1 / 10 ^ 6"
proof -
  have "- 90 < lat" and "lat < 90" using assms by simp_all
  then have "pixelToLatLng v (x_of (latlngToPixel v lat lng)) (y_of (latlngToPixel v lat lng))
               = \<lparr>lat_of = lat, lng_of = lng\<rparr>"
    by (rule pixelToLatLng_latlngToPixel)
  then show ?thesis by simp
qed

theorem projection_round_trip_witness:
  "- 85 < (40::real) \<and> (40::real) < 85 \<and> - 180 < (- 74::real) \<and> (- 74::real) < 180
   \<and> 1 \<le> viewZoom \<lparr>viewCenterLat = 10, viewCenterLng = 20, viewZoom = 3, canvas_width = 800,
                      canvas_height = 600, devicePixelRatio = 1\<rparr>
   \<and> viewZoom \<lparr>viewCenterLat = 10, viewCenterLng = 20, viewZoom = 3, canvas_width = 800,
                      canvas_height = 600, devicePixelRatio = 1\<rparr> \<le> 20
   \<and> pixelToLatLng \<lparr>viewCenterLat = 10, viewCenterLng = 20, viewZoom = 3, canvas_width = 800,
                      canvas_height = 600, devicePixelRatio = 1\<rparr>
        (x_of (latlngToPixel \<lparr>viewCenterLat = 10, viewCenterLng = 20, viewZoom = 3, canvas_width =
            800,
                      canvas_height = 600, devicePixelRatio = 1\<rparr> 40 (- 74)))
        (y_of (latlngToPixel \<lparr>viewCenterLat = 10, viewCenterLng = 20, viewZoom = 3, canvas_width =
            800,
                      canvas_height = 600, devicePixelRatio = 1\<rparr> 40 (- 74)))
      = \<lparr>lat_of = 40, lng_of = - 74\<rparr>"
  using projection_round_trip [of 40 "- 74" "\<lparr>viewCenterLat = 10, viewCenterLng = 20, viewZoom = 3,
     canvas_width = 800, canvas_height = 600, devicePixelRatio = 1\<rparr>"]
  by simp

subsection \<open>Hit testing\<close>

lemma scanDown_Some_iff:
  "scanDown hit n = Some i \<longleftrightarrow> i < n \<and> hit i \<and> (\<forall>j. i < j \<and> j < n \<longrightarrow> \<not> hit j)"
proof (induction n)
  case 0
  then show ?case by simp
next
  case (Suc n)
  show ?case
  proof (cases "hit n")
    case True
    then show ?thesis
      by (auto simp: less_Suc_eq)
  next
    case False
    then show ?thesis using Suc by (auto simp: less_Suc_eq)
  qed
qed

lemma scanDown_None_iff:
  "scanDown hit n = None \<longleftrightarrow> (\<forall>j < n. \<not> hit j)"
  by (induction n) (auto simp: less_Suc_eq)

lemma updateTooltip_cases:
  "(updateTooltip v d x y = Some (FoundPoint, i) \<longleftrightarrow>
      scanDown (\<lambda>i. pointHit v x y (points d ! i)) (length (points d)) = Some i)
   \<and> (updateTooltip v d x y = Some (FoundLine, i) \<longleftrightarrow>
      scanDown (\<lambda>i. pointHit v x y (points d ! i)) (length (points d)) = None
      \<and> scanDown (\<lambda>i. isPointNearLine v x y (lines d ! i)) (length (lines d)) = Some i)
   \<and> (updateTooltip v d x y = Some (FoundPolygon, i) \<longleftrightarrow>
      scanDown (\<lambda>i. pointHit v x y (points d ! i)) (length (points d)) = None
      \<and> scanDown (\<lambda>i. isPointNearLine v x y (lines d ! i)) (length (lines d)) = None
      \<and> scanDown (\<lambda>i. isPointInPolygon v x y (polygons d ! i)) (length (polygons d)) = Some i)
   \<and> (updateTooltip v d x y = None \<longleftrightarrow>
      scanDown (\<lambda>i. pointHit v x y (points d ! i)) (length (points d)) = None
      \<and> scanDown (\<lambda>i. isPointNearLine v x y (lines d ! i)) (length (lines d)) = None
      \<and> scanDown (\<lambda>i. isPointInPolygon v x y (polygons d ! i)) (length (polygons d)) = None)"
  unfolding updateTooltip_def by (simp split: option.splits)

text \<open>
  Claim C5 (hit-test order).  For every query pixel the resolver returns a point exactly
  when that point is hit and no later-added point is; it returns a line exactly when no
  point is hit, that line is near and no later-added line is; it returns a polygon exactly
  when no point is hit, no line is near, the polygon contains the pixel and no later-added
  polygon does; and it returns nothing exactly when no feature of any kind matches.  So
  the passes run in the order points, lines, polygons, each from the latest-added
  candidate down, and the first pass with a match decides.
\<close>

theorem updateTooltip_priority:
  "(updateTooltip v d x y = Some (FoundPoint, i) \<longleftrightarrow>
      i < length (points d) \<and> pointHit v x y (points d ! i)
      \<and> (\<forall>j. i < j \<and> j < length (points d) \<longrightarrow> \<not> pointHit v x y (points d ! j)))
   \<and> (updateTooltip v d x y = Some (FoundLine, i) \<longleftrightarrow>
      (\<forall>j < length (points d). \<not> pointHit v x y (points d ! j))
      \<and> i < length (lines d) \<and> isPointNearLine v x y (lines d ! i)
      \<and> (\<forall>j. i < j \<and> j < length (lines d) \<longrightarrow> \<not> isPointNearLine v x y (lines d ! j)))
   \<and> (updateTooltip v d x y = Some (FoundPolygon, i) \<longleftrightarrow>
      (\<forall>j < length (points d). \<not> pointHit v x y (points d ! j))
      \<and> (\<forall>j < length (lines d). \<not> isPointNearLine v x y (lines d ! j))
      \<and> i < length (polygons d) \<and> isPointInPolygon v x y (polygons d ! i)
      \<and> (\<forall>j. i < j \<and> j < length (polygons d) \<longrightarrow> \<not> isPointInPolygon v x y (polygons d ! j)))
   \<and> (updateTooltip v d x y = None \<longleftrightarrow>
      (\<forall>j < length (points d). \<not> pointHit v x y (points d ! j))
      \<and> (\<forall>j < length (lines d). \<not> isPointNearLine v x y (lines d ! j))
      \<and> (\<forall>j < length (polygons d). \<not> isPointInPolygon v x y (polygons d ! j)))"
  unfolding updateTooltip_cases [THEN conjunct1]
    updateTooltip_cases [THEN conjunct2, THEN conjunct1]
    updateTooltip_cases [THEN conjunct2, THEN conjunct2, THEN conjunct1]
    updateTooltip_cases [THEN conjunct2, THEN conjunct2, THEN conjunct2]
    scanDown_Some_iff scanDown_None_iff
  by simp

lemma pointHit_iff:
  "pointHit v x y p \<longleftrightarrow>
     sqrt ((x - x_of (latlngToPixel v (p_lat p) (p_lng p)))\<^sup>2
         + (y - y_of (latlngToPixel v (p_lat p) (p_lng p)))\<^sup>2) \<le> radius (p_style p) + 3"
  by (simp add: pointHit_def Let_def)

lemma pointHit_center:
  assumes "- 3 \<le> radius (p_style p)"
  shows "pointHit v (x_of (latlngToPixel v (p_lat p) (p_lng p)))
           (y_of (latlngToPixel v (p_lat p) (p_lng p))) p"
  using assms by (simp add: pointHit_iff)

lemma scanDown_hit:
  assumes "i < n" and "hit i"
  shows "\<exists>j. i \<le> j \<and> j < n \<and> scanDown hit n = Some j"
proof (cases "scanDown hit n")
  case None
  then show ?thesis using assms by (simp add: scanDown_None_iff)
next
  case (Some j)
  then have j: "j < n" "hit j" "\<forall>k. j < k \<and> k < n \<longrightarrow> \<not> hit k"
    by (simp_all add: scanDown_Some_iff)
  have "i \<le> j"
  proof (rule ccontr)
    assume "\<not> i \<le> j"
    then have "j < i" by simp
    with j(3) assms show False by blast
  qed
  with j(1) Some show ?thesis by blast
qed

text \<open>
  Claim C6 (point hit threshold), as the code has it.  \<open>c p\<close> is the projected centre of
  the point \<open>p\<close>.  A query exactly at the centre of a point of radius at least \<open>-3\<close> is
  answered with a point of the same or a later index, and with that very point when no
  later-added point lies within its own threshold of the query; a query within
  \<open>radius + 3\<close> of some point's centre is answered with a point; a query at \<open>radius + 4\<close>
  or more from every point's centre is never answered with a point.
\<close>

theorem point_hit_threshold:
  assumes "c = (\<lambda>p. latlngToPixel v (p_lat p) (p_lng p))"
  shows "(i < length (points d) \<and> - 3 \<le> radius (p_style (points d ! i)) \<longrightarrow>
            (\<exists>j. i \<le> j \<and> j < length (points d)
                 \<and> updateTooltip v d (x_of (c (points d ! i))) (y_of (c (points d ! i))) = Some
                     (FoundPoint, j))
            \<and> ((\<forall>j. i < j \<and> j < length (points d) \<longrightarrow>
                   radius (p_style (points d ! j)) + 3
                     < sqrt ((x_of (c (points d ! i)) - x_of (c (points d ! j)))\<^sup>2
                           + (y_of (c (points d ! i)) - y_of (c (points d ! j)))\<^sup>2)) \<longrightarrow>
                 updateTooltip v d (x_of (c (points d ! i))) (y_of (c (points d ! i))) = Some
                     (FoundPoint, i)))
       \<and> ((\<exists>k < length (points d).
              sqrt ((x - x_of (c (points d ! k)))\<^sup>2 + (y - y_of (c (points d ! k)))\<^sup>2)
                \<le> radius (p_style (points d ! k)) + 3) \<longrightarrow>
            (\<exists>j < length (points d). updateTooltip v d x y = Some (FoundPoint, j)))
       \<and> ((\<forall>k < length (points d).
              radius (p_style (points d ! k)) + 4
                \<le> sqrt ((x - x_of (c (points d ! k)))\<^sup>2 + (y - y_of (c (points d ! k)))\<^sup>2)) \<longrightarrow>
            (\<forall>j. updateTooltip v d x y \<noteq> Some (FoundPoint, j)))"
proof (intro conjI impI)
  assume a: "i < length (points d) \<and> - 3 \<le> radius (p_style (points d ! i))"
  let ?x = "x_of (c (points d ! i))" and ?y = "y_of (c (points d ! i))"
  have h: "pointHit v ?x ?y (points d ! i)"
    unfolding assms using a by (simp add: pointHit_center)
  from scanDown_hit [of i "length (points d)" "\<lambda>k. pointHit v ?x ?y (points d ! k)"] a h
  obtain j where j: "i \<le> j" "j < length (points d)"
      "scanDown (\<lambda>k. pointHit v ?x ?y (points d ! k)) (length (points d)) = Some j"
    by blast
  then show "\<exists>j. i \<le> j \<and> j < length (points d) \<and> updateTooltip v d ?x ?y = Some (FoundPoint, j)"
    using updateTooltip_cases [THEN conjunct1, of v d ?x ?y j] by blast
  assume far: "\<forall>j. i < j \<and> j < length (points d) \<longrightarrow>
                   radius (p_style (points d ! j)) + 3
                     < sqrt ((?x - x_of (c (points d ! j)))\<^sup>2 + (?y - y_of (c (points d ! j)))\<^sup>2)"
  have "\<forall>j. i < j \<and> j < length (points d) \<longrightarrow> \<not> pointHit v ?x ?y (points d ! j)"
    using far unfolding assms pointHit_iff by (simp add: not_le)
  with a h have "scanDown (\<lambda>k. pointHit v ?x ?y (points d ! k)) (length (points d)) = Some i"
    by (simp add: scanDown_Some_iff)
  then show "updateTooltip v d ?x ?y = Some (FoundPoint, i)"
    using updateTooltip_cases [THEN conjunct1, of v d ?x ?y i] by blast
next
  assume "\<exists>k < length (points d).
              sqrt ((x - x_of (c (points d ! k)))\<^sup>2 + (y - y_of (c (points d ! k)))\<^sup>2)
                \<le> radius (p_style (points d ! k)) + 3"
  then obtain k where k: "k < length (points d)" "pointHit v x y (points d ! k)"
    unfolding assms pointHit_iff by blast
  from scanDown_hit [of k "length (points d)" "\<lambda>k. pointHit v x y (points d ! k)"] k
  obtain j where "j < length (points d)"
      "scanDown (\<lambda>k. pointHit v x y (points d ! k)) (length (points d)) = Some j"
    by blast
  then show "\<exists>j < length (points d). updateTooltip v d x y = Some (FoundPoint, j)"
    using updateTooltip_cases [THEN conjunct1, of v d x y j] by blast
next
  assume far: "\<forall>k < length (points d).
              radius (p_style (points d ! k)) + 4
                \<le> sqrt ((x - x_of (c (points d ! k)))\<^sup>2 + (y - y_of (c (points d ! k)))\<^sup>2)"
  have "\<forall>k < length (points d). \<not> pointHit v x y (points d ! k)"
  proof (intro allI impI)
    fix k assume "k < length (points d)"
    with far have "radius (p_style (points d ! k)) + 4
                \<le> sqrt ((x - x_of (c (points d ! k)))\<^sup>2 + (y - y_of (c (points d ! k)))\<^sup>2)"
      by blast
    then show "\<not> pointHit v x y (points d ! k)" unfolding assms pointHit_iff by linarith
  qed
  then have "scanDown (\<lambda>k. pointHit v x y (points d ! k)) (length (points d)) = None"
    by (simp add: scanDown_None_iff)
  then show "\<forall>j. updateTooltip v d x y \<noteq> Some (FoundPoint, j)"
    using updateTooltip_cases [THEN conjunct1, of v d x y] by simp
qed

lemma latlngToPixel_equator:
  "latlngToPixel \<lparr>viewCenterLat = 0, viewCenterLng = 0, viewZoom = 1, canvas_width = 512,
      canvas_height = 512, devicePixelRatio = 1\<rparr> 0 lng = \<lparr>x_of = 256 + lng * 64 / 45, y_of = 256\<rparr>"
proof -
  have x: "x_of (latlngToPixel \<lparr>viewCenterLat = 0, viewCenterLng = 0, viewZoom = 1, canvas_width =
      512, canvas_height = 512, devicePixelRatio = 1\<rparr> 0 lng) = 256 + lng * 64 / 45"
    by (simp add: latlngToPixel_x TILE_SIZE_def)
  have y: "y_of (latlngToPixel \<lparr>viewCenterLat = 0, viewCenterLng = 0, viewZoom = 1, canvas_width =
      512, canvas_height = 512, devicePixelRatio = 1\<rparr> 0 lng) = 256"
    using latlngToPixel_y_center_lat [of "\<lparr>viewCenterLat = 0, viewCenterLng = 0, viewZoom = 1,
        canvas_width = 512, canvas_height = 512, devicePixelRatio = 1\<rparr>" lng] by simp
  show ?thesis using x y by (cases "latlngToPixel \<lparr>viewCenterLat = 0, viewCenterLng = 0, viewZoom =
      1, canvas_width = 512, canvas_height = 512, devicePixelRatio = 1\<rparr> 0 lng") simp
qed

theorem updateTooltip_priority_witness:
  "\<not> pointHit \<lparr>viewCenterLat = 0, viewCenterLng = 0, viewZoom = 1, canvas_width = 512, canvas_height
      = 512, devicePixelRatio = 1\<rparr> 300 258 \<lparr>p_lat = 0, p_lng = 0, p_style = \<lparr>radius = 8\<rparr>\<rparr>
   \<and> isPointNearLine \<lparr>viewCenterLat = 0, viewCenterLng = 0, viewZoom = 1, canvas_width = 512,
       canvas_height = 512, devicePixelRatio = 1\<rparr> 300 258 \<lparr>coords = [(0, - 90), (0, 90)], l_style =
           \<lparr>stroke_width = 3\<rparr>\<rparr>
   \<and> updateTooltip \<lparr>viewCenterLat = 0, viewCenterLng = 0, viewZoom = 1, canvas_width = 512,
       canvas_height = 512, devicePixelRatio = 1\<rparr> \<lparr>points = [\<lparr>p_lat = 0, p_lng = 0, p_style =
           \<lparr>radius = 8\<rparr>\<rparr>], lines = [\<lparr>coords = [(0, - 90), (0, 90)], l_style = \<lparr>stroke_width = 3\<rparr>\<rparr>],
               polygons = []\<rparr> 300 258 = Some (FoundLine, 0)"
proof -
  have far: "\<not> pointHit \<lparr>viewCenterLat = 0, viewCenterLng = 0, viewZoom = 1, canvas_width = 512,
      canvas_height = 512, devicePixelRatio = 1\<rparr> 300 258 \<lparr>p_lat = 0, p_lng = 0, p_style = \<lparr>radius =
          8\<rparr>\<rparr>"
  proof -
    have "(11::real)\<^sup>2 < 1940" by simp
    then have "11 < sqrt 1940" by (rule real_less_rsqrt)
    then show ?thesis by (simp add: pointHit_iff latlngToPixel_equator)
  qed
  have near: "isPointNearLine \<lparr>viewCenterLat = 0, viewCenterLng = 0, viewZoom = 1, canvas_width =
      512, canvas_height = 512, devicePixelRatio = 1\<rparr> 300 258 \<lparr>coords = [(0, - 90), (0, 90)],
          l_style = \<lparr>stroke_width = 3\<rparr>\<rparr>"
    by (simp add: isPointNearLine_def pointToSegmentDistance_def Let_def latlngToPixel_equator)
  have "(\<forall>j < length (points \<lparr>points = [\<lparr>p_lat = 0, p_lng = 0, p_style = \<lparr>radius = 8\<rparr>\<rparr>], lines =
      [\<lparr>coords = [(0, - 90), (0, 90)], l_style = \<lparr>stroke_width = 3\<rparr>\<rparr>], polygons = []\<rparr>). \<not> pointHit
          \<lparr>viewCenterLat = 0, viewCenterLng = 0, viewZoom = 1, canvas_width = 512, canvas_height =
              512, devicePixelRatio = 1\<rparr> 300 258 (points \<lparr>points = [\<lparr>p_lat = 0, p_lng = 0, p_style =
                  \<lparr>radius = 8\<rparr>\<rparr>], lines = [\<lparr>coords = [(0, - 90), (0, 90)], l_style = \<lparr>stroke_width =
                      3\<rparr>\<rparr>], polygons = []\<rparr> ! j))
      \<and> 0 < length (lines \<lparr>points = [\<lparr>p_lat = 0, p_lng = 0, p_style = \<lparr>radius = 8\<rparr>\<rparr>], lines =
          [\<lparr>coords = [(0, - 90), (0, 90)], l_style = \<lparr>stroke_width = 3\<rparr>\<rparr>], polygons = []\<rparr>) \<and>
              isPointNearLine \<lparr>viewCenterLat = 0, viewCenterLng = 0, viewZoom = 1, canvas_width =
                  512, canvas_height = 512, devicePixelRatio = 1\<rparr> 300 258 (lines \<lparr>points = [\<lparr>p_lat =
                      0, p_lng = 0, p_style = \<lparr>radius = 8\<rparr>\<rparr>], lines = [\<lparr>coords = [(0, - 90), (0,
                          90)], l_style = \<lparr>stroke_width = 3\<rparr>\<rparr>], polygons = []\<rparr> ! 0)
      \<and> (\<forall>j. 0 < j \<and> j < length (lines \<lparr>points = [\<lparr>p_lat = 0, p_lng = 0, p_style = \<lparr>radius = 8\<rparr>\<rparr>],
          lines = [\<lparr>coords = [(0, - 90), (0, 90)], l_style = \<lparr>stroke_width = 3\<rparr>\<rparr>], polygons = []\<rparr>) \<longrightarrow>
              \<not> isPointNearLine \<lparr>viewCenterLat = 0, viewCenterLng = 0, viewZoom = 1, canvas_width =
                  512, canvas_height = 512, devicePixelRatio = 1\<rparr> 300 258 (lines \<lparr>points = [\<lparr>p_lat =
                      0, p_lng = 0, p_style = \<lparr>radius = 8\<rparr>\<rparr>], lines = [\<lparr>coords = [(0, - 90), (0,
                          90)], l_style = \<lparr>stroke_width = 3\<rparr>\<rparr>], polygons = []\<rparr> ! j))"
    using far near by auto
  then have "updateTooltip \<lparr>viewCenterLat = 0, viewCenterLng = 0, viewZoom = 1, canvas_width = 512,
      canvas_height = 512, devicePixelRatio = 1\<rparr> \<lparr>points = [\<lparr>p_lat = 0, p_lng = 0, p_style = \<lparr>radius
          = 8\<rparr>\<rparr>], lines = [\<lparr>coords = [(0, - 90), (0, 90)], l_style = \<lparr>stroke_width = 3\<rparr>\<rparr>], polygons
              = []\<rparr> 300 258 = Some (FoundLine, 0)"
    using updateTooltip_priority [of "\<lparr>viewCenterLat = 0, viewCenterLng = 0, viewZoom = 1,
        canvas_width = 512, canvas_height = 512, devicePixelRatio = 1\<rparr>" "\<lparr>points = [\<lparr>p_lat = 0,
            p_lng = 0, p_style = \<lparr>radius = 8\<rparr>\<rparr>], lines = [\<lparr>coords = [(0, - 90), (0, 90)], l_style =
                \<lparr>stroke_width = 3\<rparr>\<rparr>], polygons = []\<rparr>" 300 258 0, THEN conjunct2, THEN conjunct1]
    by (rule_tac iffD2)
  then show ?thesis using far near by blast
qed

text \<open>
  Claim C6 as stated fails at a marker's exact centre in two ways: with a second marker
  added later four pixels to the right, the query at the first marker's centre returns the
  second marker; and a marker of radius \<open>-4\<close> is not matched at its own centre.
\<close>

theorem point_hit_threshold_counterexample:
  "latlngToPixel \<lparr>viewCenterLat = 0, viewCenterLng = 0, viewZoom = 1, canvas_width = 512,
      canvas_height = 512, devicePixelRatio = 1\<rparr> (p_lat \<lparr>p_lat = 0, p_lng = 0, p_style = \<lparr>radius =
          8\<rparr>\<rparr>) (p_lng \<lparr>p_lat = 0, p_lng = 0, p_style = \<lparr>radius = 8\<rparr>\<rparr>) = \<lparr>x_of = 256, y_of = 256\<rparr>
   \<and> updateTooltip \<lparr>viewCenterLat = 0, viewCenterLng = 0, viewZoom = 1, canvas_width = 512,
       canvas_height = 512, devicePixelRatio = 1\<rparr> \<lparr>points = [\<lparr>p_lat = 0, p_lng = 0, p_style =
           \<lparr>radius = 8\<rparr>\<rparr>, \<lparr>p_lat = 0, p_lng = 45 / 16, p_style = \<lparr>radius = 8\<rparr>\<rparr>], lines = [],
               polygons = []\<rparr> 256 256 = Some (FoundPoint, 1)
   \<and> updateTooltip \<lparr>viewCenterLat = 0, viewCenterLng = 0, viewZoom = 1, canvas_width = 512,
       canvas_height = 512, devicePixelRatio = 1\<rparr> \<lparr>points = [\<lparr>p_lat = 0, p_lng = 0, p_style =
           \<lparr>radius = - 4\<rparr>\<rparr>], lines = [], polygons = []\<rparr> 256 256 = None"
proof -
  have hb: "pointHit \<lparr>viewCenterLat = 0, viewCenterLng = 0, viewZoom = 1, canvas_width = 512,
      canvas_height = 512, devicePixelRatio = 1\<rparr> 256 256 \<lparr>p_lat = 0, p_lng = 45 / 16, p_style =
          \<lparr>radius = 8\<rparr>\<rparr>"
  proof -
    have "sqrt 16 \<le> 11"
      by (rule real_le_lsqrt) simp_all
    then show ?thesis by (simp add: pointHit_iff latlngToPixel_equator)
  qed
  have "scanDown (\<lambda>i. pointHit \<lparr>viewCenterLat = 0, viewCenterLng = 0, viewZoom = 1, canvas_width =
      512, canvas_height = 512, devicePixelRatio = 1\<rparr> 256 256 (points \<lparr>points = [\<lparr>p_lat = 0, p_lng =
          0, p_style = \<lparr>radius = 8\<rparr>\<rparr>, \<lparr>p_lat = 0, p_lng = 45 / 16, p_style = \<lparr>radius = 8\<rparr>\<rparr>], lines =
              [], polygons = []\<rparr> ! i)) (length (points \<lparr>points = [\<lparr>p_lat = 0, p_lng = 0, p_style =
                  \<lparr>radius = 8\<rparr>\<rparr>, \<lparr>p_lat = 0, p_lng = 45 / 16, p_style = \<lparr>radius = 8\<rparr>\<rparr>], lines = [],
                      polygons = []\<rparr>)) = Some 1"
    using hb by (simp add: scanDown_Some_iff)
  then have ab: "updateTooltip \<lparr>viewCenterLat = 0, viewCenterLng = 0, viewZoom = 1, canvas_width =
      512, canvas_height = 512, devicePixelRatio = 1\<rparr> \<lparr>points = [\<lparr>p_lat = 0, p_lng = 0, p_style =
          \<lparr>radius = 8\<rparr>\<rparr>, \<lparr>p_lat = 0, p_lng = 45 / 16, p_style = \<lparr>radius = 8\<rparr>\<rparr>], lines = [], polygons
              = []\<rparr> 256 256 = Some (FoundPoint, 1)"
    using updateTooltip_cases [THEN conjunct1, of "\<lparr>viewCenterLat = 0, viewCenterLng = 0, viewZoom =
        1, canvas_width = 512, canvas_height = 512, devicePixelRatio = 1\<rparr>" "\<lparr>points = [\<lparr>p_lat = 0,
            p_lng = 0, p_style = \<lparr>radius = 8\<rparr>\<rparr>, \<lparr>p_lat = 0, p_lng = 45 / 16, p_style = \<lparr>radius =
                8\<rparr>\<rparr>], lines = [], polygons = []\<rparr>" 256 256 1] by blast
  have "\<not> pointHit \<lparr>viewCenterLat = 0, viewCenterLng = 0, viewZoom = 1, canvas_width = 512,
      canvas_height = 512, devicePixelRatio = 1\<rparr> 256 256 \<lparr>p_lat = 0, p_lng = 0, p_style = \<lparr>radius =
          - 4\<rparr>\<rparr>"
    by (simp add: pointHit_iff latlngToPixel_equator)
  then have n: "updateTooltip \<lparr>viewCenterLat = 0, viewCenterLng = 0, viewZoom = 1, canvas_width =
      512, canvas_height = 512, devicePixelRatio = 1\<rparr> \<lparr>points = [\<lparr>p_lat = 0, p_lng = 0, p_style =
          \<lparr>radius = - 4\<rparr>\<rparr>], lines = [], polygons = []\<rparr> 256 256 = None"
    by (simp add: updateTooltip_def)
  show ?thesis using ab n by (simp add: latlngToPixel_equator)
qed

theorem point_hit_threshold_witness:
  "updateTooltip \<lparr>viewCenterLat = 0, viewCenterLng = 0, viewZoom = 1, canvas_width = 512,
      canvas_height = 512, devicePixelRatio = 1\<rparr> \<lparr>points = [\<lparr>p_lat = 0, p_lng = 0, p_style = \<lparr>radius
          = 8\<rparr>\<rparr>, \<lparr>p_lat = 0, p_lng = 45 / 16, p_style = \<lparr>radius = 8\<rparr>\<rparr>], lines = [], polygons = []\<rparr>
      (x_of (latlngToPixel \<lparr>viewCenterLat = 0, viewCenterLng = 0, viewZoom = 1, canvas_width = 512,
          canvas_height = 512, devicePixelRatio = 1\<rparr> 0 (45 / 16))) (y_of (latlngToPixel
              \<lparr>viewCenterLat = 0, viewCenterLng = 0, viewZoom = 1, canvas_width = 512, canvas_height
                  = 512, devicePixelRatio = 1\<rparr> 0 (45 / 16))) = Some (FoundPoint, 1)
   \<and> (\<exists>j < 2. updateTooltip \<lparr>viewCenterLat = 0, viewCenterLng = 0, viewZoom = 1, canvas_width = 512,
       canvas_height = 512, devicePixelRatio = 1\<rparr> \<lparr>points = [\<lparr>p_lat = 0, p_lng = 0, p_style =
           \<lparr>radius = 8\<rparr>\<rparr>, \<lparr>p_lat = 0, p_lng = 45 / 16, p_style = \<lparr>radius = 8\<rparr>\<rparr>], lines = [],
               polygons = []\<rparr> 256 256 = Some (FoundPoint, j))
   \<and> (\<forall>j. updateTooltip \<lparr>viewCenterLat = 0, viewCenterLng = 0, viewZoom = 1, canvas_width = 512,
       canvas_height = 512, devicePixelRatio = 1\<rparr> \<lparr>points = [\<lparr>p_lat = 0, p_lng = 0, p_style =
           \<lparr>radius = 8\<rparr>\<rparr>], lines = [], polygons = []\<rparr> 268 256 \<noteq> Some (FoundPoint, j))"
proof -
  let ?c = "\<lambda>p. latlngToPixel \<lparr>viewCenterLat = 0, viewCenterLng = 0, viewZoom = 1, canvas_width =
      512, canvas_height = 512, devicePixelRatio = 1\<rparr> (p_lat p) (p_lng p)"
  note t = point_hit_threshold [of ?c "\<lparr>viewCenterLat = 0, viewCenterLng = 0, viewZoom = 1,
      canvas_width = 512, canvas_height = 512, devicePixelRatio = 1\<rparr>", OF refl]
  have a: "updateTooltip \<lparr>viewCenterLat = 0, viewCenterLng = 0, viewZoom = 1, canvas_width = 512,
      canvas_height = 512, devicePixelRatio = 1\<rparr> \<lparr>points = [\<lparr>p_lat = 0, p_lng = 0, p_style = \<lparr>radius
          = 8\<rparr>\<rparr>, \<lparr>p_lat = 0, p_lng = 45 / 16, p_style = \<lparr>radius = 8\<rparr>\<rparr>], lines = [], polygons = []\<rparr>
      (x_of (latlngToPixel \<lparr>viewCenterLat = 0, viewCenterLng = 0, viewZoom = 1, canvas_width = 512,
          canvas_height = 512, devicePixelRatio = 1\<rparr> 0 (45 / 16))) (y_of (latlngToPixel
              \<lparr>viewCenterLat = 0, viewCenterLng = 0, viewZoom = 1, canvas_width = 512, canvas_height
                  = 512, devicePixelRatio = 1\<rparr> 0 (45 / 16))) = Some (FoundPoint, 1)"
  proof -
    have h: "1 < length (points \<lparr>points = [\<lparr>p_lat = 0, p_lng = 0, p_style = \<lparr>radius = 8\<rparr>\<rparr>, \<lparr>p_lat =
        0, p_lng = 45 / 16, p_style = \<lparr>radius = 8\<rparr>\<rparr>], lines = [], polygons = []\<rparr>) \<and> - 3 \<le> radius
            (p_style (points \<lparr>points = [\<lparr>p_lat = 0, p_lng = 0, p_style = \<lparr>radius = 8\<rparr>\<rparr>, \<lparr>p_lat = 0,
                p_lng = 45 / 16, p_style = \<lparr>radius = 8\<rparr>\<rparr>], lines = [], polygons = []\<rparr> ! 1))" by simp
    have nolater: "\<forall>j. 1 < j \<and> j < length (points \<lparr>points = [\<lparr>p_lat = 0, p_lng = 0, p_style =
        \<lparr>radius = 8\<rparr>\<rparr>, \<lparr>p_lat = 0, p_lng = 45 / 16, p_style = \<lparr>radius = 8\<rparr>\<rparr>], lines = [], polygons =
            []\<rparr>) \<longrightarrow>
                   radius (p_style (points \<lparr>points = [\<lparr>p_lat = 0, p_lng = 0, p_style = \<lparr>radius =
                       8\<rparr>\<rparr>, \<lparr>p_lat = 0, p_lng = 45 / 16, p_style = \<lparr>radius = 8\<rparr>\<rparr>], lines = [],
                           polygons = []\<rparr> ! j)) + 3
                     < sqrt ((x_of (?c (points \<lparr>points = [\<lparr>p_lat = 0, p_lng = 0, p_style = \<lparr>radius =
                         8\<rparr>\<rparr>, \<lparr>p_lat = 0, p_lng = 45 / 16, p_style = \<lparr>radius = 8\<rparr>\<rparr>], lines = [],
                             polygons = []\<rparr> ! 1)) - x_of (?c (points \<lparr>points = [\<lparr>p_lat = 0, p_lng =
                                 0, p_style = \<lparr>radius = 8\<rparr>\<rparr>, \<lparr>p_lat = 0, p_lng = 45 / 16, p_style =
                                     \<lparr>radius = 8\<rparr>\<rparr>], lines = [], polygons = []\<rparr> ! j)))\<^sup>2
                           + (y_of (?c (points \<lparr>points = [\<lparr>p_lat = 0, p_lng = 0, p_style = \<lparr>radius =
                               8\<rparr>\<rparr>, \<lparr>p_lat = 0, p_lng = 45 / 16, p_style = \<lparr>radius = 8\<rparr>\<rparr>], lines =
                                   [], polygons = []\<rparr> ! 1)) - y_of (?c (points \<lparr>points = [\<lparr>p_lat =
                                       0, p_lng = 0, p_style = \<lparr>radius = 8\<rparr>\<rparr>, \<lparr>p_lat = 0, p_lng = 45
                                           / 16, p_style = \<lparr>radius = 8\<rparr>\<rparr>], lines = [], polygons =
                                               []\<rparr> ! j)))\<^sup>2)"
      by auto
    from t [of 1 "\<lparr>points = [\<lparr>p_lat = 0, p_lng = 0, p_style = \<lparr>radius = 8\<rparr>\<rparr>, \<lparr>p_lat = 0, p_lng = 45
        / 16, p_style = \<lparr>radius = 8\<rparr>\<rparr>], lines = [], polygons = []\<rparr>" 0 0, THEN conjunct1,
            rule_format, OF h]
    have "updateTooltip \<lparr>viewCenterLat = 0, viewCenterLng = 0, viewZoom = 1, canvas_width = 512,
        canvas_height = 512, devicePixelRatio = 1\<rparr> \<lparr>points = [\<lparr>p_lat = 0, p_lng = 0, p_style =
            \<lparr>radius = 8\<rparr>\<rparr>, \<lparr>p_lat = 0, p_lng = 45 / 16, p_style = \<lparr>radius = 8\<rparr>\<rparr>], lines = [],
                polygons = []\<rparr> (x_of (?c (points \<lparr>points = [\<lparr>p_lat = 0, p_lng = 0, p_style = \<lparr>radius
                    = 8\<rparr>\<rparr>, \<lparr>p_lat = 0, p_lng = 45 / 16, p_style = \<lparr>radius = 8\<rparr>\<rparr>], lines = [],
                        polygons = []\<rparr> ! 1))) (y_of (?c (points \<lparr>points = [\<lparr>p_lat = 0, p_lng = 0,
                            p_style = \<lparr>radius = 8\<rparr>\<rparr>, \<lparr>p_lat = 0, p_lng = 45 / 16, p_style = \<lparr>radius
                                = 8\<rparr>\<rparr>], lines = [], polygons = []\<rparr> ! 1)))
            = Some (FoundPoint, 1)"
      using nolater by blast
    then show ?thesis by simp
  qed
  have b: "\<exists>j < 2. updateTooltip \<lparr>viewCenterLat = 0, viewCenterLng = 0, viewZoom = 1, canvas_width =
      512, canvas_height = 512, devicePixelRatio = 1\<rparr> \<lparr>points = [\<lparr>p_lat = 0, p_lng = 0, p_style =
          \<lparr>radius = 8\<rparr>\<rparr>, \<lparr>p_lat = 0, p_lng = 45 / 16, p_style = \<lparr>radius = 8\<rparr>\<rparr>], lines = [], polygons
              = []\<rparr> 256 256 = Some (FoundPoint, j)"
  proof -
    have "\<exists>k < length (points \<lparr>points = [\<lparr>p_lat = 0, p_lng = 0, p_style = \<lparr>radius = 8\<rparr>\<rparr>, \<lparr>p_lat = 0,
        p_lng = 45 / 16, p_style = \<lparr>radius = 8\<rparr>\<rparr>], lines = [], polygons = []\<rparr>).
            sqrt ((256 - x_of (?c (points \<lparr>points = [\<lparr>p_lat = 0, p_lng = 0, p_style = \<lparr>radius = 8\<rparr>\<rparr>,
                \<lparr>p_lat = 0, p_lng = 45 / 16, p_style = \<lparr>radius = 8\<rparr>\<rparr>], lines = [], polygons = []\<rparr> !
                    k)))\<^sup>2 + (256 - y_of (?c (points \<lparr>points = [\<lparr>p_lat = 0, p_lng = 0, p_style =
                        \<lparr>radius = 8\<rparr>\<rparr>, \<lparr>p_lat = 0, p_lng = 45 / 16, p_style = \<lparr>radius = 8\<rparr>\<rparr>], lines
                            = [], polygons = []\<rparr> ! k)))\<^sup>2)
              \<le> radius (p_style (points \<lparr>points = [\<lparr>p_lat = 0, p_lng = 0, p_style = \<lparr>radius = 8\<rparr>\<rparr>,
                  \<lparr>p_lat = 0, p_lng = 45 / 16, p_style = \<lparr>radius = 8\<rparr>\<rparr>], lines = [], polygons = []\<rparr>
                      ! k)) + 3"
      by (rule exI [of _ 0]) (simp add: latlngToPixel_equator)
    with t [of 0 "\<lparr>points = [\<lparr>p_lat = 0, p_lng = 0, p_style = \<lparr>radius = 8\<rparr>\<rparr>, \<lparr>p_lat = 0, p_lng = 45
        / 16, p_style = \<lparr>radius = 8\<rparr>\<rparr>], lines = [], polygons = []\<rparr>" 256 256, THEN conjunct2, THEN
            conjunct1]
    have "\<exists>j < length (points \<lparr>points = [\<lparr>p_lat = 0, p_lng = 0, p_style = \<lparr>radius = 8\<rparr>\<rparr>, \<lparr>p_lat = 0,
        p_lng = 45 / 16, p_style = \<lparr>radius = 8\<rparr>\<rparr>], lines = [], polygons = []\<rparr>). updateTooltip
            \<lparr>viewCenterLat = 0, viewCenterLng = 0, viewZoom = 1, canvas_width = 512, canvas_height =
                512, devicePixelRatio = 1\<rparr> \<lparr>points = [\<lparr>p_lat = 0, p_lng = 0, p_style = \<lparr>radius =
                    8\<rparr>\<rparr>, \<lparr>p_lat = 0, p_lng = 45 / 16, p_style = \<lparr>radius = 8\<rparr>\<rparr>], lines = [], polygons
                        = []\<rparr> 256 256 = Some (FoundPoint, j)"
      by blast
    then show ?thesis by (simp add: numeral_2_eq_2)
  qed
  have c: "\<forall>j. updateTooltip \<lparr>viewCenterLat = 0, viewCenterLng = 0, viewZoom = 1, canvas_width =
      512, canvas_height = 512, devicePixelRatio = 1\<rparr> \<lparr>points = [\<lparr>p_lat = 0, p_lng = 0, p_style =
          \<lparr>radius = 8\<rparr>\<rparr>], lines = [], polygons = []\<rparr> 268 256 \<noteq> Some (FoundPoint, j)"
  proof -
    have "\<forall>k < length (points \<lparr>points = [\<lparr>p_lat = 0, p_lng = 0, p_style = \<lparr>radius = 8\<rparr>\<rparr>], lines =
        [], polygons = []\<rparr>).
            radius (p_style (points \<lparr>points = [\<lparr>p_lat = 0, p_lng = 0, p_style = \<lparr>radius = 8\<rparr>\<rparr>],
                lines = [], polygons = []\<rparr> ! k)) + 4
              \<le> sqrt ((268 - x_of (?c (points \<lparr>points = [\<lparr>p_lat = 0, p_lng = 0, p_style = \<lparr>radius =
                  8\<rparr>\<rparr>], lines = [], polygons = []\<rparr> ! k)))\<^sup>2 + (256 - y_of (?c (points \<lparr>points =
                      [\<lparr>p_lat = 0, p_lng = 0, p_style = \<lparr>radius = 8\<rparr>\<rparr>], lines = [], polygons = []\<rparr> !
                          k)))\<^sup>2)"
      by (simp add: latlngToPixel_equator)
    then show ?thesis
      using t [of 0 "\<lparr>points = [\<lparr>p_lat = 0, p_lng = 0, p_style = \<lparr>radius = 8\<rparr>\<rparr>], lines = [],
          polygons = []\<rparr>" 268 256, THEN conjunct2, THEN conjunct2] by blast
  qed
  show ?thesis using a b c by blast
qed

subsection \<open>Polygon hit test\<close>

lemma isPointInPolygon_holes_iff:
  "isPointInPolygon_holes px py rs \<longleftrightarrow> filter (pointInRing px py) rs = []"
  by (induction rs) auto

lemma isPointInPolygon_iff:
  assumes "rings polygon = outer # holes"
  shows "isPointInPolygon v px py polygon \<longleftrightarrow>
           pointInRing px py (map (\<lambda>coord. latlngToPixel v (fst coord) (snd coord)) outer)
           \<and> filter (pointInRing px py)
                (map (map (\<lambda>coord. latlngToPixel v (fst coord) (snd coord))) holes) = []"
  using assms by (simp add: isPointInPolygon_def Let_def isPointInPolygon_holes_iff)

lemma pointInRing_loop_parity:
  assumes "i \<le> length ring" and "j = (i + length ring - 1) mod length ring"
  shows "pointInRing_loop px py ring i j inside =
           (inside \<noteq> odd (length (filter
              (\<lambda>k. rayCrosses px py (ring ! k) (ring ! ((k + length ring - 1) mod length ring)))
              [i..<length ring])))"
  using assms
proof (induction px py ring i j inside rule: pointInRing_loop.induct)
  case (1 px py ring i j inside)
  let ?n = "length ring"
  let ?C = "\<lambda>k. rayCrosses px py (ring ! k) (ring ! ((k + ?n - 1) mod ?n))"
  show ?case
  proof (cases "i < ?n")
    case False
    then show ?thesis using "1.prems"(1)
      by (subst pointInRing_loop.simps) simp
  next
    case True
    let ?flip = "((y_of (ring ! i) > py) \<noteq> (y_of (ring ! j) > py))
       \<and> (px < (x_of (ring ! j) - x_of (ring ! i)) * (py - y_of (ring ! i)) / (y_of (ring ! j) -
           y_of (ring ! i)) + x_of (ring ! i))"
    let ?inside' = "if ?flip then \<not> inside else inside"
    have prev: "i = (Suc i + ?n - 1) mod ?n" using True by simp
    have le: "Suc i \<le> ?n" using True by simp
    have step: "pointInRing_loop px py ring i j inside = pointInRing_loop px py ring (Suc i) i
        ?inside'"
      using True by (simp add: pointInRing_loop.simps [of px py ring i j inside] Let_def)
    have ih: "pointInRing_loop px py ring (Suc i) i ?inside' =
                (?inside' \<noteq> odd (length (filter ?C [Suc i..<?n])))"
      using "1.IH" [OF True refl refl refl refl le prev] .
    have c: "?C i = ?flip" using "1.prems"(2) by (simp add: rayCrosses_def)
    have upt: "[i..<?n] = i # [Suc i..<?n]" using True by (rule upt_conv_Cons)
    show ?thesis unfolding step ih upt using c by auto
  qed
qed

lemma pointInRing_parity:
  "pointInRing px py ring =
     odd (length (filter
       (\<lambda>k. rayCrosses px py (ring ! k) (ring ! ((k + length ring - 1) mod length ring)))
       [0..<length ring]))"
proof -
  have "length ring - 1 = (0 + length ring - 1) mod length ring"
    by (cases "length ring = 0") simp_all
  then show ?thesis
    unfolding pointInRing_def by (subst pointInRing_loop_parity) simp_all
qed

text \<open>
  Claim C7 (polygon hit parity).  \<open>proj\<close> projects a ring to pixels.  A query inside the
  projected outer ring and inside exactly one projected hole ring is not a match of the
  polygon; a query inside the projected outer ring and inside no hole ring is a match.
  Inside a ring is the result of \<open>pointInRing\<close>, which is the parity of the number of edges
  of the ring that the ray from the query crosses.
\<close>

theorem isPointInPolygon_parity:
  assumes "rings polygon = outer # holes"
    and "proj = map (\<lambda>coord. latlngToPixel v (fst coord) (snd coord))"
  shows "(pointInRing px py (proj outer)
            \<and> length (filter (\<lambda>hole. pointInRing px py (proj hole)) holes) = 1
          \<longrightarrow> \<not> isPointInPolygon v px py polygon)
       \<and> (pointInRing px py (proj outer)
            \<and> length (filter (\<lambda>hole. pointInRing px py (proj hole)) holes) = 0
          \<longrightarrow> isPointInPolygon v px py polygon)
       \<and> (\<forall>ring. pointInRing px py ring =
            odd (length (filter
              (\<lambda>k. rayCrosses px py (ring ! k) (ring ! ((k + length ring - 1) mod length ring)))
              [0..<length ring])))"
proof -
  have f: "filter (pointInRing px py) (map proj holes)
             = map proj (filter (\<lambda>hole. pointInRing px py (proj hole)) holes)"
    by (simp add: filter_map comp_def)
  have iff: "isPointInPolygon v px py polygon \<longleftrightarrow>
               pointInRing px py (proj outer)
               \<and> length (filter (\<lambda>hole. pointInRing px py (proj hole)) holes) = 0"
    unfolding isPointInPolygon_iff [OF assms(1)] assms(2) [symmetric] f by simp
  show ?thesis
  proof (intro conjI allI)
    show "pointInRing px py (proj outer)
            \<and> length (filter (\<lambda>hole. pointInRing px py (proj hole)) holes) = 1
          \<longrightarrow> \<not> isPointInPolygon v px py polygon"
      unfolding iff by simp
    show "pointInRing px py (proj outer)
            \<and> length (filter (\<lambda>hole. pointInRing px py (proj hole)) holes) = 0
          \<longrightarrow> isPointInPolygon v px py polygon"
      unfolding iff by simp
    show "pointInRing px py ring =
            odd (length (filter
              (\<lambda>k. rayCrosses px py (ring ! k) (ring ! ((k + length ring - 1) mod length ring)))
              [0..<length ring]))" for ring
      by (rule pointInRing_parity)
  qed
qed

lemma mercator_odd:
  assumes "- (pi / 2) < r" and "r < pi / 2"
  shows "ln (tan (- r) + 1 / cos (- r)) = - ln (tan r + 1 / cos r)"
proof -
  have c: "0 < cos r" using assms by (simp add: cos_gt_zero_pi)
  have p: "0 < tan r + 1 / cos r" using assms by (rule tan_sec_pos)
  have "(tan r + 1 / cos r) * (1 / cos r - tan r) = (1 - (sin r)\<^sup>2) / (cos r)\<^sup>2"
    using c by (simp add: tan_def field_simps power2_eq_square)
  also have "\<dots> = 1"
    using c sin_cos_squared_add [of r] by (simp add: field_simps)
  finally have inv: "(tan r + 1 / cos r) * (1 / cos r - tan r) = 1" .
  have "1 / cos r - tan r = ((tan r + 1 / cos r) * (1 / cos r - tan r)) / (tan r + 1 / cos r)"
    using p by simp
  then have "1 / cos r - tan r = inverse (tan r + 1 / cos r)"
    using inv by (simp add: inverse_eq_divide)
  then have "ln (1 / cos r - tan r) = - ln (tan r + 1 / cos r)"
    using p by (simp add: ln_inverse)
  then show ?thesis by simp
qed

lemma mercator_pos:
  assumes "0 < r" and "r < pi / 2"
  shows "0 < ln (tan r + 1 / cos r)"
proof -
  have c: "0 < cos r" using assms by (simp add: cos_gt_zero_pi)
  have t: "0 < tan r" using assms by (rule tan_gt_zero)
  have "cos r \<le> 1" by simp
  then have "1 \<le> 1 / cos r" using c by simp
  then have "1 < tan r + 1 / cos r" using t by linarith
  then show ?thesis by simp
qed

lemma mercator_neg:
  assumes "- (pi / 2) < r" and "r < 0"
  shows "ln (tan r + 1 / cos r) < 0"
proof -
  have "0 < ln (tan (- r) + 1 / cos (- r))"
    using assms by (intro mercator_pos) simp_all
  moreover have "ln (tan (- (- r)) + 1 / cos (- (- r))) = - ln (tan (- r) + 1 / cos (- r))"
    using assms by (intro mercator_odd) simp_all
  ultimately show ?thesis by simp
qed

lemma latlngToPixel_y_equator_view:
  assumes "viewCenterLat v = 0"
  shows "y_of (latlngToPixel v lat lng) =
           canvas_height v / devicePixelRatio v / 2
             - ln (tan (lat * pi / 180) + 1 / cos (lat * pi / 180)) / pi / 2 * (2 powr viewZoom v *
                 TILE_SIZE)"
  using assms by (simp add: latlngToPixel_def getCenterPixel_def Let_def algebra_simps
      diff_divide_distrib)

lemma latlngToPixel_y_north:
  assumes "viewCenterLat v = 0" and "0 < lat" and "lat < 90"
  shows "y_of (latlngToPixel v lat lng) < canvas_height v / devicePixelRatio v / 2"
proof -
  have "0 < lat * pi / 180" using assms by simp
  moreover have "lat * pi / 180 < pi / 2"
  proof -
    have "lat * pi < 90 * pi" using assms(3) pi_gt_zero by (rule mult_strict_right_mono)
    then show ?thesis by simp
  qed
  ultimately have "0 < ln (tan (lat * pi / 180) + 1 / cos (lat * pi / 180))"
    by (rule mercator_pos)
  then have "0 < ln (tan (lat * pi / 180) + 1 / cos (lat * pi / 180)) / pi / 2 * (2 powr viewZoom v
      * TILE_SIZE)"
    using scale_pos [of "viewZoom v"] by simp
  then show ?thesis unfolding latlngToPixel_y_equator_view [OF assms(1)] by linarith
qed

lemma latlngToPixel_y_south:
  assumes "viewCenterLat v = 0" and "- 90 < lat" and "lat < 0"
  shows "canvas_height v / devicePixelRatio v / 2 < y_of (latlngToPixel v lat lng)"
proof -
  have "lat * pi / 180 < 0" using assms by (simp add: mult_neg_pos)
  moreover have "- (pi / 2) < lat * pi / 180"
  proof -
    have "(- 90) * pi < lat * pi" using assms(2) pi_gt_zero by (rule mult_strict_right_mono)
    then show ?thesis by simp
  qed
  ultimately have "ln (tan (lat * pi / 180) + 1 / cos (lat * pi / 180)) < 0"
    by (intro mercator_neg)
  then have "ln (tan (lat * pi / 180) + 1 / cos (lat * pi / 180)) / pi / 2 * (2 powr viewZoom v *
      TILE_SIZE) < 0"
    using scale_pos [of "viewZoom v"] by (simp add: mult_neg_pos divide_neg_pos)
  then show ?thesis unfolding latlngToPixel_y_equator_view [OF assms(1)] by linarith
qed

lemma pointInRing_rectangle:
  assumes "x_of a = x_of d" and "x_of b = x_of c" and "y_of a = y_of b" and "y_of c = y_of d"
    and "y_of c < y_of a" and "x_of a \<le> x_of b"
  shows "pointInRing px py [a, b, c, d] \<longleftrightarrow>
           y_of c \<le> py \<and> py < y_of a \<and> x_of a \<le> px \<and> px < x_of b"
proof -
  let ?band = "y_of c \<le> py \<and> py < y_of a"
  have l4: "pointInRing_loop px py [a, b, c, d] (Suc (Suc (Suc (Suc 0)))) (Suc (Suc (Suc 0))) ins =
      ins"
    for ins
    by (subst pointInRing_loop.simps) simp
  have l3: "pointInRing_loop px py [a, b, c, d] (Suc (Suc (Suc 0))) (Suc (Suc 0)) ins = ins" for ins
    using assms by (subst pointInRing_loop.simps) (simp add: l4 Let_def)
  have l2: "pointInRing_loop px py [a, b, c, d] (Suc (Suc 0)) (Suc 0) ins =
              (if ?band \<and> px < x_of b then \<not> ins else ins)" for ins
    using assms by (subst pointInRing_loop.simps) (auto simp: l3 Let_def)
  have l1: "pointInRing_loop px py [a, b, c, d] (Suc 0) 0 ins =
              (if ?band \<and> px < x_of b then \<not> ins else ins)" for ins
    using assms by (subst pointInRing_loop.simps) (simp add: l2 Let_def)
  have l0: "pointInRing_loop px py [a, b, c, d] 0 (Suc (Suc (Suc 0))) False =
              (if ?band \<and> px < x_of b then \<not> (?band \<and> px < x_of a) else (?band \<and> px < x_of a))"
    using assms by (subst pointInRing_loop.simps) (auto simp: l1 Let_def)
  have "pointInRing px py [a, b, c, d] =
          pointInRing_loop px py [a, b, c, d] 0 (Suc (Suc (Suc 0))) False"
    by (simp add: pointInRing_def)
  then show ?thesis unfolding l0 using assms by auto
qed

lemma pointInRing_box:
  assumes "- 90 < s" and "s < 0" and "0 < n" and "n < 90" and "w \<le> e"
  shows "pointInRing px 256
           (map (\<lambda>coord. latlngToPixel \<lparr>viewCenterLat = 0, viewCenterLng = 0, viewZoom = 1,
               canvas_width = 512, canvas_height = 512, devicePixelRatio = 1\<rparr> (fst coord) (snd
                   coord)) [(s, w), (s, e), (n, e), (n, w)])
         \<longleftrightarrow> 256 + w * 64 / 45 \<le> px \<and> px < 256 + e * 64 / 45"
proof -
  let ?v = "\<lparr>viewCenterLat = 0, viewCenterLng = 0, viewZoom = 1, canvas_width = 512, canvas_height =
      512, devicePixelRatio = 1\<rparr>"
  have x: "x_of (latlngToPixel ?v lat lng) = 256 + lng * 64 / 45" for lat lng
    by (simp add: latlngToPixel_x TILE_SIZE_def)
  have y: "y_of (latlngToPixel ?v lat lng) = y_of (latlngToPixel ?v lat lng')" for lat lng lng'
    by (simp add: latlngToPixel_y_equator_view)
  have south: "256 < y_of (latlngToPixel ?v s lng)" for lng
    using latlngToPixel_y_south [of ?v s lng] assms by simp
  have north: "y_of (latlngToPixel ?v n lng) < 256" for lng
    using latlngToPixel_y_north [of ?v n lng] assms by simp
  have "pointInRing px 256 [latlngToPixel ?v s w, latlngToPixel ?v s e,
                            latlngToPixel ?v n e, latlngToPixel ?v n w]
        \<longleftrightarrow> y_of (latlngToPixel ?v n e) \<le> 256 \<and> 256 < y_of (latlngToPixel ?v s w)
            \<and> x_of (latlngToPixel ?v s w) \<le> px \<and> px < x_of (latlngToPixel ?v s e)"
  proof (rule pointInRing_rectangle)
    show "x_of (latlngToPixel ?v s w) = x_of (latlngToPixel ?v n w)" by (simp only: x)
    show "x_of (latlngToPixel ?v s e) = x_of (latlngToPixel ?v n e)" by (simp only: x)
    show "y_of (latlngToPixel ?v s w) = y_of (latlngToPixel ?v s e)" by (rule y)
    show "y_of (latlngToPixel ?v n e) = y_of (latlngToPixel ?v n w)" by (rule y)
    show "y_of (latlngToPixel ?v n e) < y_of (latlngToPixel ?v s w)"
      using north [of e] south [of w] by linarith
    show "x_of (latlngToPixel ?v s w) \<le> x_of (latlngToPixel ?v s e)"
      using assms(5) by (simp only: x)
  qed
  then show ?thesis
    using north [of e] south [of w] by (simp add: x)
qed

theorem isPointInPolygon_parity_witness:
  "rings \<lparr>rings = [[(- 45, - 90), (- 45, 90), (45, 90), (45, - 90)], [(- 30, - 45), (- 30, 45), (30,
      45), (30, - 45)]]\<rparr> = [(- 45, - 90), (- 45, 90), (45, 90), (45, - 90)] # [[(- 30, - 45), (- 30,
          45), (30, 45), (30, - 45)]]
   \<and> \<not> isPointInPolygon \<lparr>viewCenterLat = 0, viewCenterLng = 0, viewZoom = 1, canvas_width = 512,
       canvas_height = 512, devicePixelRatio = 1\<rparr> 256 256 \<lparr>rings = [[(- 45, - 90), (- 45, 90), (45,
           90), (45, - 90)], [(- 30, - 45), (- 30, 45), (30, 45), (30, - 45)]]\<rparr>
   \<and> isPointInPolygon \<lparr>viewCenterLat = 0, viewCenterLng = 0, viewZoom = 1, canvas_width = 512,
       canvas_height = 512, devicePixelRatio = 1\<rparr> 352 256 \<lparr>rings = [[(- 45, - 90), (- 45, 90), (45,
           90), (45, - 90)], [(- 30, - 45), (- 30, 45), (30, 45), (30, - 45)]]\<rparr>"
proof -
  let ?proj = "map (\<lambda>coord. latlngToPixel \<lparr>viewCenterLat = 0, viewCenterLng = 0, viewZoom = 1,
      canvas_width = 512, canvas_height = 512, devicePixelRatio = 1\<rparr> (fst coord) (snd coord))"
  have r: "rings \<lparr>rings = [[(- 45, - 90), (- 45, 90), (45, 90), (45, - 90)], [(- 30, - 45), (- 30,
      45), (30, 45), (30, - 45)]]\<rparr> = [(- 45, - 90), (- 45, 90), (45, 90), (45, - 90)] # [[(- 30, -
          45), (- 30, 45), (30, 45), (30, - 45)]]" by simp
  note t = isPointInPolygon_parity [OF r, of ?proj "\<lparr>viewCenterLat = 0, viewCenterLng = 0, viewZoom
      = 1, canvas_width = 512, canvas_height = 512, devicePixelRatio = 1\<rparr>", OF refl]
  have o1: "pointInRing 256 256 (?proj [(- 45, - 90), (- 45, 90), (45, 90), (45, - 90)])"
    using pointInRing_box [of "- 45" 45 "- 90" 90 256] by simp
  have h1: "pointInRing 256 256 (?proj [(- 30, - 45), (- 30, 45), (30, 45), (30, - 45)])"
    using pointInRing_box [of "- 30" 30 "- 45" 45 256] by simp
  have o2: "pointInRing 352 256 (?proj [(- 45, - 90), (- 45, 90), (45, 90), (45, - 90)])"
    using pointInRing_box [of "- 45" 45 "- 90" 90 352] by simp
  have h2: "\<not> pointInRing 352 256 (?proj [(- 30, - 45), (- 30, 45), (30, 45), (30, - 45)])"
    using pointInRing_box [of "- 30" 30 "- 45" 45 352] by simp
  have a: "\<not> isPointInPolygon \<lparr>viewCenterLat = 0, viewCenterLng = 0, viewZoom = 1, canvas_width =
      512, canvas_height = 512, devicePixelRatio = 1\<rparr> 256 256 \<lparr>rings = [[(- 45, - 90), (- 45, 90),
          (45, 90), (45, - 90)], [(- 30, - 45), (- 30, 45), (30, 45), (30, - 45)]]\<rparr>"
    using t [of 256 256, THEN conjunct1] o1 h1 by simp
  have b: "isPointInPolygon \<lparr>viewCenterLat = 0, viewCenterLng = 0, viewZoom = 1, canvas_width = 512,
      canvas_height = 512, devicePixelRatio = 1\<rparr> 352 256 \<lparr>rings = [[(- 45, - 90), (- 45, 90), (45,
          90), (45, - 90)], [(- 30, - 45), (- 30, 45), (30, 45), (30, - 45)]]\<rparr>"
    using t [of 352 256, THEN conjunct2, THEN conjunct1] o2 h2 by simp
  show ?thesis using r a b by blast
qed

subsection \<open>Ingestion\<close>

lemma widened_refl: "widened b b"
  by (simp add: widened_def)

lemma widened_trans: "widened a b \<Longrightarrow> widened b c \<Longrightarrow> widened a c"
  by (auto simp: widened_def)

lemma update_bounds_cover:
  assumes "bounds_cover b self"
  shows "bounds_cover b (update_bounds self lat lng)"
proof -
  from assms obtain b' where b': "self_bounds self = Some b'" "widened b b'"
    by (auto simp: bounds_cover_def)
  let ?b'' = "\<lparr>min_lat = min (min_lat b') lat, max_lat = max (max_lat b') lat,
               min_lng = min (min_lng b') lng, max_lng = max (max_lng b') lng\<rparr>"
  have "self_bounds (update_bounds self lat lng) = Some ?b''"
    using b'(1) by (simp add: update_bounds_def)
  moreover have "widened b' ?b''" by (simp add: widened_def)
  ultimately show ?thesis
    using widened_trans [OF b'(2)] by (auto simp: bounds_cover_def)
qed

lemma update_bounds_all_cover:
  "bounds_cover b self \<Longrightarrow> bounds_cover b (update_bounds_all self cs)"
  unfolding update_bounds_all_def
  by (induction cs arbitrary: self) (simp_all add: update_bounds_cover)

lemma foldl_update_bounds_all_cover:
  "bounds_cover b self \<Longrightarrow> bounds_cover b (foldl update_bounds_all self rs)"
  by (induction rs arbitrary: self) (simp_all add: update_bounds_all_cover)

lemma bounds_cover_points_update [simp]:
  "bounds_cover b (self\<lparr>self_points := ps\<rparr>) = bounds_cover b self"
  "bounds_cover b (self\<lparr>self_lines := ls\<rparr>) = bounds_cover b self"
  "bounds_cover b (self\<lparr>self_polygons := gs\<rparr>) = bounds_cover b self"
  by (simp_all add: bounds_cover_def)

lemma add_points_step_cover:
  assumes "bounds_cover b self" and "add_points_step f style self point = Inr (self', msgs)"
  shows "bounds_cover b self'"
  using assms
  by (auto simp: add_points_step_def Let_def update_bounds_cover split: if_splits sum.splits)

lemma add_lines_step_cover:
  assumes "bounds_cover b self" and "add_lines_step f style self line = Inr (self', msgs)"
  shows "bounds_cover b self'"
  using assms
  by (auto simp: add_lines_step_def Let_def update_bounds_all_cover
           split: if_splits sum.splits pyval.splits)

lemma store_polygon_cover:
  "bounds_cover b self \<Longrightarrow> bounds_cover b (store_polygon style self polygon rs)"
  unfolding store_polygon_def Let_def
  by (rule foldl_update_bounds_all_cover) simp

lemma add_polygons_step_cover:
  assumes "bounds_cover b self" and "add_polygons_step f style self polygon = Inr (self', msgs)"
  shows "bounds_cover b self'"
  using assms
  by (auto simp: add_polygons_step_def Let_def store_polygon_cover
           split: if_splits sum.splits pyval.splits)

lemma for_each_invariant:
  assumes "\<And>s x s' m. P s \<Longrightarrow> step s x = Inr (s', m) \<Longrightarrow> P s'"
    and "P (exporter r)"
  shows "P (exporter (for_each step r xs))"
  using assms(2)
proof (induction xs arbitrary: r)
  case Nil
  then show ?case by simp
next
  case (Cons x xs)
  show ?case
  proof (cases "step (exporter r) x")
    case (Inl e)
    then show ?thesis using Cons.prems by simp
  next
    case (Inr p)
    obtain s' m where p: "p = (s', m)" by (cases p)
    have "P s'" using assms(1) [OF Cons.prems] Inr p by simp
    then have "P (exporter (r\<lparr>exporter := s', printed := printed r @ m\<rparr>))" by simp
    from Cons.IH [OF this] show ?thesis using Inr p by simp
  qed
qed

text \<open>
  Claim C9 (bounds monotonicity), as the code has it.  Once the instance has bounds,
  \<open>_update_bounds\<close> and each of \<open>add_points\<close>, \<open>add_lines\<close> and \<open>add_polygons\<close> leave it
  with bounds that are at least as wide: \<open>min_lat\<close> and \<open>min_lng\<close> do not increase,
  \<open>max_lat\<close> and \<open>max_lng\<close> do not decrease, also when the call ends in an exception.
  \<open>clear\<close> resets the bounds to \<open>None\<close>.
\<close>

theorem bounds_only_widen:
  assumes "self_bounds self = Some b"
  shows "(\<exists>b'. self_bounds (update_bounds self lat lng) = Some b' \<and> widened b b')
       \<and> (\<exists>b'. self_bounds (exporter (add_points f style self point_list)) = Some b' \<and> widened b b')
       \<and> (\<exists>b'. self_bounds (exporter (add_lines f style self line_list)) = Some b' \<and> widened b b')
       \<and> (\<exists>b'. self_bounds (exporter (add_polygons f style self polygon_list)) = Some b'
               \<and> widened b b')
       \<and> self_bounds (clear self) = None"
proof -
  have c: "bounds_cover b self" using assms by (simp add: bounds_cover_def widened_refl)
  have 1: "bounds_cover b (update_bounds self lat lng)" using c by (rule update_bounds_cover)
  have 2: "bounds_cover b (exporter (add_points f style self point_list))"
    unfolding add_points_def
    by (rule for_each_invariant [where P = "bounds_cover b"])
       (auto intro: add_points_step_cover simp: c)
  have 3: "bounds_cover b (exporter (add_lines f style self line_list))"
    unfolding add_lines_def
    by (rule for_each_invariant [where P = "bounds_cover b"])
       (auto intro: add_lines_step_cover simp: c)
  have 4: "bounds_cover b (exporter (add_polygons f style self polygon_list))"
    unfolding add_polygons_def
    by (rule for_each_invariant [where P = "bounds_cover b"])
       (auto intro: add_polygons_step_cover simp: c)
  have 5: "self_bounds (clear self) = None" by (simp add: clear_def)
  show ?thesis using 1 2 3 4 5 unfolding bounds_cover_def by blast
qed

theorem bounds_only_widen_witness:
  "self_bounds \<lparr>self_points = [], self_lines = [], self_polygons = [], self_bounds = Some \<lparr>min_lat =
      - 10, max_lat = 10, min_lng = - 10, max_lng = 10\<rparr>\<rparr> = Some \<lparr>min_lat = - 10, max_lat = 10,
          min_lng = - 10, max_lng = 10\<rparr>
   \<and> self_bounds (update_bounds \<lparr>self_points = [], self_lines = [], self_polygons = [], self_bounds
       = Some \<lparr>min_lat = - 10, max_lat = 10, min_lng = - 10, max_lng = 10\<rparr>\<rparr> 20 0) = Some \<lparr>min_lat =
           - 10, max_lat = 20, min_lng = - 10, max_lng = 10\<rparr>
   \<and> (\<exists>b'. self_bounds (update_bounds \<lparr>self_points = [], self_lines = [], self_polygons = [],
       self_bounds = Some \<lparr>min_lat = - 10, max_lat = 10, min_lng = - 10, max_lng = 10\<rparr>\<rparr> 20 0) = Some
           b' \<and> widened \<lparr>min_lat = - 10, max_lat = 10, min_lng = - 10, max_lng = 10\<rparr> b')"
  using bounds_only_widen [of "\<lparr>self_points = [], self_lines = [], self_polygons = [], self_bounds =
      Some \<lparr>min_lat = - 10, max_lat = 10, min_lng = - 10, max_lng = 10\<rparr>\<rparr>" "\<lparr>min_lat = - 10, max_lat
          = 10, min_lng = - 10, max_lng = 10\<rparr>" 20 0]
  by (simp add: update_bounds_def)

text \<open>
  Claim C9 as stated fails across \<open>clear\<close>: an instance with bounds from -10 to 10 that is
  cleared and then given the coordinate \<open>(0, 0)\<close> has \<open>min_lat = 0\<close>, above the earlier -10.
\<close>

theorem bounds_only_widen_counterexample:
  "self_bounds \<lparr>self_points = [], self_lines = [], self_polygons = [], self_bounds = Some \<lparr>min_lat =
      - 10, max_lat = 10, min_lng = - 10, max_lng = 10\<rparr>\<rparr> = Some \<lparr>min_lat = - 10, max_lat = 10,
          min_lng = - 10, max_lng = 10\<rparr>
   \<and> self_bounds (update_bounds (clear \<lparr>self_points = [], self_lines = [], self_polygons = [],
       self_bounds = Some \<lparr>min_lat = - 10, max_lat = 10, min_lng = - 10, max_lng = 10\<rparr>\<rparr>) 0 0)
       = Some \<lparr>min_lat = 0, max_lat = 0, min_lng = 0, max_lng = 0\<rparr>
   \<and> min_lat \<lparr>min_lat = - 10, max_lat = 10, min_lng = - 10, max_lng = 10\<rparr> < min_lat \<lparr>min_lat = 0,
       max_lat = 0, min_lng = 0, max_lng = 0\<rparr>"
  by (simp add: update_bounds_def clear_def)

lemma py_or_falsy [simp]: "\<not> truthy a \<Longrightarrow> py_or a b = b"
  by (simp add: py_or_def)

lemma py_or_truthy [simp]: "truthy a \<Longrightarrow> py_or a b = a"
  by (simp add: py_or_def)

lemma for_each_cong_run:
  assumes "exporter r = exporter r'" and "raised r = raised r'"
  shows "exporter (for_each step r xs) = exporter (for_each step r' xs)
       \<and> raised (for_each step r xs) = raised (for_each step r' xs)"
  using assms
proof (induction xs arbitrary: r r')
  case Nil
  then show ?case by simp
next
  case (Cons x xs)
  show ?case
  proof (cases "step (exporter r) x")
    case (Inl e)
    then show ?thesis using Cons.prems by simp
  next
    case (Inr p)
    obtain s' m where p: "p = (s', m)" by (cases p)
    have "exporter (for_each step (r\<lparr>exporter := s', printed := printed r @ m\<rparr>) xs)
            = exporter (for_each step (r'\<lparr>exporter := s', printed := printed r' @ m\<rparr>) xs)
        \<and> raised (for_each step (r\<lparr>exporter := s', printed := printed r @ m\<rparr>) xs)
            = raised (for_each step (r'\<lparr>exporter := s', printed := printed r' @ m\<rparr>) xs)"
      by (rule Cons.IH) (simp_all add: Cons.prems)
    then show ?thesis using Inr p Cons.prems by simp
  qed
qed

lemma for_each_filter:
  assumes skip: "\<And>s x. bad x \<Longrightarrow> \<exists>m. step s x = Inr (s, m)"
  shows "exporter (for_each step r xs) = exporter (for_each step r (filter (\<lambda>x. \<not> bad x) xs))
       \<and> raised (for_each step r xs) = raised (for_each step r (filter (\<lambda>x. \<not> bad x) xs))"
proof (induction xs arbitrary: r)
  case Nil
  then show ?case by simp
next
  case (Cons x xs)
  show ?case
  proof (cases "bad x")
    case True
    then obtain m where m: "step (exporter r) x = Inr (exporter r, m)" using skip by blast
    let ?r = "r\<lparr>exporter := exporter r, printed := printed r @ m\<rparr>"
    have a: "exporter (for_each step ?r xs) = exporter (for_each step r xs)
           \<and> raised (for_each step ?r xs) = raised (for_each step r xs)"
      by (rule for_each_cong_run) simp_all
    show ?thesis using True m a Cons.IH [of r] by simp
  next
    case False
    show ?thesis
    proof (cases "step (exporter r) x")
      case (Inl e)
      then show ?thesis using False by simp
    next
      case (Inr p)
      obtain s' m where p: "p = (s', m)" by (cases p)
      show ?thesis
        using False Inr p Cons.IH [of "r\<lparr>exporter := s', printed := printed r @ m\<rparr>"] by simp
    qed
  qed
qed

lemma lookup_first_None_iff:
  "lookup_first keys point = PyNone \<longleftrightarrow>
     (\<forall>key \<in> set keys. map_of point key = None \<or> map_of point key = Some PyNone)"
  by (induction keys) (auto split: option.splits)

lemma point_unresolvable_iff:
  "point_unresolvable point \<longleftrightarrow>
     lookup_first [''lat'', ''latitude'', ''y''] point = PyNone
     \<or> lookup_first [''lng'', ''longitude'', ''lon'', ''x''] point = PyNone"
  unfolding point_unresolvable_def lookup_first_None_iff ..

lemma update_bounds_fields [simp]:
  "self_points (update_bounds self lat lng) = self_points self"
  "self_lines (update_bounds self lat lng) = self_lines self"
  "self_polygons (update_bounds self lat lng) = self_polygons self"
  by (simp_all add: update_bounds_def split: option.splits)

lemma update_bounds_all_fields [simp]:
  "self_points (update_bounds_all self cs) = self_points self"
  "self_lines (update_bounds_all self cs) = self_lines self"
  "self_polygons (update_bounds_all self cs) = self_polygons self"
  unfolding update_bounds_all_def
  by (induction cs arbitrary: self) simp_all

lemma foldl_update_bounds_all_fields [simp]:
  "self_points (foldl update_bounds_all self rs) = self_points self"
  "self_lines (foldl update_bounds_all self rs) = self_lines self"
  "self_polygons (foldl update_bounds_all self rs) = self_polygons self"
  by (induction rs arbitrary: self) simp_all

lemma float_overflows_small: "\<bar>i\<bar> \<le> 1000000 \<Longrightarrow> \<not> float_overflows i"
  unfolding float_overflows_def by simp

lemma float_overflows_0 [simp]: "\<not> float_overflows 0"
  by (simp add: float_overflows_small)

lemma float_overflows_numeral [simp]:
  "\<bar>numeral n :: int\<bar> \<le> 1000000 \<Longrightarrow> \<not> float_overflows (numeral n)"
  "\<bar>numeral n :: int\<bar> \<le> 1000000 \<Longrightarrow> \<not> float_overflows (- numeral n)"
  "\<not> float_overflows 1"
  by (simp_all add: float_overflows_small)

lemma for_each_batch:
  assumes step: "\<And>s x. step s x = (if skip x then Inr (s, [diag x])
                   else case rec x of Inl e \<Rightarrow> Inl e | Inr q \<Rightarrow> Inr (store s q, []))"
    and "map rec (filter (\<lambda>x. \<not> skip x) xs) = map Inr qs"
  shows "for_each step r xs
       = r\<lparr>exporter := foldl store (exporter r) qs,
           printed := printed r @ map diag (filter skip xs)\<rparr>"
  using assms(2)
proof (induction xs arbitrary: r qs)
  case Nil
  then show ?case by simp
next
  case (Cons x xs)
  show ?case
  proof (cases "skip x")
    case True
    then have "map rec (filter (\<lambda>x. \<not> skip x) xs) = map Inr qs" using Cons.prems by simp
    from Cons.IH [OF this, of "r\<lparr>exporter := exporter r, printed := printed r @ [diag x]\<rparr>"]
    show ?thesis using True by (simp add: step)
  next
    case False
    then obtain q qs' where q: "qs = q # qs'" "rec x = Inr q"
      "map rec (filter (\<lambda>x. \<not> skip x) xs) = map Inr qs'"
      using Cons.prems by (cases qs) auto
    from Cons.IH [OF q(3), of "r\<lparr>exporter := store (exporter r) q, printed := printed r @ []\<rparr>"]
    show ?thesis using False q by (simp add: step)
  qed
qed

lemma for_each_abort:
  assumes step: "\<And>s x. step s x = (if skip x then Inr (s, [diag x])
                   else case rec x of Inl e \<Rightarrow> Inl e | Inr q \<Rightarrow> Inr (store s q, []))"
    and "map rec (filter (\<lambda>x. \<not> skip x) xs) = map Inr qs"
    and "\<not> skip x" and "rec x = Inl e"
  shows "for_each step r (xs @ x # rest)
       = r\<lparr>exporter := foldl store (exporter r) qs,
           printed := printed r @ map diag (filter skip xs),
           raised := Some e\<rparr>"
  using assms(2)
proof (induction xs arbitrary: r qs)
  case Nil
  then show ?case using assms(3,4) by (simp add: step)
next
  case (Cons y xs)
  show ?case
  proof (cases "skip y")
    case True
    then have "map rec (filter (\<lambda>x. \<not> skip x) xs) = map Inr qs" using Cons.prems by simp
    from Cons.IH [OF this, of "r\<lparr>exporter := exporter r, printed := printed r @ [diag y]\<rparr>"]
    show ?thesis using True by (simp add: step)
  next
    case False
    then obtain q qs' where q: "qs = q # qs'" "rec y = Inr q"
      "map rec (filter (\<lambda>x. \<not> skip x) xs) = map Inr qs'"
      using Cons.prems by (cases qs) auto
    from Cons.IH [OF q(3), of "r\<lparr>exporter := store (exporter r) q, printed := printed r @ []\<rparr>"]
    show ?thesis using False q by (simp add: step)
  qed
qed

lemma add_points_step_eq:
  "add_points_step f style self point =
     (if point_unresolvable point then Inr (self, [PointMissingLatLng point])
      else case point_record f style point of
             Inl e \<Rightarrow> Inl e
           | Inr q \<Rightarrow> Inr (append_point self q, []))"
  unfolding point_unresolvable_iff
  by (simp add: add_points_step_def point_record_def append_point_def Let_def split: sum.splits)

lemma add_lines_step_eq:
  "add_lines_step f style self line =
     (if line_skipped line then Inr (self, [LineMissingCoordinates line])
      else case line_record f style line of
             Inl e \<Rightarrow> Inl e
           | Inr q \<Rightarrow> Inr (append_line self q, []))"
  by (auto simp: add_lines_step_def line_record_def line_skipped_def append_line_def Let_def
           split: sum.splits pyval.splits)

lemma store_polygon_eq:
  "store_polygon style self polygon rings' =
     append_polygon self \<lparr>sg_rings = rings',
        sg_properties = filter (\<lambda>(k, v). k \<notin> set [''coords'', ''coordinates'',
                                   ''ring'', ''latlngs'']) polygon,
        sg_style = style\<rparr>"
  by (simp add: store_polygon_def append_polygon_def Let_def)

lemma add_polygons_step_eq:
  "add_polygons_step f style self polygon =
     (if polygon_skipped polygon then Inr (self, [polygon_diagnostic polygon])
      else case polygon_record f style polygon of
             Inl e \<Rightarrow> Inl e
           | Inr q \<Rightarrow> Inr (append_polygon self q, []))"
proof (cases "polygon_coords polygon")
  case (PyList coords')
  show ?thesis
    by (cases "coords' = []"; cases "is_multi_ring coords'")
       (auto simp: add_polygons_step_def polygon_record_def polygon_skipped_def
             polygon_diagnostic_def store_polygon_eq Let_def PyList
             split: sum.splits)
qed (simp_all add: add_polygons_step_def polygon_skipped_def polygon_diagnostic_def)

lemma line_fewer_skipped: "line_fewer_than_two line \<Longrightarrow> line_skipped line"
  by (cases "line_coords line") (simp_all add: line_fewer_than_two_def line_skipped_def)

lemma is_multi_ring_ring_sequence: "is_multi_ring xs \<Longrightarrow> ring_sequence (PyList xs)"
  by (induction xs rule: is_multi_ring.induct) (simp_all add: ring_sequence_def)

lemma polygon_without_ring_skipped:
  assumes "polygon_without_ring polygon"
    and "ring_sequence (polygon_coords polygon) \<longrightarrow> is_multi_ring (entries (polygon_coords polygon))"
  shows "polygon_skipped polygon"
proof (cases "polygon_coords polygon")
  case (PyList xs)
  show ?thesis
  proof (cases "is_multi_ring xs")
    case True
    then have "polygon_rings polygon = xs"
      by (simp add: polygon_rings_def PyList is_multi_ring_ring_sequence)
    then have a: "\<forall>ring \<in> set xs. length (entries ring) < 3"
      using assms(1) by (simp add: polygon_without_ring_def)
    have "\<not> is_valid_ring ring" if "ring \<in> set xs" for ring
      using a that by (cases ring) auto
    then have "filter is_valid_ring xs = []" by (simp add: filter_empty_conv)
    then show ?thesis using True by (simp add: polygon_skipped_def PyList)
  next
    case False
    then have "\<not> ring_sequence (PyList xs)" using assms(2) PyList by auto
    then have "polygon_rings polygon = [PyList xs]" by (simp add: polygon_rings_def PyList)
    then have "length xs < 3" using assms(1) by (simp add: polygon_without_ring_def)
    then show ?thesis using False by (simp add: polygon_skipped_def PyList)
  qed
qed (simp_all add: polygon_skipped_def)

lemma append_point_fields [simp]:
  "self_points (append_point self q) = self_points self @ [q]"
  "self_lines (append_point self q) = self_lines self"
  "self_polygons (append_point self q) = self_polygons self"
  by (simp_all add: append_point_def)

lemma append_line_fields [simp]:
  "self_points (append_line self q) = self_points self"
  "self_lines (append_line self q) = self_lines self @ [q]"
  "self_polygons (append_line self q) = self_polygons self"
  by (simp_all add: append_line_def)

lemma append_polygon_fields [simp]:
  "self_points (append_polygon self q) = self_points self"
  "self_lines (append_polygon self q) = self_lines self"
  "self_polygons (append_polygon self q) = self_polygons self @ [q]"
  by (simp_all add: append_polygon_def)

lemma foldl_append_point_fields:
  "self_points (foldl append_point self qs) = self_points self @ qs
   \<and> self_lines (foldl append_point self qs) = self_lines self
   \<and> self_polygons (foldl append_point self qs) = self_polygons self"
  by (induction qs arbitrary: self) simp_all

lemma foldl_append_line_fields:
  "self_points (foldl append_line self qs) = self_points self
   \<and> self_lines (foldl append_line self qs) = self_lines self @ qs
   \<and> self_polygons (foldl append_line self qs) = self_polygons self"
  by (induction qs arbitrary: self) simp_all

lemma foldl_append_polygon_fields:
  "self_points (foldl append_polygon self qs) = self_points self
   \<and> self_lines (foldl append_polygon self qs) = self_lines self
   \<and> self_polygons (foldl append_polygon self qs) = self_polygons self @ qs"
  by (induction qs arbitrary: self) simp_all

lemma add_points_batch:
  assumes "map (point_record f style) (filter (\<lambda>x. \<not> point_unresolvable x) ps) = map Inr qs"
  shows "add_points f style self ps
       = \<lparr>exporter = foldl append_point self qs,
          printed = map PointMissingLatLng (filter point_unresolvable ps), raised = None\<rparr>"
  unfolding add_points_def
  by (subst for_each_batch [where skip = point_unresolvable and diag = PointMissingLatLng
        and rec = "point_record f style" and store = append_point and qs = qs])
     (simp_all add: add_points_step_eq assms)

lemma add_points_abort:
  assumes "map (point_record f style) (filter (\<lambda>x. \<not> point_unresolvable x) ps) = map Inr qs"
    and "\<not> point_unresolvable p" and "point_record f style p = Inl e"
  shows "add_points f style self (ps @ p # rest)
       = \<lparr>exporter = foldl append_point self qs,
          printed = map PointMissingLatLng (filter point_unresolvable ps), raised = Some e\<rparr>"
  unfolding add_points_def
  by (subst for_each_abort [where skip = point_unresolvable and diag = PointMissingLatLng
        and rec = "point_record f style" and store = append_point and qs = qs and e = e])
     (simp_all add: add_points_step_eq assms)

lemma add_points_filter:
  "exporter (add_points f style self ps)
     = exporter (add_points f style self (filter (\<lambda>x. \<not> point_unresolvable x) ps))
   \<and> raised (add_points f style self ps)
     = raised (add_points f style self (filter (\<lambda>x. \<not> point_unresolvable x) ps))"
  unfolding add_points_def
  by (rule for_each_filter) (simp add: add_points_step_eq)

lemma add_lines_batch:
  assumes "map (line_record f style) (filter (\<lambda>x. \<not> line_skipped x) ls) = map Inr qs"
  shows "add_lines f style self ls
       = \<lparr>exporter = foldl append_line self qs,
          printed = map LineMissingCoordinates (filter line_skipped ls), raised = None\<rparr>"
  unfolding add_lines_def
  by (subst for_each_batch [where skip = line_skipped and diag = LineMissingCoordinates
        and rec = "line_record f style" and store = append_line and qs = qs])
     (simp_all add: add_lines_step_eq assms)

lemma add_lines_abort:
  assumes "map (line_record f style) (filter (\<lambda>x. \<not> line_skipped x) ls) = map Inr qs"
    and "\<not> line_skipped l" and "line_record f style l = Inl e"
  shows "add_lines f style self (ls @ l # rest)
       = \<lparr>exporter = foldl append_line self qs,
          printed = map LineMissingCoordinates (filter line_skipped ls), raised = Some e\<rparr>"
  unfolding add_lines_def
  by (subst for_each_abort [where skip = line_skipped and diag = LineMissingCoordinates
        and rec = "line_record f style" and store = append_line and qs = qs and e = e])
     (simp_all add: add_lines_step_eq assms)

lemma add_lines_filter:
  "exporter (add_lines f style self ls)
     = exporter (add_lines f style self (filter (\<lambda>x. \<not> line_skipped x) ls))
   \<and> raised (add_lines f style self ls)
     = raised (add_lines f style self (filter (\<lambda>x. \<not> line_skipped x) ls))"
  unfolding add_lines_def
  by (rule for_each_filter) (simp add: add_lines_step_eq)

lemma add_polygons_batch:
  assumes "map (polygon_record f style) (filter (\<lambda>x. \<not> polygon_skipped x) gs) = map Inr qs"
  shows "add_polygons f style self gs
       = \<lparr>exporter = foldl append_polygon self qs,
          printed = map polygon_diagnostic (filter polygon_skipped gs), raised = None\<rparr>"
  unfolding add_polygons_def
  by (subst for_each_batch [where skip = polygon_skipped and diag = polygon_diagnostic
        and rec = "polygon_record f style" and store = append_polygon and qs = qs])
     (simp_all add: add_polygons_step_eq assms)

lemma add_polygons_abort:
  assumes "map (polygon_record f style) (filter (\<lambda>x. \<not> polygon_skipped x) gs) = map Inr qs"
    and "\<not> polygon_skipped g" and "polygon_record f style g = Inl e"
  shows "add_polygons f style self (gs @ g # rest)
       = \<lparr>exporter = foldl append_polygon self qs,
          printed = map polygon_diagnostic (filter polygon_skipped gs), raised = Some e\<rparr>"
  unfolding add_polygons_def
  by (subst for_each_abort [where skip = polygon_skipped and diag = polygon_diagnostic
        and rec = "polygon_record f style" and store = append_polygon and qs = qs and e = e])
     (simp_all add: add_polygons_step_eq assms)

lemma add_polygons_filter:
  "exporter (add_polygons f style self gs)
     = exporter (add_polygons f style self (filter (\<lambda>x. \<not> polygon_skipped x) gs))
   \<and> raised (add_polygons f style self gs)
     = raised (add_polygons f style self (filter (\<lambda>x. \<not> polygon_skipped x) gs))"
  unfolding add_polygons_def
  by (rule for_each_filter) (simp add: add_polygons_step_eq)

text \<open>
  Claim C8 (ingestion skip semantics), as the code has it.  A line with fewer than two
  coordinates is skipped, and so is a polygon with no ring of at least three points when
  its rings, if it has several, are lists of lists.  A skipped feature alone prints its
  diagnostic and leaves the instance as it was, and a batch leaves the instance and the
  exception that a batch without its skipped features leaves.  When \<open>float\<close> accepts the
  coordinates of every feature that is not skipped, the call raises nothing, prints one
  diagnostic for each skipped feature, and stores the record of each other feature, in
  order, widening the bounds by its coordinates.  The first feature that is not skipped
  and whose coordinates \<open>float\<close> rejects ends the call with that exception: the features
  before it are stored and the features after it are not processed.
\<close>

theorem ingestion_skips:
  "(line_fewer_than_two l \<longrightarrow> line_skipped l)
   \<and> (polygon_without_ring g
        \<and> (ring_sequence (polygon_coords g) \<longrightarrow> is_multi_ring (entries (polygon_coords g)))
        \<longrightarrow> polygon_skipped g)
   \<and> (point_unresolvable p \<longrightarrow>
        add_points f style self [p]
          = \<lparr>exporter = self, printed = [PointMissingLatLng p], raised = None\<rparr>)
   \<and> (line_skipped l \<longrightarrow>
        add_lines f style self [l]
          = \<lparr>exporter = self, printed = [LineMissingCoordinates l], raised = None\<rparr>)
   \<and> (polygon_skipped g \<longrightarrow>
        add_polygons f style self [g]
          = \<lparr>exporter = self, printed = [polygon_diagnostic g], raised = None\<rparr>)
   \<and> exporter (add_points f style self ps)
        = exporter (add_points f style self (filter (\<lambda>x. \<not> point_unresolvable x) ps))
   \<and> raised (add_points f style self ps)
        = raised (add_points f style self (filter (\<lambda>x. \<not> point_unresolvable x) ps))
   \<and> exporter (add_lines f style self ls)
        = exporter (add_lines f style self (filter (\<lambda>x. \<not> line_skipped x) ls))
   \<and> raised (add_lines f style self ls)
        = raised (add_lines f style self (filter (\<lambda>x. \<not> line_skipped x) ls))
   \<and> exporter (add_polygons f style self gs)
        = exporter (add_polygons f style self (filter (\<lambda>x. \<not> polygon_skipped x) gs))
   \<and> raised (add_polygons f style self gs)
        = raised (add_polygons f style self (filter (\<lambda>x. \<not> polygon_skipped x) gs))
   \<and> (map (point_record f style) (filter (\<lambda>x. \<not> point_unresolvable x) ps) = map Inr pqs \<longrightarrow>
        add_points f style self ps
          = \<lparr>exporter = foldl append_point self pqs,
             printed = map PointMissingLatLng (filter point_unresolvable ps), raised = None\<rparr>
        \<and> self_points (foldl append_point self pqs) = self_points self @ pqs
        \<and> self_lines (foldl append_point self pqs) = self_lines self
        \<and> self_polygons (foldl append_point self pqs) = self_polygons self
        \<and> (\<not> point_unresolvable p \<and> point_record f style p = Inl e \<longrightarrow>
             add_points f style self (ps @ p # rest)
               = \<lparr>exporter = foldl append_point self pqs,
                  printed = map PointMissingLatLng (filter point_unresolvable ps),
                  raised = Some e\<rparr>))
   \<and> (map (line_record f style) (filter (\<lambda>x. \<not> line_skipped x) ls) = map Inr lqs \<longrightarrow>
        add_lines f style self ls
          = \<lparr>exporter = foldl append_line self lqs,
             printed = map LineMissingCoordinates (filter line_skipped ls), raised = None\<rparr>
        \<and> self_points (foldl append_line self lqs) = self_points self
        \<and> self_lines (foldl append_line self lqs) = self_lines self @ lqs
        \<and> self_polygons (foldl append_line self lqs) = self_polygons self
        \<and> (\<not> line_skipped l \<and> line_record f style l = Inl e \<longrightarrow>
             add_lines f style self (ls @ l # rest)
               = \<lparr>exporter = foldl append_line self lqs,
                  printed = map LineMissingCoordinates (filter line_skipped ls),
                  raised = Some e\<rparr>))
   \<and> (map (polygon_record f style) (filter (\<lambda>x. \<not> polygon_skipped x) gs) = map Inr gqs \<longrightarrow>
        add_polygons f style self gs
          = \<lparr>exporter = foldl append_polygon self gqs,
             printed = map polygon_diagnostic (filter polygon_skipped gs), raised = None\<rparr>
        \<and> self_points (foldl append_polygon self gqs) = self_points self
        \<and> self_lines (foldl append_polygon self gqs) = self_lines self
        \<and> self_polygons (foldl append_polygon self gqs) = self_polygons self @ gqs
        \<and> (\<not> polygon_skipped g \<and> polygon_record f style g = Inl e \<longrightarrow>
             add_polygons f style self (gs @ g # rest)
               = \<lparr>exporter = foldl append_polygon self gqs,
                  printed = map polygon_diagnostic (filter polygon_skipped gs),
                  raised = Some e\<rparr>))"
proof -
  have 1: "line_fewer_than_two l \<longrightarrow> line_skipped l"
    by (simp add: line_fewer_skipped)
  have 2: "polygon_without_ring g
        \<and> (ring_sequence (polygon_coords g) \<longrightarrow> is_multi_ring (entries (polygon_coords g)))
        \<longrightarrow> polygon_skipped g"
    using polygon_without_ring_skipped [of g] by blast
  have 3: "point_unresolvable p \<longrightarrow>
        add_points f style self [p]
          = \<lparr>exporter = self, printed = [PointMissingLatLng p], raised = None\<rparr>"
    by (simp add: add_points_def add_points_step_eq)
  have 4: "line_skipped l \<longrightarrow>
        add_lines f style self [l]
          = \<lparr>exporter = self, printed = [LineMissingCoordinates l], raised = None\<rparr>"
    by (simp add: add_lines_def add_lines_step_eq)
  have 5: "polygon_skipped g \<longrightarrow>
        add_polygons f style self [g]
          = \<lparr>exporter = self, printed = [polygon_diagnostic g], raised = None\<rparr>"
    by (simp add: add_polygons_def add_polygons_step_eq)
  note 6 = add_points_filter [of f style self ps]
  note 7 = add_lines_filter [of f style self ls]
  note 8 = add_polygons_filter [of f style self gs]
  have 9: "map (point_record f style) (filter (\<lambda>x. \<not> point_unresolvable x) ps) = map Inr pqs \<longrightarrow>
        add_points f style self ps
          = \<lparr>exporter = foldl append_point self pqs,
             printed = map PointMissingLatLng (filter point_unresolvable ps), raised = None\<rparr>
        \<and> self_points (foldl append_point self pqs) = self_points self @ pqs
        \<and> self_lines (foldl append_point self pqs) = self_lines self
        \<and> self_polygons (foldl append_point self pqs) = self_polygons self
        \<and> (\<not> point_unresolvable p \<and> point_record f style p = Inl e \<longrightarrow>
             add_points f style self (ps @ p # rest)
               = \<lparr>exporter = foldl append_point self pqs,
                  printed = map PointMissingLatLng (filter point_unresolvable ps),
                  raised = Some e\<rparr>)"
    using add_points_batch [of f style ps pqs self] add_points_abort [of f style ps pqs p e self
        rest]
      foldl_append_point_fields [of self pqs]
    by blast
  have 10: "map (line_record f style) (filter (\<lambda>x. \<not> line_skipped x) ls) = map Inr lqs \<longrightarrow>
        add_lines f style self ls
          = \<lparr>exporter = foldl append_line self lqs,
             printed = map LineMissingCoordinates (filter line_skipped ls), raised = None\<rparr>
        \<and> self_points (foldl append_line self lqs) = self_points self
        \<and> self_lines (foldl append_line self lqs) = self_lines self @ lqs
        \<and> self_polygons (foldl append_line self lqs) = self_polygons self
        \<and> (\<not> line_skipped l \<and> line_record f style l = Inl e \<longrightarrow>
             add_lines f style self (ls @ l # rest)
               = \<lparr>exporter = foldl append_line self lqs,
                  printed = map LineMissingCoordinates (filter line_skipped ls),
                  raised = Some e\<rparr>)"
    using add_lines_batch [of f style ls lqs self] add_lines_abort [of f style ls lqs l e self rest]
      foldl_append_line_fields [of self lqs]
    by blast
  have 11: "map (polygon_record f style) (filter (\<lambda>x. \<not> polygon_skipped x) gs) = map Inr gqs \<longrightarrow>
        add_polygons f style self gs
          = \<lparr>exporter = foldl append_polygon self gqs,
             printed = map polygon_diagnostic (filter polygon_skipped gs), raised = None\<rparr>
        \<and> self_points (foldl append_polygon self gqs) = self_points self
        \<and> self_lines (foldl append_polygon self gqs) = self_lines self
        \<and> self_polygons (foldl append_polygon self gqs) = self_polygons self @ gqs
        \<and> (\<not> polygon_skipped g \<and> polygon_record f style g = Inl e \<longrightarrow>
             add_polygons f style self (gs @ g # rest)
               = \<lparr>exporter = foldl append_polygon self gqs,
                  printed = map polygon_diagnostic (filter polygon_skipped gs),
                  raised = Some e\<rparr>)"
    using add_polygons_batch [of f style gs gqs self]
      add_polygons_abort [of f style gs gqs g e self rest]
      foldl_append_polygon_fields [of self gqs]
    by blast
  show ?thesis
    using 1 2 3 4 5 6 7 8 9 10 11 by blast
qed

theorem ingestion_skips_witness:
  "line_fewer_than_two [(''coords'', PyList [PyList [PyInt 1, PyInt 2]])]
   \<and> line_skipped [(''coords'', PyList [PyList [PyInt 1, PyInt 2]])]
   \<and> polygon_without_ring [(''coords'', PyList [PyList [PyList [PyInt 1, PyInt 2], PyList [PyInt 3,
       PyInt 4]]])]
   \<and> polygon_skipped [(''coords'', PyList [PyList [PyList [PyInt 1, PyInt 2], PyList [PyInt 3, PyInt
       4]]])]
   \<and> point_unresolvable [(''name'', PyStr ''a''), (''lng'', PyInt 5)]
   \<and> add_points (\<lambda>s. None) [] \<lparr>self_points = [], self_lines = [], self_polygons = [], self_bounds =
       None\<rparr> [[(''name'', PyStr ''a''), (''lng'', PyInt 5)]]
        = \<lparr>exporter = \<lparr>self_points = [], self_lines = [], self_polygons = [], self_bounds = None\<rparr>,
            printed = [PointMissingLatLng [(''name'', PyStr ''a''), (''lng'', PyInt 5)]], raised =
                None\<rparr>
   \<and> add_lines (\<lambda>s. None) [] \<lparr>self_points = [], self_lines = [], self_polygons = [], self_bounds =
       None\<rparr> [[(''coords'', PyList [PyList [PyInt 1, PyInt 2]])]]
        = \<lparr>exporter = \<lparr>self_points = [], self_lines = [], self_polygons = [], self_bounds = None\<rparr>,
            printed = [LineMissingCoordinates [(''coords'', PyList [PyList [PyInt 1, PyInt 2]])]],
                raised = None\<rparr>
   \<and> add_polygons (\<lambda>s. None) [] \<lparr>self_points = [], self_lines = [], self_polygons = [], self_bounds
       = None\<rparr> [[(''coords'', PyList [PyList [PyList [PyInt 1, PyInt 2], PyList [PyInt 3, PyInt
           4]]])]]
        = \<lparr>exporter = \<lparr>self_points = [], self_lines = [], self_polygons = [], self_bounds = None\<rparr>,
            printed = [PolygonNoValidRings [(''coords'', PyList [PyList [PyList [PyInt 1, PyInt 2],
                PyList [PyInt 3, PyInt 4]]])]], raised = None\<rparr>
   \<and> add_points (\<lambda>s. None) [] \<lparr>self_points = [], self_lines = [], self_polygons = [], self_bounds =
       None\<rparr> [[(''name'', PyStr ''a''), (''lng'', PyInt 5)], [(''lat'', PyInt 1), (''lng'', PyInt
           2), (''name'', PyStr ''b'')]]
        = \<lparr>exporter = \<lparr>self_points = [\<lparr>sp_lat = 1, sp_lng = 2, sp_properties = [(''name'', PyStr
            ''b'')], sp_style = []\<rparr>], self_lines = [], self_polygons = [], self_bounds = Some
                \<lparr>min_lat = 1, max_lat = 1, min_lng = 2, max_lng = 2\<rparr>\<rparr>, printed = [PointMissingLatLng
                    [(''name'', PyStr ''a''), (''lng'', PyInt 5)]], raised = None\<rparr>
   \<and> add_points (\<lambda>s. None) [] \<lparr>self_points = [], self_lines = [], self_polygons = [], self_bounds =
       None\<rparr> ([[(''name'', PyStr ''a''), (''lng'', PyInt 5)], [(''lat'', PyInt 1), (''lng'', PyInt
           2), (''name'', PyStr ''b'')]] @ [(''lat'', PyStr ''N/A''), (''lng'', PyInt 2)] #
               [[(''lat'', PyInt 1), (''lng'', PyInt 2), (''name'', PyStr ''b'')]])
        = \<lparr>exporter = \<lparr>self_points = [\<lparr>sp_lat = 1, sp_lng = 2, sp_properties = [(''name'', PyStr
            ''b'')], sp_style = []\<rparr>], self_lines = [], self_polygons = [], self_bounds = Some
                \<lparr>min_lat = 1, max_lat = 1, min_lng = 2, max_lng = 2\<rparr>\<rparr>, printed = [PointMissingLatLng
                    [(''name'', PyStr ''a''), (''lng'', PyInt 5)]], raised = Some ValueError\<rparr>
   \<and> add_lines (\<lambda>s. None) [] \<lparr>self_points = [], self_lines = [], self_polygons = [], self_bounds =
       None\<rparr> [[(''coords'', PyList [PyList [PyInt 1, PyInt 2]])], [(''coords'', PyList [PyList
           [PyInt 1, PyInt 2], PyList [PyInt 3, PyInt 4]]), (''name'', PyStr ''b'')]]
        = \<lparr>exporter = \<lparr>self_points = [], self_lines = [\<lparr>sl_coords = [(1, 2), (3, 4)], sl_properties
            = [(''name'', PyStr ''b'')], sl_style = []\<rparr>], self_polygons = [], self_bounds = Some
                \<lparr>min_lat = 1, max_lat = 3, min_lng = 2, max_lng = 4\<rparr>\<rparr>, printed =
                    [LineMissingCoordinates [(''coords'', PyList [PyList [PyInt 1, PyInt 2]])]],
                        raised = None\<rparr>
   \<and> add_lines (\<lambda>s. None) [] \<lparr>self_points = [], self_lines = [], self_polygons = [], self_bounds =
       None\<rparr> ([[(''coords'', PyList [PyList [PyInt 1, PyInt 2]])], [(''coords'', PyList [PyList
           [PyInt 1, PyInt 2], PyList [PyInt 3, PyInt 4]]), (''name'', PyStr ''b'')]] @
               [(''coords'', PyList [PyList [PyInt 1, PyInt 2], PyList [PyStr ''N/A'', PyInt 4]])] #
                   [[(''coords'', PyList [PyList [PyInt 1, PyInt 2], PyList [PyInt 3, PyInt 4]]),
                       (''name'', PyStr ''b'')]])
        = \<lparr>exporter = \<lparr>self_points = [], self_lines = [\<lparr>sl_coords = [(1, 2), (3, 4)], sl_properties
            = [(''name'', PyStr ''b'')], sl_style = []\<rparr>], self_polygons = [], self_bounds = Some
                \<lparr>min_lat = 1, max_lat = 3, min_lng = 2, max_lng = 4\<rparr>\<rparr>, printed =
                    [LineMissingCoordinates [(''coords'', PyList [PyList [PyInt 1, PyInt 2]])]],
                        raised = Some ValueError\<rparr>
   \<and> add_polygons (\<lambda>s. None) [] \<lparr>self_points = [], self_lines = [], self_polygons = [], self_bounds
       = None\<rparr> [[(''coords'', PyList [PyList [PyList [PyInt 1, PyInt 2], PyList [PyInt 3, PyInt
           4]]])], [(''coords'', PyList [PyList [PyInt 0, PyInt 0], PyList [PyInt 0, PyInt 4],
               PyList [PyInt 3, PyInt 0]]), (''name'', PyStr ''b'')]]
        = \<lparr>exporter = \<lparr>self_points = [], self_lines = [], self_polygons = [\<lparr>sg_rings = [[(0, 0), (0,
            4), (3, 0)]], sg_properties = [(''name'', PyStr ''b'')], sg_style = []\<rparr>], self_bounds =
                Some \<lparr>min_lat = 0, max_lat = 3, min_lng = 0, max_lng = 4\<rparr>\<rparr>, printed =
                    [PolygonNoValidRings [(''coords'', PyList [PyList [PyList [PyInt 1, PyInt 2],
                        PyList [PyInt 3, PyInt 4]]])]], raised = None\<rparr>
   \<and> add_polygons (\<lambda>s. None) [] \<lparr>self_points = [], self_lines = [], self_polygons = [], self_bounds
       = None\<rparr> ([[(''coords'', PyList [PyList [PyList [PyInt 1, PyInt 2], PyList [PyInt 3, PyInt
           4]]])], [(''coords'', PyList [PyList [PyInt 0, PyInt 0], PyList [PyInt 0, PyInt 4],
               PyList [PyInt 3, PyInt 0]]), (''name'', PyStr ''b'')]] @ [(''coords'', PyList [PyList
                   [PyInt 0, PyInt 0], PyList [PyInt 0, PyInt 4], PyList [PyStr ''N/A'', PyInt 0]])]
                       # [[(''coords'', PyList [PyList [PyInt 0, PyInt 0], PyList [PyInt 0, PyInt
                           4], PyList [PyInt 3, PyInt 0]]), (''name'', PyStr ''b'')]])
        = \<lparr>exporter = \<lparr>self_points = [], self_lines = [], self_polygons = [\<lparr>sg_rings = [[(0, 0), (0,
            4), (3, 0)]], sg_properties = [(''name'', PyStr ''b'')], sg_style = []\<rparr>], self_bounds =
                Some \<lparr>min_lat = 0, max_lat = 3, min_lng = 0, max_lng = 4\<rparr>\<rparr>, printed =
                    [PolygonNoValidRings [(''coords'', PyList [PyList [PyList [PyInt 1, PyInt 2],
                        PyList [PyInt 3, PyInt 4]]])]], raised = Some ValueError\<rparr>"
proof -
  let ?f = "(\<lambda>s. None) :: string \<Rightarrow> real option"
  let ?self = "\<lparr>self_points = [], self_lines = [], self_polygons = [], self_bounds = None\<rparr>"
  let ?pb = "[(''name'', PyStr ''a''), (''lng'', PyInt 5)]" and ?po = "[(''lat'', PyInt 1),
      (''lng'', PyInt 2), (''name'', PyStr ''b'')]" and ?pn = "[(''lat'', PyStr ''N/A''), (''lng'',
          PyInt 2)]" and ?pq = "\<lparr>sp_lat = 1, sp_lng = 2, sp_properties = [(''name'', PyStr ''b'')],
              sp_style = []\<rparr>"
  let ?lb = "[(''coords'', PyList [PyList [PyInt 1, PyInt 2]])]" and ?lo = "[(''coords'', PyList
      [PyList [PyInt 1, PyInt 2], PyList [PyInt 3, PyInt 4]]), (''name'', PyStr ''b'')]" and ?ln =
          "[(''coords'', PyList [PyList [PyInt 1, PyInt 2], PyList [PyStr ''N/A'', PyInt 4]])]" and
              ?lq = "\<lparr>sl_coords = [(1, 2), (3, 4)], sl_properties = [(''name'', PyStr ''b'')],
                  sl_style = []\<rparr>"
  let ?gb = "[(''coords'', PyList [PyList [PyList [PyInt 1, PyInt 2], PyList [PyInt 3, PyInt 4]]])]"
      and ?go = "[(''coords'', PyList [PyList [PyInt 0, PyInt 0], PyList [PyInt 0, PyInt 4], PyList
          [PyInt 3, PyInt 0]]), (''name'', PyStr ''b'')]" and ?gn = "[(''coords'', PyList [PyList
              [PyInt 0, PyInt 0], PyList [PyInt 0, PyInt 4], PyList [PyStr ''N/A'', PyInt 0]])]" and
                  ?gq = "\<lparr>sg_rings = [[(0, 0), (0, 4), (3, 0)]], sg_properties = [(''name'', PyStr
                      ''b'')], sg_style = []\<rparr>"
  note A = ingestion_skips [where f = ?f and style = "[]" and self = ?self
      and p = ?pb and l = ?lb and g = ?gb and ps = "[?pb, ?po]" and ls = "[?lb, ?lo]"
      and gs = "[?gb, ?go]" and pqs = "[?pq]" and lqs = "[?lq]" and gqs = "[?gq]"]
  note B = ingestion_skips [where f = ?f and style = "[]" and self = ?self
      and p = ?pn and l = ?ln and g = ?gn and ps = "[?pb, ?po]" and ls = "[?lb, ?lo]"
      and gs = "[?gb, ?go]" and pqs = "[?pq]" and lqs = "[?lq]" and gqs = "[?gq]"
      and e = ValueError and rest = "[?po]"]
  note B' = ingestion_skips [where f = ?f and style = "[]" and self = ?self
      and p = ?pn and l = ?ln and g = ?gn and ps = "[?pb, ?po]" and ls = "[?lb, ?lo]"
      and gs = "[?gb, ?go]" and pqs = "[?pq]" and lqs = "[?lq]" and gqs = "[?gq]"
      and e = ValueError and rest = "[?lo]"]
  note B'' = ingestion_skips [where f = ?f and style = "[]" and self = ?self
      and p = ?pn and l = ?ln and g = ?gn and ps = "[?pb, ?po]" and ls = "[?lb, ?lo]"
      and gs = "[?gb, ?go]" and pqs = "[?pq]" and lqs = "[?lq]" and gqs = "[?gq]"
      and e = ValueError and rest = "[?go]"]
  have lget: "line_coords ?lb = PyList [PyList [PyInt 1, PyInt 2]]"
    "line_coords ?lo = PyList [PyList [PyInt 1, PyInt 2], PyList [PyInt 3, PyInt 4]]"
    "line_coords ?ln = PyList [PyList [PyInt 1, PyInt 2], PyList [PyStr ''N/A'', PyInt 4]]"
    by (simp_all add: line_coords_def dict_get_def)
  have gget: "polygon_coords ?gb = PyList [PyList [PyList [PyInt 1, PyInt 2], PyList [PyInt 3, PyInt
      4]]]"
    "polygon_coords ?go = PyList [PyList [PyInt 0, PyInt 0], PyList [PyInt 0, PyInt 4], PyList
        [PyInt 3, PyInt 0]]"
    "polygon_coords ?gn = PyList [PyList [PyInt 0, PyInt 0], PyList [PyInt 0, PyInt 4], PyList
        [PyStr ''N/A'', PyInt 0]]"
    by (simp_all add: polygon_coords_def dict_get_def)
  have h1: "line_fewer_than_two ?lb" by (simp add: line_fewer_than_two_def lget)
  have c1: "line_skipped ?lb" using A [THEN conjunct1] h1 by blast
  have h2: "polygon_without_ring ?gb"
    by (simp add: polygon_without_ring_def polygon_rings_def ring_sequence_def gget)
  have h2': "ring_sequence (polygon_coords ?gb) \<longrightarrow> is_multi_ring (entries (polygon_coords ?gb))"
    by (simp add: gget)
  have c2: "polygon_skipped ?gb" using A [THEN conjunct2, THEN conjunct1] h2 h2' by blast
  have h3: "point_unresolvable ?pb" by (simp add: point_unresolvable_def)
  have n3: "\<not> point_unresolvable ?po" "\<not> point_unresolvable ?pn" by (simp_all add:
      point_unresolvable_def)
  have n4: "\<not> line_skipped ?lo" "\<not> line_skipped ?ln" by (simp_all add: line_skipped_def lget)
  have n5: "\<not> polygon_skipped ?go" "\<not> polygon_skipped ?gn" by (simp_all add: polygon_skipped_def
      gget)
  have r3: "point_record ?f [] ?po = Inr ?pq" "point_record ?f [] ?pn = Inl ValueError"
    by (simp_all add: point_record_def)
  have r4: "line_record ?f [] ?lo = Inr ?lq" "line_record ?f [] ?ln = Inl ValueError"
    by (simp_all add: line_record_def lget)
  have r5: "polygon_record ?f [] ?go = Inr ?gq" "polygon_record ?f [] ?gn = Inl ValueError"
    by (simp_all add: polygon_record_def gget)
  have hp: "map (point_record ?f []) (filter (\<lambda>x. \<not> point_unresolvable x) [?pb, ?po]) = map Inr
      [?pq]"
    using h3 n3 r3 by simp
  have hl: "map (line_record ?f []) (filter (\<lambda>x. \<not> line_skipped x) [?lb, ?lo]) = map Inr [?lq]"
    using c1 n4 r4 by simp
  have hg: "map (polygon_record ?f []) (filter (\<lambda>x. \<not> polygon_skipped x) [?gb, ?go]) = map Inr
      [?gq]"
    using c2 n5 r5 by simp
  note A3 = A [THEN conjunct2, THEN conjunct2]
  note A6 = A3 [THEN conjunct2, THEN conjunct2, THEN conjunct2]
  note A12 = A6 [THEN conjunct2, THEN conjunct2, THEN conjunct2, THEN conjunct2, THEN conjunct2,
      THEN conjunct2]
  note B12 = B [THEN conjunct2, THEN conjunct2, THEN conjunct2, THEN conjunct2, THEN conjunct2,
      THEN conjunct2, THEN conjunct2, THEN conjunct2, THEN conjunct2, THEN conjunct2,
      THEN conjunct2]
  note B13 = B' [THEN conjunct2, THEN conjunct2, THEN conjunct2, THEN conjunct2, THEN conjunct2,
      THEN conjunct2, THEN conjunct2, THEN conjunct2, THEN conjunct2, THEN conjunct2,
      THEN conjunct2, THEN conjunct2]
  note B14 = B'' [THEN conjunct2, THEN conjunct2, THEN conjunct2, THEN conjunct2, THEN conjunct2,
      THEN conjunct2, THEN conjunct2, THEN conjunct2, THEN conjunct2, THEN conjunct2,
      THEN conjunct2, THEN conjunct2, THEN conjunct2]
  have c3: "add_points ?f [] ?self [?pb]
        = \<lparr>exporter = ?self, printed = [PointMissingLatLng ?pb], raised = None\<rparr>"
    by (rule A3 [THEN conjunct1, THEN mp, OF h3])
  have c4: "add_lines ?f [] ?self [?lb]
        = \<lparr>exporter = ?self, printed = [LineMissingCoordinates ?lb], raised = None\<rparr>"
    by (rule A3 [THEN conjunct2, THEN conjunct1, THEN mp, OF c1])
  have d5: "polygon_diagnostic ?gb = PolygonNoValidRings ?gb"
    by (simp add: polygon_diagnostic_def gget)
  have c5: "add_polygons ?f [] ?self [?gb]
        = \<lparr>exporter = ?self, printed = [PolygonNoValidRings ?gb], raised = None\<rparr>"
    using A3 [THEN conjunct2, THEN conjunct2, THEN conjunct1, THEN mp, OF c2] unfolding d5 .
  have sp: "foldl append_point ?self [?pq] = \<lparr>self_points = [\<lparr>sp_lat = 1, sp_lng = 2, sp_properties
      = [(''name'', PyStr ''b'')], sp_style = []\<rparr>], self_lines = [], self_polygons = [], self_bounds
          = Some \<lparr>min_lat = 1, max_lat = 1, min_lng = 2, max_lng = 2\<rparr>\<rparr>"
    by (simp add: append_point_def update_bounds_def)
  have sl: "foldl append_line ?self [?lq] = \<lparr>self_points = [], self_lines = [\<lparr>sl_coords = [(1, 2),
      (3, 4)], sl_properties = [(''name'', PyStr ''b'')], sl_style = []\<rparr>], self_polygons = [],
          self_bounds = Some \<lparr>min_lat = 1, max_lat = 3, min_lng = 2, max_lng = 4\<rparr>\<rparr>"
    by (simp add: append_line_def update_bounds_all_def update_bounds_def)
  have sg: "foldl append_polygon ?self [?gq] = \<lparr>self_points = [], self_lines = [], self_polygons =
      [\<lparr>sg_rings = [[(0, 0), (0, 4), (3, 0)]], sg_properties = [(''name'', PyStr ''b'')], sg_style =
          []\<rparr>], self_bounds = Some \<lparr>min_lat = 0, max_lat = 3, min_lng = 0, max_lng = 4\<rparr>\<rparr>"
    by (simp add: append_polygon_def update_bounds_all_def update_bounds_def)
  have fp: "map PointMissingLatLng (filter point_unresolvable [?pb, ?po]) = [PointMissingLatLng
      ?pb]"
    using h3 n3 by simp
  have fl: "map LineMissingCoordinates (filter line_skipped [?lb, ?lo]) = [LineMissingCoordinates
      ?lb]"
    using c1 n4 by simp
  have fg: "map polygon_diagnostic (filter polygon_skipped [?gb, ?go]) = [PolygonNoValidRings ?gb]"
    using c2 n5 d5 by simp
  have c12: "add_points ?f [] ?self [?pb, ?po]
        = \<lparr>exporter = \<lparr>self_points = [\<lparr>sp_lat = 1, sp_lng = 2, sp_properties = [(''name'', PyStr
            ''b'')], sp_style = []\<rparr>], self_lines = [], self_polygons = [], self_bounds = Some
                \<lparr>min_lat = 1, max_lat = 1, min_lng = 2, max_lng = 2\<rparr>\<rparr>, printed = [PointMissingLatLng
                    ?pb], raised = None\<rparr>"
    using A12 [THEN conjunct1, THEN mp, OF hp, THEN conjunct1] unfolding sp fp .
  have c12': "add_points ?f [] ?self ([?pb, ?po] @ ?pn # [?po])
        = \<lparr>exporter = \<lparr>self_points = [\<lparr>sp_lat = 1, sp_lng = 2, sp_properties = [(''name'', PyStr
            ''b'')], sp_style = []\<rparr>], self_lines = [], self_polygons = [], self_bounds = Some
                \<lparr>min_lat = 1, max_lat = 1, min_lng = 2, max_lng = 2\<rparr>\<rparr>, printed = [PointMissingLatLng
                    ?pb], raised = Some ValueError\<rparr>"
    using B12 [THEN conjunct1, THEN mp, OF hp, THEN conjunct2, THEN conjunct2, THEN conjunct2,
        THEN conjunct2, THEN mp, OF conjI [OF n3(2) r3(2)]] unfolding sp fp .
  have c13: "add_lines ?f [] ?self [?lb, ?lo]
        = \<lparr>exporter = \<lparr>self_points = [], self_lines = [\<lparr>sl_coords = [(1, 2), (3, 4)], sl_properties
            = [(''name'', PyStr ''b'')], sl_style = []\<rparr>], self_polygons = [], self_bounds = Some
                \<lparr>min_lat = 1, max_lat = 3, min_lng = 2, max_lng = 4\<rparr>\<rparr>, printed =
                    [LineMissingCoordinates ?lb], raised = None\<rparr>"
    using A12 [THEN conjunct2, THEN conjunct1, THEN mp, OF hl, THEN conjunct1] unfolding sl fl .
  have c13': "add_lines ?f [] ?self ([?lb, ?lo] @ ?ln # [?lo])
        = \<lparr>exporter = \<lparr>self_points = [], self_lines = [\<lparr>sl_coords = [(1, 2), (3, 4)], sl_properties
            = [(''name'', PyStr ''b'')], sl_style = []\<rparr>], self_polygons = [], self_bounds = Some
                \<lparr>min_lat = 1, max_lat = 3, min_lng = 2, max_lng = 4\<rparr>\<rparr>, printed =
                    [LineMissingCoordinates ?lb], raised = Some ValueError\<rparr>"
    using B13 [THEN conjunct1, THEN mp, OF hl, THEN conjunct2, THEN conjunct2, THEN conjunct2,
        THEN conjunct2, THEN mp, OF conjI [OF n4(2) r4(2)]] unfolding sl fl .
  have c14: "add_polygons ?f [] ?self [?gb, ?go]
        = \<lparr>exporter = \<lparr>self_points = [], self_lines = [], self_polygons = [\<lparr>sg_rings = [[(0, 0), (0,
            4), (3, 0)]], sg_properties = [(''name'', PyStr ''b'')], sg_style = []\<rparr>], self_bounds =
                Some \<lparr>min_lat = 0, max_lat = 3, min_lng = 0, max_lng = 4\<rparr>\<rparr>, printed =
                    [PolygonNoValidRings ?gb], raised = None\<rparr>"
    using A12 [THEN conjunct2, THEN conjunct2, THEN mp, OF hg, THEN conjunct1] unfolding sg fg .
  have c14': "add_polygons ?f [] ?self ([?gb, ?go] @ ?gn # [?go])
        = \<lparr>exporter = \<lparr>self_points = [], self_lines = [], self_polygons = [\<lparr>sg_rings = [[(0, 0), (0,
            4), (3, 0)]], sg_properties = [(''name'', PyStr ''b'')], sg_style = []\<rparr>], self_bounds =
                Some \<lparr>min_lat = 0, max_lat = 3, min_lng = 0, max_lng = 4\<rparr>\<rparr>, printed =
                    [PolygonNoValidRings ?gb], raised = Some ValueError\<rparr>"
    using B14 [THEN mp, OF hg, THEN conjunct2, THEN conjunct2, THEN conjunct2,
        THEN conjunct2, THEN mp, OF conjI [OF n5(2) r5(2)]] unfolding sg fg .
  show ?thesis
    using h1 c1 h2 c2 h3 c3 c4 c5 c12 c12' c13 c13' c14 c14' by blast
qed

text \<open>
  Claim C8 as stated fails in four ways.  The loops catch no exception: after a point
  without latitude, a point whose latitude is the string \<open>N/A\<close> raises ValueError and the
  valid point after it is never added; a point whose latitude is the integer \<open>2\<^sup>1\<^sup>0\<^sup>2\<^sup>4\<close>
  raises OverflowError.  A line whose three coordinates are held in a tuple is skipped,
  although it has more than one coordinate.  A polygon of three rings of two points each,
  the rings being tuples, has no ring of at least three points, and is not skipped: it
  raises TypeError, and the valid polygon after it is never added.
\<close>

theorem ingestion_skips_counterexample:
  "add_points (\<lambda>s. None) [] \<lparr>self_points = [], self_lines = [], self_polygons = [], self_bounds =
      None\<rparr> [[(''name'', PyStr ''a''), (''lng'', PyInt 5)], [(''lat'', PyStr ''N/A''), (''lng'',
          PyInt 2)], [(''lat'', PyInt 1), (''lng'', PyInt 2), (''name'', PyStr ''b'')]]
     = \<lparr>exporter = \<lparr>self_points = [], self_lines = [], self_polygons = [], self_bounds = None\<rparr>,
         printed = [PointMissingLatLng [(''name'', PyStr ''a''), (''lng'', PyInt 5)]], raised = Some
             ValueError\<rparr>
   \<and> add_points (\<lambda>s. None) [] \<lparr>self_points = [], self_lines = [], self_polygons = [], self_bounds =
       None\<rparr> [[(''lat'', PyInt (2 ^ 1024)), (''lng'', PyInt 2)], [(''lat'', PyInt 1), (''lng'',
           PyInt 2), (''name'', PyStr ''b'')]]
     = \<lparr>exporter = \<lparr>self_points = [], self_lines = [], self_polygons = [], self_bounds = None\<rparr>,
         printed = [], raised = Some OverflowError\<rparr>
   \<and> \<not> line_fewer_than_two [(''coords'', PyTuple [PyTuple [PyInt 1, PyInt 2], PyTuple [PyInt 3,
       PyInt 4], PyTuple [PyInt 5, PyInt 6]])]
   \<and> add_lines (\<lambda>s. None) [] \<lparr>self_points = [], self_lines = [], self_polygons = [], self_bounds =
       None\<rparr> [[(''coords'', PyTuple [PyTuple [PyInt 1, PyInt 2], PyTuple [PyInt 3, PyInt 4], PyTuple
           [PyInt 5, PyInt 6]])]]
     = \<lparr>exporter = \<lparr>self_points = [], self_lines = [], self_polygons = [], self_bounds = None\<rparr>,
         printed = [LineMissingCoordinates [(''coords'', PyTuple [PyTuple [PyInt 1, PyInt 2],
             PyTuple [PyInt 3, PyInt 4], PyTuple [PyInt 5, PyInt 6]])]], raised = None\<rparr>
   \<and> polygon_without_ring [(''coords'', PyList [PyTuple [PyTuple [PyInt 1, PyInt 2], PyTuple [PyInt
       3, PyInt 4]], PyTuple [PyTuple [PyInt 1, PyInt 2], PyTuple [PyInt 3, PyInt 4]], PyTuple
           [PyTuple [PyInt 1, PyInt 2], PyTuple [PyInt 3, PyInt 4]]])]
   \<and> add_polygons (\<lambda>s. None) [] \<lparr>self_points = [], self_lines = [], self_polygons = [], self_bounds
       = None\<rparr> [[(''coords'', PyList [PyTuple [PyTuple [PyInt 1, PyInt 2], PyTuple [PyInt 3, PyInt
           4]], PyTuple [PyTuple [PyInt 1, PyInt 2], PyTuple [PyInt 3, PyInt 4]], PyTuple [PyTuple
               [PyInt 1, PyInt 2], PyTuple [PyInt 3, PyInt 4]]])], [(''coords'', PyList [PyList
                   [PyInt 0, PyInt 0], PyList [PyInt 0, PyInt 4], PyList [PyInt 3, PyInt 0]]),
                       (''name'', PyStr ''b'')]]
     = \<lparr>exporter = \<lparr>self_points = [], self_lines = [], self_polygons = [], self_bounds = None\<rparr>,
         printed = [], raised = Some TypeError\<rparr>"
proof -
  have 1: "add_points (\<lambda>s. None) [] \<lparr>self_points = [], self_lines = [], self_polygons = [],
      self_bounds = None\<rparr> [[(''name'', PyStr ''a''), (''lng'', PyInt 5)], [(''lat'', PyStr ''N/A''),
          (''lng'', PyInt 2)], [(''lat'', PyInt 1), (''lng'', PyInt 2), (''name'', PyStr ''b'')]]
     = \<lparr>exporter = \<lparr>self_points = [], self_lines = [], self_polygons = [], self_bounds = None\<rparr>,
         printed = [PointMissingLatLng [(''name'', PyStr ''a''), (''lng'', PyInt 5)]], raised = Some
             ValueError\<rparr>"
    by (simp add: add_points_def add_points_step_def)
  have 2: "add_points (\<lambda>s. None) [] \<lparr>self_points = [], self_lines = [], self_polygons = [],
      self_bounds = None\<rparr> [[(''lat'', PyInt (2 ^ 1024)), (''lng'', PyInt 2)], [(''lat'', PyInt 1),
          (''lng'', PyInt 2), (''name'', PyStr ''b'')]]
     = \<lparr>exporter = \<lparr>self_points = [], self_lines = [], self_polygons = [], self_bounds = None\<rparr>,
         printed = [], raised = Some OverflowError\<rparr>"
    by (simp add: add_points_def add_points_step_def float_overflows_def)
  have l: "line_coords [(''coords'', PyTuple [PyTuple [PyInt 1, PyInt 2], PyTuple [PyInt 3, PyInt
      4], PyTuple [PyInt 5, PyInt 6]])] = PyTuple [PyTuple [PyInt 1, PyInt 2], PyTuple [PyInt 3,
          PyInt 4], PyTuple [PyInt 5, PyInt 6]]"
    by (simp add: line_coords_def dict_get_def)
  have 3: "\<not> line_fewer_than_two [(''coords'', PyTuple [PyTuple [PyInt 1, PyInt 2], PyTuple [PyInt
      3, PyInt 4], PyTuple [PyInt 5, PyInt 6]])]"
    by (simp add: line_fewer_than_two_def l)
  have 4: "add_lines (\<lambda>s. None) [] \<lparr>self_points = [], self_lines = [], self_polygons = [],
      self_bounds = None\<rparr> [[(''coords'', PyTuple [PyTuple [PyInt 1, PyInt 2], PyTuple [PyInt 3,
          PyInt 4], PyTuple [PyInt 5, PyInt 6]])]]
     = \<lparr>exporter = \<lparr>self_points = [], self_lines = [], self_polygons = [], self_bounds = None\<rparr>,
         printed = [LineMissingCoordinates [(''coords'', PyTuple [PyTuple [PyInt 1, PyInt 2],
             PyTuple [PyInt 3, PyInt 4], PyTuple [PyInt 5, PyInt 6]])]], raised = None\<rparr>"
    by (simp add: add_lines_def add_lines_step_def l)
  have g: "polygon_coords [(''coords'', PyList [PyTuple [PyTuple [PyInt 1, PyInt 2], PyTuple [PyInt
      3, PyInt 4]], PyTuple [PyTuple [PyInt 1, PyInt 2], PyTuple [PyInt 3, PyInt 4]], PyTuple
          [PyTuple [PyInt 1, PyInt 2], PyTuple [PyInt 3, PyInt 4]]])] = PyList [PyTuple [PyTuple
              [PyInt 1, PyInt 2], PyTuple [PyInt 3, PyInt 4]], PyTuple [PyTuple [PyInt 1, PyInt 2],
                  PyTuple [PyInt 3, PyInt 4]], PyTuple [PyTuple [PyInt 1, PyInt 2], PyTuple [PyInt
                      3, PyInt 4]]]"
    by (simp add: polygon_coords_def dict_get_def)
  have 5: "polygon_without_ring [(''coords'', PyList [PyTuple [PyTuple [PyInt 1, PyInt 2], PyTuple
      [PyInt 3, PyInt 4]], PyTuple [PyTuple [PyInt 1, PyInt 2], PyTuple [PyInt 3, PyInt 4]], PyTuple
          [PyTuple [PyInt 1, PyInt 2], PyTuple [PyInt 3, PyInt 4]]])]"
    by (simp add: polygon_without_ring_def polygon_rings_def ring_sequence_def g)
  have 6: "add_polygons (\<lambda>s. None) [] \<lparr>self_points = [], self_lines = [], self_polygons = [],
      self_bounds = None\<rparr> [[(''coords'', PyList [PyTuple [PyTuple [PyInt 1, PyInt 2], PyTuple [PyInt
          3, PyInt 4]], PyTuple [PyTuple [PyInt 1, PyInt 2], PyTuple [PyInt 3, PyInt 4]], PyTuple
              [PyTuple [PyInt 1, PyInt 2], PyTuple [PyInt 3, PyInt 4]]])], [(''coords'', PyList
                  [PyList [PyInt 0, PyInt 0], PyList [PyInt 0, PyInt 4], PyList [PyInt 3, PyInt
                      0]]), (''name'', PyStr ''b'')]]
     = \<lparr>exporter = \<lparr>self_points = [], self_lines = [], self_polygons = [], self_bounds = None\<rparr>,
         printed = [], raised = Some TypeError\<rparr>"
    by (simp add: add_polygons_def add_polygons_step_def g)
  show ?thesis using 1 2 3 4 5 6 by blast
qed

lemma map_of_filter_key:
  "map_of (filter (\<lambda>(k, v). k \<noteq> key) d) k' = (if k' = key then None else map_of d k')"
  by (induction d) auto

lemma dict_get_filter_key:
  "dict_get (filter (\<lambda>(k, v). k \<noteq> key) d) k' = (if k' = key then PyNone else dict_get d k')"
  by (simp add: dict_get_def map_of_filter_key)

lemma dict_get_Cons:
  "dict_get ((key, v) # d) k' = (if k' = key then v else dict_get d k')"
  by (simp add: dict_get_def)

lemma normalize_coords_single:
  "normalize_coords f [c] = (case normalize_coord f c of Inl e \<Rightarrow> Inl e | Inr p \<Rightarrow> Inr [p])"
  by (simp split: sum.splits)

lemma normalize_coords_append:
  "normalize_coords f (cs @ ds) =
     (case normalize_coords f cs of
        Inl e \<Rightarrow> Inl e
      | Inr r \<Rightarrow> (case normalize_coords f ds of Inl e \<Rightarrow> Inl e | Inr r' \<Rightarrow> Inr (r @ r')))"
  by (induction cs) (simp_all split: sum.splits)

lemma truthy_not_None: "truthy v \<Longrightarrow> v \<noteq> PyNone"
  by auto

lemma normalize_coord_dict_chain:
  "normalize_coord f (PyDict coord) =
     (let lat = (if truthy (dict_get coord ''lat'') then dict_get coord ''lat''
                 else if truthy (dict_get coord ''latitude'') then dict_get coord ''latitude''
                 else dict_get coord ''y'');
          lng = (if truthy (dict_get coord ''lng'') then dict_get coord ''lng''
                 else if truthy (dict_get coord ''longitude'') then dict_get coord ''longitude''
                 else dict_get coord ''x'')
      in if lat = PyNone \<or> lng = PyNone then Inr (0, 0)
         else (case py_float f lat of
                 Inl e \<Rightarrow> Inl e
               | Inr a \<Rightarrow> (case py_float f lng of Inl e \<Rightarrow> Inl e | Inr b \<Rightarrow> Inr (a, b))))"
  by (auto simp: py_or_def Let_def dest: truthy_not_None)

lemma normalize_coord_drop_falsy:
  assumes "key \<in> set [''lat'', ''latitude'', ''lng'', ''longitude'']"
    and "\<not> truthy (dict_get coord key)"
  shows "normalize_coord f (PyDict coord)
       = normalize_coord f (PyDict (filter (\<lambda>(k, v). k \<noteq> key) coord))"
  using assms by (auto simp: dict_get_filter_key py_or_def Let_def)

lemma normalize_coord_latitude:
  assumes "\<not> truthy (dict_get coord ''lat'')" and "truthy (dict_get coord ''latitude'')"
  shows "normalize_coord f (PyDict coord)
       = normalize_coord f (PyDict ((''lat'', dict_get coord ''latitude'') # coord))"
  using assms by (simp add: dict_get_Cons py_or_def Let_def)

lemma normalize_coord_y:
  assumes "\<not> truthy (dict_get coord ''lat'')" and "\<not> truthy (dict_get coord ''latitude'')"
  shows "normalize_coord f (PyDict coord)
       = normalize_coord f (PyDict ((''lat'', dict_get coord ''y'') # coord))"
  using assms by (simp add: dict_get_Cons py_or_def Let_def)

lemma normalize_coord_longitude:
  assumes "\<not> truthy (dict_get coord ''lng'')" and "truthy (dict_get coord ''longitude'')"
  shows "normalize_coord f (PyDict coord)
       = normalize_coord f (PyDict ((''lng'', dict_get coord ''longitude'') # coord))"
  using assms by (simp add: dict_get_Cons py_or_def Let_def)

lemma normalize_coord_x:
  assumes "\<not> truthy (dict_get coord ''lng'')" and "\<not> truthy (dict_get coord ''longitude'')"
  shows "normalize_coord f (PyDict coord)
       = normalize_coord f (PyDict ((''lng'', dict_get coord ''x'') # coord))"
  using assms by (simp add: dict_get_Cons py_or_def Let_def)

lemma normalize_coord_replaced:
  assumes "(\<not> truthy (dict_get coord ''lat'') \<and> \<not> truthy (dict_get coord ''latitude'')
             \<and> dict_get coord ''y'' = PyNone)
         \<or> (\<not> truthy (dict_get coord ''lng'') \<and> \<not> truthy (dict_get coord ''longitude'')
             \<and> dict_get coord ''x'' = PyNone)"
  shows "normalize_coord f (PyDict coord) = Inr (0, 0)"
  using assms by (auto simp: py_or_def Let_def)

lemma normalize_coord_y_zero:
  assumes "\<not> truthy (dict_get coord ''lat'')" and "\<not> truthy (dict_get coord ''latitude'')"
    and "dict_get coord ''y'' = PyInt 0 \<or> dict_get coord ''y'' = PyFloat 0"
    and "truthy (dict_get coord ''lng'')"
  shows "normalize_coord f (PyDict coord)
       = (case py_float f (dict_get coord ''lng'') of Inl e \<Rightarrow> Inl e | Inr b \<Rightarrow> Inr (0, b))"
  using assms truthy_not_None [OF assms(4)] by (auto simp: py_or_def Let_def)

lemma normalize_coord_x_zero:
  assumes "\<not> truthy (dict_get coord ''lng'')" and "\<not> truthy (dict_get coord ''longitude'')"
    and "dict_get coord ''x'' = PyInt 0 \<or> dict_get coord ''x'' = PyFloat 0"
    and "truthy (dict_get coord ''lat'')"
  shows "normalize_coord f (PyDict coord)
       = (case py_float f (dict_get coord ''lat'') of Inl e \<Rightarrow> Inl e | Inr a \<Rightarrow> Inr (a, 0))"
  using assms truthy_not_None [OF assms(4)] by (auto simp: py_or_def Let_def split: sum.splits)

lemma normalize_coord_sequence:
  assumes "py_float f a = Inr x" and "py_float f b = Inr y"
  shows "normalize_coord f (PyList (a # b # rest)) = Inr (x, y)"
    and "normalize_coord f (PyTuple (a # b # rest)) = Inr (x, y)"
  using assms by simp_all

text \<open>
  Claim C10 (zero coordinates in \<open>_normalize_coords\<close>), as the code has it.  The latitude
  of a dictionary coordinate is the first truthy value under \<open>lat\<close> and \<open>latitude\<close>, and
  what \<open>y\<close> holds when neither is truthy; the longitude is read from \<open>lng\<close>, \<open>longitude\<close>
  and \<open>x\<close> in the same way.  A zero, or any other falsy value, under one of the first two
  aliases is read as if the key were absent, and the next alias is read in its place.  The
  pair is replaced by \<open>(0, 0)\<close> when the last alias of either chain is then absent or
  \<open>None\<close>, whatever the other coordinate is; a zero under the last alias \<open>y\<close> or \<open>x\<close> is
  kept.  A list or tuple coordinate is the pair of the floats of its first two entries, so
  a zero entry is preserved; and the coordinates of a list are normalised one by one.
\<close>

theorem normalize_coords_zero:
  "normalize_coords f [PyDict coord] =
     (let lat = (if truthy (dict_get coord ''lat'') then dict_get coord ''lat''
                 else if truthy (dict_get coord ''latitude'') then dict_get coord ''latitude''
                 else dict_get coord ''y'');
          lng = (if truthy (dict_get coord ''lng'') then dict_get coord ''lng''
                 else if truthy (dict_get coord ''longitude'') then dict_get coord ''longitude''
                 else dict_get coord ''x'')
      in if lat = PyNone \<or> lng = PyNone then Inr [(0, 0)]
         else (case py_float f lat of
                 Inl e \<Rightarrow> Inl e
               | Inr a \<Rightarrow> (case py_float f lng of Inl e \<Rightarrow> Inl e | Inr b \<Rightarrow> Inr [(a, b)])))
   \<and> (\<forall>key \<in> set [''lat'', ''latitude'', ''lng'', ''longitude''].
        \<not> truthy (dict_get coord key) \<longrightarrow>
          normalize_coords f [PyDict coord]
            = normalize_coords f [PyDict (filter (\<lambda>(k, v). k \<noteq> key) coord)])
   \<and> (\<not> truthy (dict_get coord ''lat'') \<and> truthy (dict_get coord ''latitude'') \<longrightarrow>
        normalize_coords f [PyDict coord]
          = normalize_coords f [PyDict ((''lat'', dict_get coord ''latitude'') # coord)])
   \<and> (\<not> truthy (dict_get coord ''lat'') \<and> \<not> truthy (dict_get coord ''latitude'') \<longrightarrow>
        normalize_coords f [PyDict coord]
          = normalize_coords f [PyDict ((''lat'', dict_get coord ''y'') # coord)])
   \<and> (\<not> truthy (dict_get coord ''lng'') \<and> truthy (dict_get coord ''longitude'') \<longrightarrow>
        normalize_coords f [PyDict coord]
          = normalize_coords f [PyDict ((''lng'', dict_get coord ''longitude'') # coord)])
   \<and> (\<not> truthy (dict_get coord ''lng'') \<and> \<not> truthy (dict_get coord ''longitude'') \<longrightarrow>
        normalize_coords f [PyDict coord]
          = normalize_coords f [PyDict ((''lng'', dict_get coord ''x'') # coord)])
   \<and> ((\<not> truthy (dict_get coord ''lat'') \<and> \<not> truthy (dict_get coord ''latitude'')
          \<and> dict_get coord ''y'' = PyNone)
        \<or> (\<not> truthy (dict_get coord ''lng'') \<and> \<not> truthy (dict_get coord ''longitude'')
          \<and> dict_get coord ''x'' = PyNone) \<longrightarrow>
        normalize_coords f [PyDict coord] = Inr [(0, 0)])
   \<and> (\<not> truthy (dict_get coord ''lat'') \<and> \<not> truthy (dict_get coord ''latitude'')
        \<and> (dict_get coord ''y'' = PyInt 0 \<or> dict_get coord ''y'' = PyFloat 0)
        \<and> truthy (dict_get coord ''lng'') \<longrightarrow>
        normalize_coords f [PyDict coord]
          = (case py_float f (dict_get coord ''lng'') of Inl e \<Rightarrow> Inl e | Inr b \<Rightarrow> Inr [(0, b)]))
   \<and> (\<not> truthy (dict_get coord ''lng'') \<and> \<not> truthy (dict_get coord ''longitude'')
        \<and> (dict_get coord ''x'' = PyInt 0 \<or> dict_get coord ''x'' = PyFloat 0)
        \<and> truthy (dict_get coord ''lat'') \<longrightarrow>
        normalize_coords f [PyDict coord]
          = (case py_float f (dict_get coord ''lat'') of Inl e \<Rightarrow> Inl e | Inr a \<Rightarrow> Inr [(a, 0)]))
   \<and> (py_float f a = Inr x \<and> py_float f b = Inr y \<longrightarrow>
        normalize_coords f [PyList (a # b # rest)] = Inr [(x, y)]
        \<and> normalize_coords f [PyTuple (a # b # rest)] = Inr [(x, y)])
   \<and> py_float f (PyInt 0) = Inr 0 \<and> py_float f (PyFloat 0) = Inr 0
   \<and> normalize_coords f (cs @ ds) =
        (case normalize_coords f cs of
           Inl e \<Rightarrow> Inl e
         | Inr r \<Rightarrow> (case normalize_coords f ds of Inl e \<Rightarrow> Inl e | Inr r' \<Rightarrow> Inr (r @ r')))"
proof -
  note s = normalize_coords_single
  have 1: "normalize_coords f [PyDict coord] =
     (let lat = (if truthy (dict_get coord ''lat'') then dict_get coord ''lat''
                 else if truthy (dict_get coord ''latitude'') then dict_get coord ''latitude''
                 else dict_get coord ''y'');
          lng = (if truthy (dict_get coord ''lng'') then dict_get coord ''lng''
                 else if truthy (dict_get coord ''longitude'') then dict_get coord ''longitude''
                 else dict_get coord ''x'')
      in if lat = PyNone \<or> lng = PyNone then Inr [(0, 0)]
         else (case py_float f lat of
                 Inl e \<Rightarrow> Inl e
               | Inr a \<Rightarrow> (case py_float f lng of Inl e \<Rightarrow> Inl e | Inr b \<Rightarrow> Inr [(a, b)])))"
    unfolding s normalize_coord_dict_chain by (simp add: Let_def split: sum.splits)
  have 2: "\<forall>key \<in> set [''lat'', ''latitude'', ''lng'', ''longitude''].
        \<not> truthy (dict_get coord key) \<longrightarrow>
          normalize_coords f [PyDict coord]
            = normalize_coords f [PyDict (filter (\<lambda>(k, v). k \<noteq> key) coord)]"
    unfolding s using normalize_coord_drop_falsy [of _ coord f] by metis
  have 3: "\<not> truthy (dict_get coord ''lat'') \<and> truthy (dict_get coord ''latitude'') \<longrightarrow>
        normalize_coords f [PyDict coord]
          = normalize_coords f [PyDict ((''lat'', dict_get coord ''latitude'') # coord)]"
    unfolding s using normalize_coord_latitude [of coord f] by metis
  have 4: "\<not> truthy (dict_get coord ''lat'') \<and> \<not> truthy (dict_get coord ''latitude'') \<longrightarrow>
        normalize_coords f [PyDict coord]
          = normalize_coords f [PyDict ((''lat'', dict_get coord ''y'') # coord)]"
    unfolding s using normalize_coord_y [of coord f] by metis
  have 5: "\<not> truthy (dict_get coord ''lng'') \<and> truthy (dict_get coord ''longitude'') \<longrightarrow>
        normalize_coords f [PyDict coord]
          = normalize_coords f [PyDict ((''lng'', dict_get coord ''longitude'') # coord)]"
    unfolding s using normalize_coord_longitude [of coord f] by metis
  have 6: "\<not> truthy (dict_get coord ''lng'') \<and> \<not> truthy (dict_get coord ''longitude'') \<longrightarrow>
        normalize_coords f [PyDict coord]
          = normalize_coords f [PyDict ((''lng'', dict_get coord ''x'') # coord)]"
    unfolding s using normalize_coord_x [of coord f] by metis
  have 7: "(\<not> truthy (dict_get coord ''lat'') \<and> \<not> truthy (dict_get coord ''latitude'')
          \<and> dict_get coord ''y'' = PyNone)
        \<or> (\<not> truthy (dict_get coord ''lng'') \<and> \<not> truthy (dict_get coord ''longitude'')
          \<and> dict_get coord ''x'' = PyNone) \<longrightarrow>
        normalize_coords f [PyDict coord] = Inr [(0, 0)]"
    unfolding s using normalize_coord_replaced [of coord f] by auto
  have 8: "\<not> truthy (dict_get coord ''lat'') \<and> \<not> truthy (dict_get coord ''latitude'')
        \<and> (dict_get coord ''y'' = PyInt 0 \<or> dict_get coord ''y'' = PyFloat 0)
        \<and> truthy (dict_get coord ''lng'') \<longrightarrow>
        normalize_coords f [PyDict coord]
          = (case py_float f (dict_get coord ''lng'') of Inl e \<Rightarrow> Inl e | Inr b \<Rightarrow> Inr [(0, b)])"
    unfolding s using normalize_coord_y_zero [of coord f] by (auto split: sum.splits)
  have 9: "\<not> truthy (dict_get coord ''lng'') \<and> \<not> truthy (dict_get coord ''longitude'')
        \<and> (dict_get coord ''x'' = PyInt 0 \<or> dict_get coord ''x'' = PyFloat 0)
        \<and> truthy (dict_get coord ''lat'') \<longrightarrow>
        normalize_coords f [PyDict coord]
          = (case py_float f (dict_get coord ''lat'') of Inl e \<Rightarrow> Inl e | Inr a \<Rightarrow> Inr [(a, 0)])"
    unfolding s using normalize_coord_x_zero [of coord f] by (auto split: sum.splits)
  have 10: "py_float f a = Inr x \<and> py_float f b = Inr y \<longrightarrow>
        normalize_coords f [PyList (a # b # rest)] = Inr [(x, y)]
        \<and> normalize_coords f [PyTuple (a # b # rest)] = Inr [(x, y)]"
    unfolding s using normalize_coord_sequence [of f a x b y rest] by auto
  have 11: "py_float f (PyInt 0) = Inr 0" "py_float f (PyFloat 0) = Inr 0"
    by simp_all
  note 12 = normalize_coords_append [of f cs ds]
  show ?thesis
    using 1 2 3 4 5 6 7 8 9 10 11 12 by blast
qed

theorem normalize_coords_zero_witness:
  "\<not> truthy (dict_get [(''lat'', PyInt 0), (''latitude'', PyInt 7), (''lng'', PyFloat 0),
      (''longitude'', PyInt 5)] ''lat'') \<and> truthy (dict_get [(''lat'', PyInt 0), (''latitude'',
          PyInt 7), (''lng'', PyFloat 0), (''longitude'', PyInt 5)] ''latitude'')
   \<and> \<not> truthy (dict_get [(''lat'', PyInt 0), (''latitude'', PyInt 7), (''lng'', PyFloat 0),
       (''longitude'', PyInt 5)] ''lng'') \<and> truthy (dict_get [(''lat'', PyInt 0), (''latitude'',
           PyInt 7), (''lng'', PyFloat 0), (''longitude'', PyInt 5)] ''longitude'')
   \<and> normalize_coords (\<lambda>s. None) [PyDict [(''lat'', PyInt 0), (''latitude'', PyInt 7), (''lng'',
       PyFloat 0), (''longitude'', PyInt 5)]] = normalize_coords (\<lambda>s. None) [PyDict [(''latitude'',
           PyInt 7), (''lng'', PyFloat 0), (''longitude'', PyInt 5)]]
   \<and> normalize_coords (\<lambda>s. None) [PyDict [(''lat'', PyInt 0), (''latitude'', PyInt 7), (''lng'',
       PyFloat 0), (''longitude'', PyInt 5)]] = Inr [(7, 5)]
   \<and> normalize_coords (\<lambda>s. None) [PyDict [(''lat'', PyInt 0), (''y'', PyInt 7), (''lng'', PyInt 5)]]
       = Inr [(7, 5)]
   \<and> normalize_coords (\<lambda>s. None) [PyDict [(''lat'', PyInt 0), (''lng'', PyInt 5)]] = Inr [(0, 0)]
   \<and> normalize_coords (\<lambda>s. None) [PyDict [(''y'', PyInt 0), (''lng'', PyInt 5)]] = Inr [(0, 5)]
   \<and> normalize_coords (\<lambda>s. None) [PyDict [(''lat'', PyInt 7), (''x'', PyFloat 0)]] = Inr [(7, 0)]
   \<and> normalize_coords (\<lambda>s. None) [PyList [PyInt 0, PyInt 5]] = Inr [(0, 5)]
   \<and> normalize_coords (\<lambda>s. None) [PyTuple [PyInt 0, PyInt 5]] = Inr [(0, 5)]"
proof -
  let ?f = "(\<lambda>s. None) :: string \<Rightarrow> real option"
  let ?d1 = "[(''lat'', PyInt 0), (''latitude'', PyInt 7), (''lng'', PyFloat 0), (''longitude'',
      PyInt 5)]" and ?d1f = "[(''latitude'', PyInt 7), (''lng'', PyFloat 0), (''longitude'', PyInt
          5)]" and ?d2 = "[(''lat'', PyInt 0), (''y'', PyInt 7), (''lng'', PyInt 5)]" and ?d3 =
              "[(''lat'', PyInt 0), (''lng'', PyInt 5)]"
    and ?d4 = "[(''y'', PyInt 0), (''lng'', PyInt 5)]" and ?d5 = "[(''lat'', PyInt 7), (''x'',
        PyFloat 0)]"
  note A = normalize_coords_zero [where f = ?f and coord = ?d1, THEN conjunct2]
  note B = normalize_coords_zero [where f = ?f and coord = ?d2, THEN conjunct2, THEN conjunct2,
      THEN conjunct2, THEN conjunct1]
  note C = normalize_coords_zero [where f = ?f and coord = ?d3, THEN conjunct2, THEN conjunct2,
      THEN conjunct2, THEN conjunct2, THEN conjunct2, THEN conjunct2, THEN conjunct1]
  note D = normalize_coords_zero [where f = ?f and coord = ?d4, THEN conjunct2, THEN conjunct2,
      THEN conjunct2, THEN conjunct2, THEN conjunct2, THEN conjunct2, THEN conjunct2,
      THEN conjunct1]
  note E = normalize_coords_zero [where f = ?f and coord = ?d5, THEN conjunct2, THEN conjunct2,
      THEN conjunct2, THEN conjunct2, THEN conjunct2]
  note G = normalize_coords_zero [where f = ?f and a = "PyInt 0" and b = "PyInt 5"
      and x = 0 and y = 5 and rest = "[]", THEN conjunct2, THEN conjunct2,
      THEN conjunct2, THEN conjunct2, THEN conjunct2, THEN conjunct2, THEN conjunct2,
      THEN conjunct2, THEN conjunct2, THEN conjunct1]
  have g1: "dict_get ?d1 ''lat'' = PyInt 0" "dict_get ?d1 ''latitude'' = PyInt 7"
    "dict_get ?d1 ''lng'' = PyFloat 0" "dict_get ?d1 ''longitude'' = PyInt 5"
    by (simp_all add: dict_get_def)
  have t1: "\<not> truthy (dict_get ?d1 ''lat'')" "truthy (dict_get ?d1 ''latitude'')"
    "\<not> truthy (dict_get ?d1 ''lng'')" "truthy (dict_get ?d1 ''longitude'')"
    by (simp_all add: g1)
  have k: "''lat'' \<in> set [''lat'', ''latitude'', ''lng'', ''longitude'']" by simp
  have a1: "normalize_coords ?f [PyDict ?d1] = normalize_coords ?f [PyDict ?d1f]"
    using A [THEN conjunct1, THEN bspec, OF k, THEN mp, OF t1(1)] by simp
  have a2: "normalize_coords ?f [PyDict ?d1]
          = normalize_coords ?f [PyDict ((''lat'', PyInt 7) # ?d1)]"
    using A [THEN conjunct2, THEN conjunct1, THEN mp, OF conjI [OF t1(1) t1(2)]]
    unfolding g1 .
  have a3: "normalize_coords ?f [PyDict ((''lat'', PyInt 7) # ?d1)]
          = normalize_coords ?f [PyDict ((''lng'', PyInt 5) # (''lat'', PyInt 7) # ?d1)]"
    using normalize_coords_zero [where f = ?f and coord = "(''lat'', PyInt 7) # ?d1",
        THEN conjunct2, THEN conjunct2, THEN conjunct2, THEN conjunct2, THEN conjunct1]
    by (simp add: dict_get_def)
  have a4: "normalize_coords ?f [PyDict ((''lng'', PyInt 5) # (''lat'', PyInt 7) # ?d1)]
          = Inr [(7, 5)]"
    by (simp add: dict_get_def)
  have a: "normalize_coords ?f [PyDict ?d1] = Inr [(7, 5)]"
    using a2 a3 a4 by simp
  have b: "normalize_coords ?f [PyDict ?d2] = Inr [(7, 5)]"
  proof -
    have "normalize_coords ?f [PyDict ?d2]
        = normalize_coords ?f [PyDict ((''lat'', dict_get ?d2 ''y'') # ?d2)]"
      by (rule B [THEN mp]) (simp add: dict_get_def)
    also have "\<dots> = Inr [(7, 5)]" by (simp add: dict_get_def)
    finally show ?thesis .
  qed
  have c: "normalize_coords ?f [PyDict ?d3] = Inr [(0, 0)]"
    by (rule C [THEN mp]) (simp add: dict_get_def)
  have d: "normalize_coords ?f [PyDict ?d4] = Inr [(0, 5)]"
  proof -
    have "normalize_coords ?f [PyDict ?d4]
        = (case py_float ?f (dict_get ?d4 ''lng'') of Inl e \<Rightarrow> Inl e | Inr b \<Rightarrow> Inr [(0, b)])"
      by (rule D [THEN mp]) (simp add: dict_get_def)
    also have "\<dots> = Inr [(0, 5)]" by (simp add: dict_get_def)
    finally show ?thesis .
  qed
  have e: "normalize_coords ?f [PyDict ?d5] = Inr [(7, 0)]"
  proof -
    have "normalize_coords ?f [PyDict ?d5]
        = (case py_float ?f (dict_get ?d5 ''lat'') of Inl e \<Rightarrow> Inl e | Inr a \<Rightarrow> Inr [(a, 0)])"
      by (rule E [THEN conjunct2, THEN conjunct2, THEN conjunct2, THEN conjunct1, THEN mp])
         (simp add: dict_get_def)
    also have "\<dots> = Inr [(7, 0)]" by (simp add: dict_get_def)
    finally show ?thesis .
  qed
  have h: "py_float ?f (PyInt 0) = Inr 0 \<and> py_float ?f (PyInt 5) = Inr 5" by simp
  have g: "normalize_coords ?f [PyList [PyInt 0, PyInt 5]] = Inr [(0, 5)]
         \<and> normalize_coords ?f [PyTuple [PyInt 0, PyInt 5]] = Inr [(0, 5)]"
    by (rule G [THEN mp, OF h])
  show ?thesis using t1 a1 a b c d e g by blast
qed

text \<open>
  Claim C10 as stated fails for a zero under the last alias and for a zero that an alias
  after it replaces: \<open>{'y': 0, 'x': 5}\<close> is normalised to \<open>(0, 5)\<close> and
  \<open>{'lat': 0, 'y': 7, 'lng': 5}\<close> to \<open>(7, 5)\<close>, neither to \<open>(0, 0)\<close>.
\<close>

theorem normalize_coords_zero_counterexample:
  "normalize_coords (\<lambda>s. None) [PyDict [(''y'', PyInt 0), (''x'', PyInt 5)]] = Inr [(0, 5)]
   \<and> normalize_coords (\<lambda>s. None) [PyDict [(''lat'', PyInt 0), (''y'', PyInt 7), (''lng'', PyInt 5)]]
       = Inr [(7, 5)]
   \<and> (0, 5) \<noteq> (0 :: real, 0 :: real) \<and> (7, 5) \<noteq> (0 :: real, 0 :: real)"
  by (simp add: py_or_def dict_get_def)

end
